theory Spec2Isabelle
  imports Main "HOL-Library.Word"
begin

section \<open>The tone-map session manager of composer/hwc\_tonemapper.cpp\<close>

text \<open>
  The file implements two classes: \<open>ToneMapSession\<close> (one tone-map configuration, a pool of
  \<open>kNumIntermediateBuffers\<close> intermediate buffers, a GPU tonemapper handle, one release fence
  per buffer slot) and \<open>HWCToneMapper\<close> (the ordered collection of sessions and the remembered
  index of the frame-buffer session).

  The header \<open>hwc_tonemapper.h\<close>, the buffer allocator, the GPU tonemapper library, the fence
  class and the layer structures are declared outside this file. The constant
  \<open>kNumIntermediateBuffers\<close> is therefore a parameter \<open>N\<close> of every function that uses it.
  Pointers to heap objects owned by exactly one container (\<open>std::vector<ToneMapSession *>\<close>,
  \<open>std::vector<Layer *>\<close>) are modelled by the objects themselves; the state of the shared
  collaborators (allocator, GPU library) is passed explicitly and returned updated.
\<close>

subsection \<open>Integer conversions\<close>

text \<open>\<open>INT(x)\<close> is \<open>static_cast<int>(x)\<close> and \<open>UINT32(x)\<close> is \<open>static_cast<uint32_t>(x)\<close>:
  the value is reduced modulo \<open>2^32\<close> and read signed, respectively unsigned.\<close>

definition INT_cast :: "nat \<Rightarrow> int" where
  "INT_cast n = (let m = int n mod 4294967296 in if m < 2147483648 then m else m - 4294967296)"

definition UINT32 :: "int \<Rightarrow> nat" where
  "UINT32 i = nat (i mod 4294967296)"

subsection \<open>Types declared outside the file\<close>

datatype DisplayError =
  kErrorNone | kErrorUndefined | kErrorNotSupported | kErrorParameters | kErrorMemory
  | kErrorResources

text \<open>Of the composition types only \<open>kCompositionGPU\<close> and \<open>kCompositionGPUTarget\<close> are named
  in the file; every other enumerator takes the \<open>default\<close> branch.\<close>

datatype LayerComposition = kCompositionGPU | kCompositionGPUTarget | kCompositionOther nat

datatype ToneMapType = TONEMAP_INVERSE | TONEMAP_FORWARD

type_synonym LayerBufferFormat = nat
type_synonym GammaTransfer = nat
type_synonym PrimariesTransfer = "nat \<times> nat"

text \<open>A \<open>shared_ptr<Fence>\<close>. The fence class is external; its static operations are kept
  as uninterpreted constructors.\<close>

datatype FencePtr =
  Fence_null
  | Fence_signal nat
  | Fence_Merge FencePtr FencePtr
  | Fence_Dup FencePtr
  | Fence_Create int

record Lut3d =
  lutEntries :: "nat option"
  dim :: "32 word"
  validGridEntries :: bool
  gridEntries :: "nat option"
  gridSize :: "32 word"

record LayerBufferPlane =
  fd :: int
  offset :: "32 word"
  stride :: "32 word"

record LayerBufferFlags =
  hdr :: bool

record ColorMetaData =
  transfer :: GammaTransfer

record LayerBuffer =
  width :: "32 word"
  height :: "32 word"
  format :: LayerBufferFormat
  color_metadata :: ColorMetaData
  planes :: "LayerBufferPlane list"
  acquire_fence :: FencePtr
  release_fence :: FencePtr
  flags :: LayerBufferFlags
  buffer_id :: "64 word"
  size_buf :: "32 word"
  handle_id :: "64 word"

record LayerRequestFlags =
  tone_map :: bool
  secure :: bool

record LayerRequest =
  flags :: LayerRequestFlags
  format :: LayerBufferFormat
  width :: "32 word"
  height :: "32 word"

record Layer =
  input_buffer :: LayerBuffer
  composition :: LayerComposition
  request :: LayerRequest
  lut_3d :: Lut3d

record LayerStack =
  layers :: "Layer list"
  blend_cs :: PrimariesTransfer

record BufferConfig =
  width :: "32 word"
  height :: "32 word"
  format :: LayerBufferFormat
  secure :: bool
  gfx_client :: bool

record AllocatedBufferInfo =
  fd :: int
  size_buf :: "32 word"
  id_buf :: "64 word"

text \<open>\<open>private_data\<close> is the native handle of the buffer; \<open>None\<close> is the null pointer.\<close>

record BufferInfo =
  buffer_config :: BufferConfig
  alloc_buffer_info :: AllocatedBufferInfo
  private_data :: "nat option"

subsection \<open>The buffer allocator\<close>

text \<open>
  The state of the allocator behind \<open>buffer_allocator_\<close>: the handles allocated and not yet
  freed, the geometry it reports for a handle, and its behaviour in the calls to come
  (\<open>alloc_result n\<close> is the code returned by the \<open>n\<close>-th call of \<open>AllocateBuffer\<close>,
  \<open>alloc_info n\<close> the descriptor it fills in when that call succeeds, \<open>map_result n\<close> the code
  returned by the \<open>n\<close>-th call of \<open>MapBuffer\<close>).
\<close>

record HWCBufferAllocator =
  live :: "nat list"
  reported :: "nat option \<Rightarrow> 32 word \<times> 32 word"
  alloc_calls :: nat
  alloc_result :: "nat \<Rightarrow> DisplayError"
  alloc_info :: "nat \<Rightarrow> AllocatedBufferInfo"
  map_calls :: nat
  map_result :: "nat \<Rightarrow> DisplayError"

definition fresh_handle :: "nat list \<Rightarrow> nat" where
  "fresh_handle hs = Suc (foldr max hs 0)"

text \<open>Modelled from the spec: the allocator's \<open>Allocate(config) -> BufferHandle | AllocationError\<close>
  (hwc\_buffer\_allocator.cpp is not part of the file). A failing call leaves the
  \<open>BufferInfo\<close> as it is; a successful one hands out a handle that is not live, fills in the
  descriptor and reports the requested size as the unaligned geometry of the handle.\<close>

definition AllocateBuffer ::
  "HWCBufferAllocator \<Rightarrow> BufferInfo \<Rightarrow> DisplayError \<times> HWCBufferAllocator \<times> BufferInfo" where
  "AllocateBuffer a bi =
     (let n = alloc_calls a;
          e = alloc_result a n;
          a1 = a\<lparr>alloc_calls := Suc n\<rparr>
      in if e \<noteq> kErrorNone then (e, a1, bi)
         else
           (let h = fresh_handle (live a);
                cfg = buffer_config bi
            in (kErrorNone,
                a1\<lparr>live := live a @ [h],
                   reported := (reported a)
                     (Some h := (BufferConfig.width cfg, BufferConfig.height cfg))\<rparr>,
                bi\<lparr>alloc_buffer_info := alloc_info a n, private_data := Some h\<rparr>)))"

text \<open>Modelled from the spec: the allocator's \<open>Free(handle)\<close>; the slot holds no allocation
  afterwards (\<open>FreeBuffers\<close> "skips empty slots" and is "safe to call multiple times").\<close>

definition FreeBuffer ::
  "HWCBufferAllocator \<Rightarrow> BufferInfo \<Rightarrow> HWCBufferAllocator \<times> BufferInfo" where
  "FreeBuffer a bi =
     (case private_data bi of
        None \<Rightarrow> (a, bi)
      | Some h \<Rightarrow> (a\<lparr>live := removeAll h (live a)\<rparr>, bi\<lparr>private_data := None\<rparr>))"

text \<open>Modelled from the spec: \<open>GetUnalignedWidth/Height(handle) -> uint32\<close>, what the allocator
  reports for a handle. The accessors are taken to write their out-parameter in every
  call (\<open>IsSameToneMapConfig\<close> declares \<open>handle_unaligned_width\<close> without an initialiser and
  reads it after the call).\<close>

definition GetUnalignedWidth :: "HWCBufferAllocator \<Rightarrow> nat option \<Rightarrow> 32 word" where
  "GetUnalignedWidth a handle = fst (reported a handle)"

definition GetUnalignedHeight :: "HWCBufferAllocator \<Rightarrow> nat option \<Rightarrow> 32 word" where
  "GetUnalignedHeight a handle = snd (reported a handle)"

text \<open>Modelled from the spec: \<open>MapForRead(handle, fence) -> pointer | Error\<close>; only the
  returned code is kept.\<close>

definition MapBuffer :: "HWCBufferAllocator \<Rightarrow> DisplayError \<times> HWCBufferAllocator" where
  "MapBuffer a = (map_result a (map_calls a), a\<lparr>map_calls := Suc (map_calls a)\<rparr>)"

subsection \<open>The GPU tonemapper library\<close>

record TonemapperArgs =
  arg_type :: ToneMapType
  arg_lutEntries :: "nat option"
  arg_dim :: "32 word"
  arg_grid_entries :: "nat option"
  arg_grid_size :: int
  arg_secure :: bool

text \<open>
  The state of the GPU library: the engines created and not yet deleted, the blits
  dispatched so far (engine, destination handle, source buffer id, wait fence), and its
  behaviour in the calls to come (\<open>factory_result n args\<close> tells whether the \<open>n\<close>-th call of
  \<open>TonemapperFactory_GetInstance\<close> returns an engine, \<open>blit_result n\<close> is the raw fence
  returned by the \<open>n\<close>-th blit).
\<close>

record Tonemapper =
  engines :: "nat list"
  factory_calls :: nat
  factory_result :: "nat \<Rightarrow> TonemapperArgs \<Rightarrow> bool"
  blits :: "(nat option \<times> nat option \<times> 64 word \<times> FencePtr) list"
  blit_result :: "nat \<Rightarrow> int"

text \<open>Modelled from the spec: the factory
  \<open>Create(type, lutData, lutDim, gridEntries, gridSize, secure) -> EngineHandle | null\<close>.\<close>

definition TonemapperFactory_GetInstance ::
  "Tonemapper \<Rightarrow> TonemapperArgs \<Rightarrow> nat option \<times> Tonemapper" where
  "TonemapperFactory_GetInstance g args =
     (let n = factory_calls g;
          g1 = g\<lparr>factory_calls := Suc n\<rparr>
      in if factory_result g n args
         then (let e = fresh_handle (engines g)
               in (Some e, g1\<lparr>engines := engines g @ [e]\<rparr>))
         else (None, g1))"

text \<open>Modelled from the spec: the engine's \<open>Blit(dst, src, waitFence) -> rawFenceInt\<close>.\<close>

definition blit ::
  "Tonemapper \<Rightarrow> nat option \<Rightarrow> nat option \<Rightarrow> 64 word \<Rightarrow> FencePtr \<Rightarrow> int \<times> Tonemapper" where
  "blit g engine dst_hnd src_hnd fence =
     (blit_result g (length (blits g)), g\<lparr>blits := blits g @ [(engine, dst_hnd, src_hnd, fence)]\<rparr>)"

text \<open>\<open>delete gpu_tone_mapper_\<close>; deleting the null pointer does nothing.\<close>

definition delete_Tonemapper :: "Tonemapper \<Rightarrow> nat option \<Rightarrow> Tonemapper" where
  "delete_Tonemapper g engine =
     (case engine of None \<Rightarrow> g | Some e \<Rightarrow> g\<lparr>engines := removeAll e (engines g)\<rparr>)"

subsection \<open>ToneMapSession\<close>

record ToneMapConfig =
  type_tm :: ToneMapType
  blend_cs :: PrimariesTransfer
  transfer :: GammaTransfer
  secure :: bool
  format :: LayerBufferFormat

record ToneMapSession =
  gpu_tone_mapper :: "nat option"
  tone_map_config :: ToneMapConfig
  current_buffer_index :: nat
  buffer_info :: "BufferInfo list"
  release_fence :: "FencePtr list"
  acquired :: bool
  layer_index :: int

text \<open>Modelled from the spec: the member initialisers of \<open>hwc_tonemapper.h\<close> (no engine, the
  cursor at the initial slot, not acquired, bound to no layer), followed by the constructor
  body \<open>buffer_info_.resize(kNumIntermediateBuffers)\<close>.\<close>

definition BufferInfo_init :: BufferInfo where
  "BufferInfo_init =
     \<lparr>buffer_config = \<lparr>BufferConfig.width = 0, BufferConfig.height = 0, BufferConfig.format = 0,
                        BufferConfig.secure = False, gfx_client = False\<rparr>,
      alloc_buffer_info = \<lparr>AllocatedBufferInfo.fd = - 1, AllocatedBufferInfo.size_buf = 0,
                            id_buf = 0\<rparr>,
      private_data = None\<rparr>"

definition ToneMapSession_new :: "nat \<Rightarrow> ToneMapSession" where
  "ToneMapSession_new N =
     \<lparr>gpu_tone_mapper = None,
      tone_map_config = \<lparr>type_tm = TONEMAP_INVERSE, ToneMapConfig.blend_cs = (0, 0),
                          ToneMapConfig.transfer = 0, ToneMapConfig.secure = False,
                          ToneMapConfig.format = 0\<rparr>,
      current_buffer_index = 0,
      buffer_info = replicate N BufferInfo_init,
      ToneMapSession.release_fence = replicate N Fence_null,
      acquired = False,
      layer_index = - 1\<rparr>"

text \<open>\<open>OnTask\<close>, case \<open>kCodeGetInstance\<close>.\<close>

definition OnTask_kCodeGetInstance ::
  "Tonemapper \<Rightarrow> ToneMapSession \<Rightarrow> Layer \<Rightarrow> Tonemapper \<times> ToneMapSession" where
  "OnTask_kCodeGetInstance g s layer =
     (let lut = lut_3d layer;
          grid_entries = (if validGridEntries lut then gridEntries lut else None);
          grid_size = (if validGridEntries lut then INT_cast (unat (gridSize lut)) else 0);
          (engine, g') = TonemapperFactory_GetInstance g
             \<lparr>arg_type = type_tm (tone_map_config s), arg_lutEntries = lutEntries lut,
              arg_dim = dim lut, arg_grid_entries = grid_entries, arg_grid_size = grid_size,
              arg_secure = ToneMapConfig.secure (tone_map_config s)\<rparr>
      in (g', s\<lparr>gpu_tone_mapper := engine\<rparr>))"

text \<open>\<open>OnTask\<close>, case \<open>kCodeBlit\<close>: returns \<open>ctx->fence\<close>.\<close>

definition OnTask_kCodeBlit ::
  "Tonemapper \<Rightarrow> ToneMapSession \<Rightarrow> Layer \<Rightarrow> FencePtr \<Rightarrow> Tonemapper \<times> FencePtr" where
  "OnTask_kCodeBlit g s layer merged =
     (let buffer_index = current_buffer_index s;
          dst_hnd = private_data (buffer_info s ! buffer_index);
          src_hnd = buffer_id (input_buffer layer);
          (fence, g') = blit g (gpu_tone_mapper s) dst_hnd src_hnd (Fence_Dup merged)
      in (g', Fence_Create fence))"

text \<open>\<open>OnTask\<close>, case \<open>kCodeDestroy\<close>.\<close>

definition OnTask_kCodeDestroy :: "Tonemapper \<Rightarrow> ToneMapSession \<Rightarrow> Tonemapper" where
  "OnTask_kCodeDestroy g s = delete_Tonemapper g (gpu_tone_mapper s)"

text \<open>\<open>FreeIntermediateBuffers\<close>: the loop from slot \<open>i\<close> on.\<close>

function FreeIntermediateBuffers_from ::
  "nat \<Rightarrow> nat \<Rightarrow> HWCBufferAllocator \<Rightarrow> ToneMapSession \<Rightarrow> HWCBufferAllocator \<times> ToneMapSession"
  where
  "FreeIntermediateBuffers_from N i a s =
     (if i < N then
        (if private_data (buffer_info s ! i) \<noteq> None then
           (let (a', bi') = FreeBuffer a (buffer_info s ! i)
            in FreeIntermediateBuffers_from N (Suc i) a'
                 (s\<lparr>buffer_info := (buffer_info s)[i := bi']\<rparr>))
         else FreeIntermediateBuffers_from N (Suc i) a s)
      else (a, s))"
  by pat_completeness auto
termination
  by (relation "measure (\<lambda>(N, i, a, s). N - i)") auto

declare FreeIntermediateBuffers_from.simps [simp del]

definition FreeIntermediateBuffers ::
  "nat \<Rightarrow> HWCBufferAllocator \<Rightarrow> ToneMapSession \<Rightarrow> HWCBufferAllocator \<times> ToneMapSession" where
  "FreeIntermediateBuffers N a s = FreeIntermediateBuffers_from N 0 a s"

text \<open>\<open>AllocateIntermediateBuffers\<close>: the loop from slot \<open>i\<close> on.\<close>

function AllocateIntermediateBuffers_from ::
  "nat \<Rightarrow> nat \<Rightarrow> HWCBufferAllocator \<Rightarrow> ToneMapSession \<Rightarrow> Layer
     \<Rightarrow> DisplayError \<times> HWCBufferAllocator \<times> ToneMapSession" where
  "AllocateIntermediateBuffers_from N i a s layer =
     (if i < N then
        (let bi = (buffer_info s ! i)
               \<lparr>buffer_config :=
                  \<lparr>BufferConfig.width = LayerRequest.width (request layer),
                   BufferConfig.height = LayerRequest.height (request layer),
                   BufferConfig.format = LayerRequest.format (request layer),
                   BufferConfig.secure = LayerRequestFlags.secure (LayerRequest.flags (request layer)),
                   gfx_client = True\<rparr>\<rparr>;
             (error, a', bi') = AllocateBuffer a bi;
             s' = s\<lparr>buffer_info := (buffer_info s)[i := bi']\<rparr>
         in if error \<noteq> kErrorNone then
              (let (a'', s'') = FreeIntermediateBuffers N a' s' in (error, a'', s''))
            else AllocateIntermediateBuffers_from N (Suc i) a' s' layer)
      else (kErrorNone, a, s))"
  by pat_completeness auto
termination
  by (relation "measure (\<lambda>(N, i, a, s, layer). N - i)") auto

declare AllocateIntermediateBuffers_from.simps [simp del]

definition AllocateIntermediateBuffers ::
  "nat \<Rightarrow> HWCBufferAllocator \<Rightarrow> ToneMapSession \<Rightarrow> Layer
     \<Rightarrow> DisplayError \<times> HWCBufferAllocator \<times> ToneMapSession" where
  "AllocateIntermediateBuffers N a s layer = AllocateIntermediateBuffers_from N 0 a s layer"

text \<open>\<open>UpdateBuffer\<close> writes into the layer buffer it is given; the session is only read.
  \<open>planes\<close> is an array, so \<open>planes[0]\<close> always exists.\<close>

definition UpdateBuffer ::
  "ToneMapSession \<Rightarrow> FencePtr \<Rightarrow> 'a LayerBuffer_scheme \<Rightarrow> 'a LayerBuffer_scheme" where
  "UpdateBuffer s acquire_fence' buffer =
     (let info = alloc_buffer_info (buffer_info s ! current_buffer_index s)
      in buffer\<lparr>acquire_fence := acquire_fence',
                LayerBuffer.size_buf := AllocatedBufferInfo.size_buf info,
                planes := (planes buffer)
                   [0 := (planes buffer ! 0)\<lparr>LayerBufferPlane.fd := AllocatedBufferInfo.fd info\<rparr>],
                handle_id := id_buf info\<rparr>)"

definition SetReleaseFence :: "ToneMapSession \<Rightarrow> FencePtr \<Rightarrow> ToneMapSession" where
  "SetReleaseFence s fd' =
     s\<lparr>ToneMapSession.release_fence :=
         (ToneMapSession.release_fence s)[current_buffer_index s := fd']\<rparr>"

definition SetToneMapConfig :: "ToneMapSession \<Rightarrow> Layer \<Rightarrow> PrimariesTransfer \<Rightarrow> ToneMapSession"
  where
  "SetToneMapConfig s layer blend_cs' =
     s\<lparr>tone_map_config :=
         \<lparr>type_tm = (if hdr (LayerBuffer.flags (input_buffer layer))
                      then TONEMAP_FORWARD else TONEMAP_INVERSE),
          ToneMapConfig.blend_cs = blend_cs',
          ToneMapConfig.transfer = ColorMetaData.transfer (color_metadata (input_buffer layer)),
          ToneMapConfig.secure = LayerRequestFlags.secure (LayerRequest.flags (request layer)),
          ToneMapConfig.format = LayerRequest.format (request layer)\<rparr>\<rparr>"

definition IsSameToneMapConfig ::
  "HWCBufferAllocator \<Rightarrow> ToneMapSession \<Rightarrow> Layer \<Rightarrow> PrimariesTransfer \<Rightarrow> bool" where
  "IsSameToneMapConfig a s layer blend_cs' =
     (let buffer = input_buffer layer;
          handle = private_data (buffer_info s ! 0);
          tonemap_type = (if hdr (LayerBuffer.flags buffer) then TONEMAP_FORWARD else TONEMAP_INVERSE);
          handle_unaligned_width = GetUnalignedWidth a handle;
          handle_unaligned_height = GetUnalignedHeight a handle
      in tonemap_type = type_tm (tone_map_config s)
         \<and> blend_cs' = ToneMapConfig.blend_cs (tone_map_config s)
         \<and> ColorMetaData.transfer (color_metadata buffer) = ToneMapConfig.transfer (tone_map_config s)
         \<and> LayerRequestFlags.secure (LayerRequest.flags (request layer))
             = ToneMapConfig.secure (tone_map_config s)
         \<and> LayerRequest.format (request layer) = ToneMapConfig.format (tone_map_config s)
         \<and> LayerRequest.width (request layer) = handle_unaligned_width
         \<and> LayerRequest.height (request layer) = handle_unaligned_height)"

text \<open>The destructor: the destroy task, \<open>FreeIntermediateBuffers\<close>, \<open>buffer_info_.clear()\<close>.
  The object is gone afterwards; what remains is the state of the two collaborators.\<close>

definition ToneMapSession_delete ::
  "nat \<Rightarrow> HWCBufferAllocator \<times> Tonemapper \<Rightarrow> ToneMapSession \<Rightarrow> HWCBufferAllocator \<times> Tonemapper"
  where
  "ToneMapSession_delete N ag s =
     (let g' = OnTask_kCodeDestroy (snd ag) s;
          (a', s') = FreeIntermediateBuffers N (fst ag) s
      in (a', g'))"

subsection \<open>HWCToneMapper\<close>

text \<open>
  The manager: the session collection, the remembered index of the frame-buffer session
  and the dump counters (both \<open>uint32_t\<close>). \<open>buffer_allocator\<close> is the state of the allocator
  the member \<open>buffer_allocator_\<close> points to (every session holds the same pointer); \<open>gpu\<close> is
  the state of the GPU library, which is not a member but is reached from every session
  of the collection.
\<close>

record HWCToneMapper =
  tone_map_sessions :: "ToneMapSession list"
  fb_session_index :: int
  dump_frame_count :: "32 word"
  dump_frame_index :: "32 word"
  buffer_allocator :: HWCBufferAllocator
  gpu :: Tonemapper

text \<open>Modelled from the spec: the manager as constructed, from the member initialisers of
  \<open>hwc_tonemapper.h\<close>: no session, "none" (\<open>-1\<close>) as the index of the frame-buffer session,
  nothing to dump. The allocator and the GPU library it works with are arguments.\<close>

definition HWCToneMapper_new :: "HWCBufferAllocator \<Rightarrow> Tonemapper \<Rightarrow> HWCToneMapper" where
  "HWCToneMapper_new a g =
     \<lparr>tone_map_sessions = [], fb_session_index = - 1, dump_frame_count = 0,
      dump_frame_index = 0, buffer_allocator = a, gpu = g\<rparr>"

text \<open>\<open>std::vector::at\<close> throws \<open>std::out_of_range\<close> for an index that is not below the
  size.\<close>

datatype exn = std_out_of_range

definition vector_at :: "'a list \<Rightarrow> nat \<Rightarrow> exn + 'a" where
  "vector_at xs i = (if i < length xs then Inr (xs ! i) else Inl std_out_of_range)"

text \<open>\<open>DumpToneMapOutput\<close>: the file written is outside the model; what remains is the call
  of \<open>MapBuffer\<close> and the two counters.\<close>

definition DumpToneMapOutput :: "HWCToneMapper \<Rightarrow> ToneMapSession \<Rightarrow> FencePtr \<Rightarrow> HWCToneMapper"
  where
  "DumpToneMapOutput tm session acquire_fd =
     (if dump_frame_count tm = 0 then tm
      else
        (let (error, a') = MapBuffer (buffer_allocator tm);
             tm1 = tm\<lparr>buffer_allocator := a'\<rparr>
         in if error \<noteq> kErrorNone then tm1
            else tm1\<lparr>dump_frame_count := dump_frame_count tm - 1,
                     dump_frame_index := dump_frame_index tm + 1\<rparr>))"

definition SetFrameDumpConfig :: "HWCToneMapper \<Rightarrow> 32 word \<Rightarrow> HWCToneMapper" where
  "SetFrameDumpConfig tm count = tm\<lparr>dump_frame_count := count, dump_frame_index := 0\<rparr>"

text \<open>\<open>ToneMap\<close> reads the session and writes the layer's input buffer.\<close>

definition ToneMap :: "HWCToneMapper \<Rightarrow> Layer \<Rightarrow> ToneMapSession \<Rightarrow> HWCToneMapper \<times> Layer" where
  "ToneMap tm layer session =
     (let buffer_index = current_buffer_index session;
          merged = Fence_Merge (ToneMapSession.release_fence session ! buffer_index)
                     (acquire_fence (input_buffer layer));
          (g', fence) = OnTask_kCodeBlit (gpu tm) session layer merged;
          tm1 = DumpToneMapOutput (tm\<lparr>gpu := g'\<rparr>) session fence
      in (tm1, layer\<lparr>input_buffer := UpdateBuffer session fence (input_buffer layer)\<rparr>))"

text \<open>\<open>AcquireToneMapSession\<close>, the loop that looks for a session to re-use, from index
  \<open>i\<close> on: the index found and the updated manager, or \<open>None\<close> when the loop runs out.
  The cursor is a \<open>uint8_t\<close>; the sum \<open>current_buffer_index_ + 1\<close> is computed in \<open>int\<close> and the
  remainder is below \<open>kNumIntermediateBuffers\<close>, itself a \<open>uint8_t\<close>, so nothing wraps.\<close>

function AcquireToneMapSession_reuse ::
  "nat \<Rightarrow> nat \<Rightarrow> HWCToneMapper \<Rightarrow> Layer \<Rightarrow> PrimariesTransfer \<Rightarrow> (nat \<times> HWCToneMapper) option"
  where
  "AcquireToneMapSession_reuse N i tm layer blend_cs' =
     (if i < length (tone_map_sessions tm) then
        (let tonemap_session = tone_map_sessions tm ! i
         in if \<not> acquired tonemap_session
               \<and> IsSameToneMapConfig (buffer_allocator tm) tonemap_session layer blend_cs'
            then Some (i, tm\<lparr>tone_map_sessions := (tone_map_sessions tm)
                        [i := tonemap_session
                           \<lparr>current_buffer_index := (current_buffer_index tonemap_session + 1) mod N,
                            acquired := True\<rparr>]\<rparr>)
            else AcquireToneMapSession_reuse N (Suc i) tm layer blend_cs')
      else None)"
  by pat_completeness auto
termination
  by (relation "measure (\<lambda>(N, i, tm, layer, b). length (tone_map_sessions tm) - i)") auto

declare AcquireToneMapSession_reuse.simps [simp del]

text \<open>\<open>AcquireToneMapSession\<close>. \<open>session_index\<close> is the value \<open>*session_index\<close> holds at the
  call; the second component of the result is the value it holds at the return. Plain
  \<open>new\<close> does not return null, so the \<open>kErrorMemory\<close> branch is never taken.\<close>

definition AcquireToneMapSession ::
  "nat \<Rightarrow> HWCToneMapper \<Rightarrow> Layer \<Rightarrow> nat \<Rightarrow> PrimariesTransfer
     \<Rightarrow> DisplayError \<times> nat \<times> HWCToneMapper" where
  "AcquireToneMapSession N tm layer session_index blend_cs' =
     (if lutEntries (lut_3d layer) = None \<or> dim (lut_3d layer) = 0
      then (kErrorParameters, session_index, tm)
      else
        (case AcquireToneMapSession_reuse N 0 tm layer blend_cs' of
           Some (i, tm') \<Rightarrow> (kErrorNone, i, tm')
         | None \<Rightarrow>
             (let session0 = SetToneMapConfig (ToneMapSession_new N) layer blend_cs';
                  (g1, session1) = OnTask_kCodeGetInstance (gpu tm) session0 layer
              in if gpu_tone_mapper session1 = None then
                   (let (a', g') = ToneMapSession_delete N (buffer_allocator tm, g1) session1
                    in (kErrorNotSupported, session_index,
                        tm\<lparr>buffer_allocator := a', gpu := g'\<rparr>))
                 else
                   (let (error, a2, session2) =
                          AllocateIntermediateBuffers N (buffer_allocator tm) session1 layer
                    in if error \<noteq> kErrorNone then
                         (let (a', g') = ToneMapSession_delete N (a2, g1) session2
                          in (error, session_index, tm\<lparr>buffer_allocator := a', gpu := g'\<rparr>))
                       else
                         (let sessions' = tone_map_sessions tm @ [session2\<lparr>acquired := True\<rparr>]
                          in (kErrorNone, UINT32 (int (length sessions') - 1),
                              tm\<lparr>tone_map_sessions := sessions', buffer_allocator := a2,
                                 gpu := g1\<rparr>))))))"

text \<open>\<open>Terminate\<close>: the inner \<open>while\<close> loop, then the function.\<close>

function Terminate_loop :: "nat \<Rightarrow> HWCToneMapper \<Rightarrow> HWCToneMapper" where
  "Terminate_loop N tm =
     (if tone_map_sessions tm \<noteq> [] then
        (let (a', g') = ToneMapSession_delete N (buffer_allocator tm, gpu tm)
                          (last (tone_map_sessions tm))
         in Terminate_loop N
              (tm\<lparr>tone_map_sessions := butlast (tone_map_sessions tm),
                  buffer_allocator := a', gpu := g'\<rparr>))
      else tm)"
  by pat_completeness auto
termination
  by (relation "measure (\<lambda>(N, tm). length (tone_map_sessions tm))") (auto split: prod.splits)

declare Terminate_loop.simps [simp del]

definition Terminate :: "nat \<Rightarrow> HWCToneMapper \<Rightarrow> HWCToneMapper" where
  "Terminate N tm =
     (if length (tone_map_sessions tm) \<noteq> 0
      then (Terminate_loop N tm)\<lparr>fb_session_index := - 1\<rparr>
      else tm)"

text \<open>
  \<open>HandleToneMap\<close>, the block run for a layer whose \<open>tone_map\<close> flag is set. \<open>gpu_count\<close> is the
  counter after the layer itself has been counted. The block either returns from
  \<open>HandleToneMap\<close> or falls through to the next iteration; in both cases it hands back
  the manager and the layer as it left them.
\<close>

datatype flow = Continue | Return int

definition HandleToneMap_layer ::
  "nat \<Rightarrow> nat \<Rightarrow> nat \<Rightarrow> HWCToneMapper \<Rightarrow> PrimariesTransfer \<Rightarrow> Layer
     \<Rightarrow> exn + flow \<times> HWCToneMapper \<times> Layer" where
  "HandleToneMap_layer N i gpu_count tm blend_cs' layer =
     (if composition layer = kCompositionGPUTarget \<and> gpu_count = 0
         \<and> tone_map_sessions tm \<noteq> [] \<and> fb_session_index tm \<ge> 0
      then
        (case vector_at (tone_map_sessions tm) (UINT32 (fb_session_index tm)) of
           Inl e \<Rightarrow> Inl e
         | Inr fb_tone_map_session \<Rightarrow>
             Inr (Return 0,
                  tm\<lparr>tone_map_sessions := (tone_map_sessions tm)
                       [UINT32 (fb_session_index tm) :=
                          fb_tone_map_session\<lparr>layer_index := INT_cast i, acquired := True\<rparr>]\<rparr>,
                  layer\<lparr>input_buffer :=
                          UpdateBuffer fb_tone_map_session Fence_null (input_buffer layer)\<rparr>))
      else
        (let (error, session_index, tm1) = AcquireToneMapSession N tm layer 0 blend_cs';
             tm2 = (case composition layer of
                      kCompositionGPUTarget \<Rightarrow> tm1\<lparr>fb_session_index := INT_cast session_index\<rparr>
                    | _ \<Rightarrow> tm1)
         in if error \<noteq> kErrorNone then Inr (Return (- 1), Terminate N tm2, layer)
            else
              (case vector_at (tone_map_sessions tm2) session_index of
                 Inl e \<Rightarrow> Inl e
               | Inr session \<Rightarrow>
                   (let (tm3, layer') = ToneMap tm2 layer session
                    in Inr (Continue,
                            tm3\<lparr>tone_map_sessions := (tone_map_sessions tm3)
                                  [session_index := session\<lparr>layer_index := INT_cast i\<rparr>]\<rparr>,
                            layer')))))"

text \<open>\<open>HandleToneMap\<close>: the \<open>for\<close> loop from layer \<open>i\<close> on, then the function.\<close>

function HandleToneMap_from ::
  "nat \<Rightarrow> nat \<Rightarrow> nat \<Rightarrow> HWCToneMapper \<Rightarrow> LayerStack \<Rightarrow> exn + int \<times> HWCToneMapper \<times> LayerStack"
  where
  "HandleToneMap_from N i gpu_count tm layer_stack =
     (if i < length (layers layer_stack) then
        (let layer = layers layer_stack ! i;
             gpu_count' = (if composition layer = kCompositionGPU then gpu_count + 1
                           else gpu_count)
         in if tone_map (LayerRequest.flags (request layer)) then
              (case HandleToneMap_layer N i gpu_count' tm (LayerStack.blend_cs layer_stack) layer of
                 Inl e \<Rightarrow> Inl e
               | Inr (Return status, tm', layer') \<Rightarrow>
                   Inr (status, tm',
                        layer_stack\<lparr>layers := (layers layer_stack)[i := layer']\<rparr>)
               | Inr (Continue, tm', layer') \<Rightarrow>
                   HandleToneMap_from N (Suc i) gpu_count' tm'
                     (layer_stack\<lparr>layers := (layers layer_stack)[i := layer']\<rparr>))
            else HandleToneMap_from N (Suc i) gpu_count' tm layer_stack)
      else Inr (0, tm, layer_stack))"
  by pat_completeness auto
termination
  by (relation "measure (\<lambda>(N, i, g, tm, ls). length (layers ls) - i)") auto

declare HandleToneMap_from.simps [simp del]

definition HandleToneMap ::
  "nat \<Rightarrow> HWCToneMapper \<Rightarrow> LayerStack \<Rightarrow> exn + int \<times> HWCToneMapper \<times> LayerStack" where
  "HandleToneMap N tm layer_stack = HandleToneMap_from N 0 0 tm layer_stack"

text \<open>\<open>PostCommit\<close>, the branch that closes the session at index \<open>session_index\<close>: the session
  is deleted, erased from the vector, and the remembered index is adjusted.\<close>

definition PostCommit_erase :: "nat \<Rightarrow> nat \<Rightarrow> HWCToneMapper \<Rightarrow> HWCToneMapper" where
  "PostCommit_erase N session_index tm =
     (let session = tone_map_sessions tm ! session_index;
          (a', g') = ToneMapSession_delete N (buffer_allocator tm, gpu tm) session;
          deleted_session = INT_cast session_index
      in tm\<lparr>tone_map_sessions := take session_index (tone_map_sessions tm)
                                    @ drop (Suc session_index) (tone_map_sessions tm),
            buffer_allocator := a', gpu := g',
            fb_session_index :=
              (if deleted_session = fb_session_index tm then - 1
               else if deleted_session < fb_session_index tm then fb_session_index tm - 1
               else fb_session_index tm)\<rparr>)"

text \<open>\<open>PostCommit\<close>: the \<open>while\<close> loop with the iterator at index \<open>i\<close>, then the function.\<close>

function PostCommit_from :: "nat \<Rightarrow> nat \<Rightarrow> HWCToneMapper \<Rightarrow> LayerStack \<Rightarrow> exn + HWCToneMapper"
  where
  "PostCommit_from N i tm layer_stack =
     (if i < length (tone_map_sessions tm) then
        (let session = tone_map_sessions tm ! i
         in if acquired session then
              (case vector_at (layers layer_stack) (UINT32 (layer_index session)) of
                 Inl e \<Rightarrow> Inl e
               | Inr layer \<Rightarrow>
                   PostCommit_from N (Suc i)
                     (tm\<lparr>tone_map_sessions := (tone_map_sessions tm)
                           [i := (SetReleaseFence session
                                    (LayerBuffer.release_fence (input_buffer layer)))
                                 \<lparr>acquired := False\<rparr>]\<rparr>)
                     layer_stack)
            else PostCommit_from N i (PostCommit_erase N i tm) layer_stack)
      else Inr tm)"
  by pat_completeness auto
termination
  by (relation "measure (\<lambda>(N, i, tm, ls). length (tone_map_sessions tm) - i)")
     (auto simp: PostCommit_erase_def Let_def split: prod.splits)

declare PostCommit_from.simps [simp del]

definition PostCommit :: "nat \<Rightarrow> HWCToneMapper \<Rightarrow> LayerStack \<Rightarrow> exn + HWCToneMapper" where
  "PostCommit N tm layer_stack = PostCommit_from N 0 tm layer_stack"

section \<open>Notions used in the statements\<close>

text \<open>A buffer slot with its handle cleared, the handles held by a list of buffer slots,
  and the buffer configuration \<open>AllocateIntermediateBuffers\<close> writes for a layer.\<close>

definition clear_slot :: "BufferInfo \<Rightarrow> BufferInfo" where
  "clear_slot bi = bi\<lparr>private_data := None\<rparr>"

definition handles :: "BufferInfo list \<Rightarrow> nat set" where
  "handles bis = {h. Some h \<in> private_data ` set bis}"

definition request_config :: "Layer \<Rightarrow> BufferConfig" where
  "request_config layer =
     \<lparr>BufferConfig.width = LayerRequest.width (request layer),
      BufferConfig.height = LayerRequest.height (request layer),
      BufferConfig.format = LayerRequest.format (request layer),
      BufferConfig.secure = LayerRequestFlags.secure (LayerRequest.flags (request layer)),
      gfx_client = True\<rparr>"

text \<open>The state in which \<open>PostCommit\<close> leaves a session that was acquired; the handles
  and the engines owned by a list of sessions.\<close>

definition PostCommit_keep :: "LayerStack \<Rightarrow> ToneMapSession \<Rightarrow> ToneMapSession" where
  "PostCommit_keep layer_stack s =
     s\<lparr>ToneMapSession.release_fence := (ToneMapSession.release_fence s)
          [current_buffer_index s :=
             LayerBuffer.release_fence
               (input_buffer (layers layer_stack ! UINT32 (layer_index s)))],
       acquired := False\<rparr>"

definition closed_handles :: "ToneMapSession list \<Rightarrow> nat set" where
  "closed_handles ss = (\<Union>s\<in>set ss. handles (buffer_info s))"

definition closed_engines :: "ToneMapSession list \<Rightarrow> nat set" where
  "closed_engines ss = {e. Some e \<in> gpu_tone_mapper ` set ss}"

text \<open>The remembered frame-buffer index once the loop of \<open>PostCommit\<close>, standing at index
  \<open>i\<close> with the sessions \<open>ss\<close> and the remembered index \<open>f\<close>, has run to its end: an index
  below \<open>i\<close> is not touched any more; an index of a session that is not acquired ends as
  \<open>-1\<close>; an index of an acquired session goes down by the number of sessions between \<open>i\<close>
  and it that are not acquired; an index behind the collection goes down by the number of
  all sessions from \<open>i\<close> on that are not acquired.\<close>

definition PostCommit_index :: "nat \<Rightarrow> ToneMapSession list \<Rightarrow> int \<Rightarrow> int" where
  "PostCommit_index i ss f =
     (if f < int i then f
      else if nat f < length ss then
        (if acquired (ss ! nat f)
         then f - int (length (filter (\<lambda>s. \<not> acquired s) (take (nat f - i) (drop i ss))))
         else - 1)
      else f - int (length (filter (\<lambda>s. \<not> acquired s) (drop i ss))))"

text \<open>A session can be re-used for a layer when it is not acquired in this frame and its
  configuration matches; the engine the factory hands to a session newly built for a
  layer.\<close>

definition reusable :: "HWCToneMapper \<Rightarrow> Layer \<Rightarrow> PrimariesTransfer \<Rightarrow> ToneMapSession \<Rightarrow> bool" where
  "reusable tm layer bcs s \<longleftrightarrow>
     \<not> acquired s \<and> IsSameToneMapConfig (buffer_allocator tm) s layer bcs"

definition AcquireToneMapSession_engine ::
  "nat \<Rightarrow> HWCToneMapper \<Rightarrow> Layer \<Rightarrow> PrimariesTransfer \<Rightarrow> nat option" where
  "AcquireToneMapSession_engine N tm layer bcs =
     gpu_tone_mapper (snd (OnTask_kCodeGetInstance (gpu tm)
        (SetToneMapConfig (ToneMapSession_new N) layer bcs) layer))"

text \<open>The counter of \<open>HandleToneMap\<close> after a layer has been counted, and the states in which
  the loop of \<open>HandleToneMap\<close>, started on a manager and a layer stack, stands at the head
  of an iteration: at layer \<open>0\<close> with the counter at \<open>0\<close>, and after an iteration that did not
  return, whether the layer was not flagged for tone mapping or its block fell through.\<close>

definition count_gpu :: "nat \<Rightarrow> Layer \<Rightarrow> nat" where
  "count_gpu gpu_count layer =
     (if composition layer = kCompositionGPU then gpu_count + 1 else gpu_count)"

inductive HandleToneMap_reaches ::
  "nat \<Rightarrow> HWCToneMapper \<Rightarrow> LayerStack \<Rightarrow> nat \<Rightarrow> nat \<Rightarrow> HWCToneMapper \<Rightarrow> LayerStack \<Rightarrow> bool"
  for N tm0 ls0 where
  reach_entry: "HandleToneMap_reaches N tm0 ls0 0 0 tm0 ls0"
| reach_skip:
  "HandleToneMap_reaches N tm0 ls0 i gc tm ls \<Longrightarrow> i < length (layers ls) \<Longrightarrow>
   \<not> tone_map (LayerRequest.flags (request (layers ls ! i))) \<Longrightarrow>
   HandleToneMap_reaches N tm0 ls0 (Suc i) (count_gpu gc (layers ls ! i)) tm ls"
| reach_mapped:
  "HandleToneMap_reaches N tm0 ls0 i gc tm ls \<Longrightarrow> i < length (layers ls) \<Longrightarrow>
   tone_map (LayerRequest.flags (request (layers ls ! i))) \<Longrightarrow>
   HandleToneMap_layer N i (count_gpu gc (layers ls ! i)) tm (LayerStack.blend_cs ls)
     (layers ls ! i) = Inr (Continue, tm', layer') \<Longrightarrow>
   HandleToneMap_reaches N tm0 ls0 (Suc i) (count_gpu gc (layers ls ! i)) tm'
     (ls\<lparr>layers := (layers ls)[i := layer']\<rparr>)"

section \<open>Example inputs\<close>

text \<open>An HDR layer of 1920 x 1080 flagged for tone mapping, with a 3D lookup table of
  dimension 17; the same layer with a table of dimension zero, as the frame-buffer
  target, and not flagged for tone mapping.\<close>

definition example_layer :: Layer where
  "example_layer =
     \<lparr>input_buffer =
        \<lparr>LayerBuffer.width = 1920, LayerBuffer.height = 1080, LayerBuffer.format = 1,
         color_metadata = \<lparr>ColorMetaData.transfer = 7\<rparr>,
         planes = [\<lparr>LayerBufferPlane.fd = 40, offset = 0, stride = 7680\<rparr>,
                   \<lparr>LayerBufferPlane.fd = 41, offset = 16, stride = 7680\<rparr>],
         acquire_fence = Fence_signal 1, LayerBuffer.release_fence = Fence_signal 2,
         LayerBuffer.flags = \<lparr>hdr = True\<rparr>, buffer_id = 500,
         LayerBuffer.size_buf = 8294400, handle_id = 600\<rparr>,
      composition = kCompositionOther 0,
      request = \<lparr>LayerRequest.flags = \<lparr>tone_map = True, LayerRequestFlags.secure = False\<rparr>,
                 LayerRequest.format = 1, LayerRequest.width = 1920, LayerRequest.height = 1080\<rparr>,
      lut_3d = \<lparr>lutEntries = Some 1, dim = 17, validGridEntries = False, gridEntries = None,
                gridSize = 0\<rparr>\<rparr>"

definition example_layer_no_lut :: Layer where
  "example_layer_no_lut = example_layer\<lparr>lut_3d := (lut_3d example_layer)\<lparr>dim := 0\<rparr>\<rparr>"

definition example_layer_fb :: Layer where
  "example_layer_fb = example_layer\<lparr>composition := kCompositionGPUTarget\<rparr>"

definition example_layer_plain :: Layer where
  "example_layer_plain =
     example_layer\<lparr>request := (request example_layer)
        \<lparr>LayerRequest.flags := \<lparr>tone_map = False, LayerRequestFlags.secure = False\<rparr>\<rparr>\<rparr>"

text \<open>An allocator with nothing allocated, whose behaviour in the calls of \<open>AllocateBuffer\<close>
  is the argument; an allocator holding two buffers; a GPU library with no engine, whose
  factory behaves as the argument says.\<close>

definition example_allocator :: "(nat \<Rightarrow> DisplayError) \<Rightarrow> HWCBufferAllocator" where
  "example_allocator r =
     \<lparr>live = [], reported = (\<lambda>h. (0, 0)), alloc_calls = 0, alloc_result = r,
      alloc_info = (\<lambda>n. \<lparr>AllocatedBufferInfo.fd = 10 + int n,
                            AllocatedBufferInfo.size_buf = 8294400, id_buf = 100 + of_nat n\<rparr>),
      map_calls = 0, map_result = (\<lambda>n. kErrorNone)\<rparr>"

definition example_allocator_live :: HWCBufferAllocator where
  "example_allocator_live =
     (example_allocator (\<lambda>n. kErrorNone))
       \<lparr>live := [1, 2],
        reported := (\<lambda>h. if h = None then (0, 0) else (1920, 1080)),
        alloc_calls := 2\<rparr>"

definition example_gpu :: "(nat \<Rightarrow> bool) \<Rightarrow> Tonemapper" where
  "example_gpu ok =
     \<lparr>engines = [], factory_calls = 0, factory_result = (\<lambda>n args. ok n), blits = [],
      blit_result = (\<lambda>n. 20 + int n)\<rparr>"

text \<open>Two sessions with two allocated buffers each, configured for the example layer and
  the blend color space \<open>(1, 2)\<close>.\<close>

definition example_session :: ToneMapSession where
  "example_session =
     \<lparr>gpu_tone_mapper = Some 1,
      tone_map_config = \<lparr>type_tm = TONEMAP_FORWARD, ToneMapConfig.blend_cs = (1, 2),
                          ToneMapConfig.transfer = 7, ToneMapConfig.secure = False,
                          ToneMapConfig.format = 1\<rparr>,
      current_buffer_index = 1,
      buffer_info =
        [\<lparr>buffer_config = \<lparr>BufferConfig.width = 1920, BufferConfig.height = 1080,
                             BufferConfig.format = 1, BufferConfig.secure = False,
                             gfx_client = True\<rparr>,
          alloc_buffer_info = \<lparr>AllocatedBufferInfo.fd = 10,
                                 AllocatedBufferInfo.size_buf = 8294400, id_buf = 100\<rparr>,
          private_data = Some 1\<rparr>,
         \<lparr>buffer_config = \<lparr>BufferConfig.width = 1920, BufferConfig.height = 1080,
                             BufferConfig.format = 1, BufferConfig.secure = False,
                             gfx_client = True\<rparr>,
          alloc_buffer_info = \<lparr>AllocatedBufferInfo.fd = 11,
                                 AllocatedBufferInfo.size_buf = 8294400, id_buf = 101\<rparr>,
          private_data = Some 2\<rparr>],
      ToneMapSession.release_fence = [Fence_null, Fence_signal 9],
      acquired = False,
      layer_index = 0\<rparr>"

definition example_session2 :: ToneMapSession where
  "example_session2 =
     example_session
       \<lparr>gpu_tone_mapper := Some 2,
        buffer_info :=
          [(buffer_info example_session ! 0)\<lparr>private_data := Some 3\<rparr>,
           (buffer_info example_session ! 1)\<lparr>private_data := Some 4\<rparr>]\<rparr>"

text \<open>Managers: newly constructed with an allocator and a factory that never fail; with an
  acquired and a not acquired session, the second being the frame-buffer session; the
  latter with a factory that returns no engine, with an allocator whose second call
  to come fails, and with the two sessions in the other order, so that the frame-buffer
  session is the acquired one.\<close>

definition example_manager_new :: HWCToneMapper where
  "example_manager_new =
     HWCToneMapper_new (example_allocator (\<lambda>n. kErrorNone)) (example_gpu (\<lambda>n. True))"

definition example_manager :: HWCToneMapper where
  "example_manager =
     \<lparr>tone_map_sessions = [example_session\<lparr>acquired := True\<rparr>, example_session2],
      fb_session_index = 1, dump_frame_count = 0, dump_frame_index = 0,
      buffer_allocator = example_allocator_live\<lparr>live := [1, 2, 3, 4]\<rparr>,
      gpu = (example_gpu (\<lambda>n. True))\<lparr>engines := [1, 2]\<rparr>\<rparr>"

definition example_manager_no_gpu :: HWCToneMapper where
  "example_manager_no_gpu =
     example_manager\<lparr>gpu := (gpu example_manager)\<lparr>factory_result := (\<lambda>n args. False)\<rparr>\<rparr>"

definition example_manager_low_memory :: HWCToneMapper where
  "example_manager_low_memory =
     example_manager
       \<lparr>buffer_allocator := (buffer_allocator example_manager)
          \<lparr>alloc_result := (\<lambda>n. if n = 3 then kErrorMemory else kErrorNone)\<rparr>\<rparr>"

definition example_manager_fb_kept :: HWCToneMapper where
  "example_manager_fb_kept =
     example_manager\<lparr>tone_map_sessions := [example_session2, example_session\<lparr>acquired := True\<rparr>]\<rparr>"

text \<open>Layer stacks: the example layer alone; a layer not flagged, the frame-buffer target
  and the example layer; the example layer followed by the layer without lookup table;
  the frame-buffer target without lookup table alone; the example layer followed by the
  frame-buffer target.\<close>

definition example_stack :: LayerStack where
  "example_stack = \<lparr>layers = [example_layer], LayerStack.blend_cs = (1, 2)\<rparr>"

definition example_stack_fb :: LayerStack where
  "example_stack_fb =
     \<lparr>layers = [example_layer_plain, example_layer_fb, example_layer],
      LayerStack.blend_cs = (1, 2)\<rparr>"

definition example_stack_failing :: LayerStack where
  "example_stack_failing =
     \<lparr>layers = [example_layer, example_layer_no_lut], LayerStack.blend_cs = (1, 2)\<rparr>"

definition example_stack_fb_no_lut :: LayerStack where
  "example_stack_fb_no_lut =
     \<lparr>layers = [example_layer_no_lut\<lparr>composition := kCompositionGPUTarget\<rparr>],
      LayerStack.blend_cs = (1, 2)\<rparr>"

definition example_stack_two :: LayerStack where
  "example_stack_two =
     \<lparr>layers = [example_layer, example_layer_fb], LayerStack.blend_cs = (1, 2)\<rparr>"

text \<open>The manager as \<open>HandleToneMap\<close> leaves it when a new manager is given the
  frame-buffer target without lookup table.\<close>

definition example_manager_after_failure :: HWCToneMapper where
  "example_manager_after_failure =
     fst (snd (projr (HandleToneMap 2 example_manager_new example_stack_fb_no_lut)))"

text \<open>A second frame with the example layer alone, after the first frame and its
  \<open>PostCommit\<close>.\<close>

definition example_second_frame :: "exn + int \<times> HWCToneMapper \<times> LayerStack" where
  "example_second_frame =
     (case HandleToneMap 2 example_manager_new example_stack of
        Inl e \<Rightarrow> Inl e
      | Inr (status, tm, layer_stack) \<Rightarrow>
          (case PostCommit 2 tm layer_stack of
             Inl e \<Rightarrow> Inl e
           | Inr tm' \<Rightarrow> HandleToneMap 2 tm' example_stack))"

section \<open>Buffer allocation in a session\<close>

lemma le_foldr_max: "x \<in> set hs \<Longrightarrow> x \<le> foldr max hs (0::nat)"
  by (induction hs) auto

lemma fresh_handle_notin: "fresh_handle hs \<notin> set hs"
  using le_foldr_max [of "fresh_handle hs" hs] by (auto simp: fresh_handle_def)

lemma handles_Nil [simp]: "handles [] = {}"
  by (simp add: handles_def)

lemma handles_Cons:
  "handles (b # bs) = {h. private_data b = Some h} \<union> handles bs"
  by (auto simp: handles_def)

lemma FreeBuffer_eq:
  "FreeBuffer a bi = (a\<lparr>live := filter (\<lambda>h. private_data bi \<noteq> Some h) (live a)\<rparr>, clear_slot bi)"
  by (cases "private_data bi")
     (auto simp: FreeBuffer_def clear_slot_def removeAll_filter_not_eq intro: filter_cong)

lemma Free_from_eq:
  "N = length (buffer_info s) \<Longrightarrow> i \<le> N \<Longrightarrow>
   FreeIntermediateBuffers_from N i a s =
     (a\<lparr>live := filter (\<lambda>h. h \<notin> handles (drop i (buffer_info s))) (live a)\<rparr>,
      s\<lparr>buffer_info := take i (buffer_info s) @ map clear_slot (drop i (buffer_info s))\<rparr>)"
proof (induction N i a s rule: FreeIntermediateBuffers_from.induct)
  case (1 N i a s)
  show ?case
  proof (cases "i < N")
    case False
    with 1 show ?thesis by (subst FreeIntermediateBuffers_from.simps) simp
  next
    case True
    let ?bis = "buffer_info s"
    let ?b = "?bis ! i"
    have drop_eq: "drop i ?bis = ?b # drop (Suc i) ?bis"
      using True 1(3) by (simp add: Cons_nth_drop_Suc)
    have upd: "take i ?bis @ clear_slot ?b # map clear_slot (drop (Suc i) ?bis)
               = take i ?bis @ map clear_slot (drop i ?bis)"
      by (simp add: drop_eq)
    have filt: "filter (\<lambda>h. h \<notin> handles (drop (Suc i) ?bis)) (filter (\<lambda>h. private_data ?b \<noteq> Some h) (live a))
                = filter (\<lambda>h. h \<notin> handles (drop i ?bis)) (live a)"
      by (auto simp: drop_eq handles_Cons intro: filter_cong)
    show ?thesis
    proof (cases "private_data ?b")
      case None
      have same: "clear_slot ?b = ?b" using None by (simp add: clear_slot_def)
      have filt': "filter (\<lambda>h. h \<notin> handles (drop (Suc i) ?bis)) (live a)
                = filter (\<lambda>h. h \<notin> handles (drop i ?bis)) (live a)"
        using None by (auto simp: drop_eq handles_Cons intro: filter_cong)
      have "FreeIntermediateBuffers_from N i a s = FreeIntermediateBuffers_from N (Suc i) a s"
        using True None by (subst FreeIntermediateBuffers_from.simps) simp
      also have "\<dots> = (a\<lparr>live := filter (\<lambda>h. h \<notin> handles (drop (Suc i) ?bis)) (live a)\<rparr>,
          s\<lparr>buffer_info := take (Suc i) ?bis @ map clear_slot (drop (Suc i) ?bis)\<rparr>)"
        using 1(2) [OF True] None True 1(3) by simp
      also have "\<dots> = (a\<lparr>live := filter (\<lambda>h. h \<notin> handles (drop i ?bis)) (live a)\<rparr>,
          s\<lparr>buffer_info := take i ?bis @ map clear_slot (drop i ?bis)\<rparr>)"
        using True 1(3) same by (simp add: filt' take_Suc_conv_app_nth drop_eq)
      finally show ?thesis .
    next
      case (Some h)
      let ?a' = "a\<lparr>live := filter (\<lambda>h. private_data ?b \<noteq> Some h) (live a)\<rparr>"
      let ?s' = "s\<lparr>buffer_info := ?bis[i := clear_slot ?b]\<rparr>"
      have ne: "private_data ?b \<noteq> None" using Some by simp
      have step: "FreeIntermediateBuffers_from N i a s = FreeIntermediateBuffers_from N (Suc i) ?a' ?s'"
        using True ne by (subst FreeIntermediateBuffers_from.simps) (simp add: FreeBuffer_eq)
      have IH: "FreeIntermediateBuffers_from N (Suc i) ?a' ?s' =
         (?a'\<lparr>live := filter (\<lambda>h. h \<notin> handles (drop (Suc i) (buffer_info ?s'))) (live ?a')\<rparr>,
          ?s'\<lparr>buffer_info := take (Suc i) (buffer_info ?s') @ map clear_slot (drop (Suc i) (buffer_info ?s'))\<rparr>)"
        using 1(1) [OF True ne, of "(?a', clear_slot ?b)" ?a' "clear_slot ?b"] True 1(3)
        by (simp add: FreeBuffer_eq)
      have "take (Suc i) (?bis[i := clear_slot ?b]) = take i ?bis @ [clear_slot ?b]"
        using True 1(3) by (simp add: take_Suc_conv_app_nth)
      then show ?thesis
        unfolding step IH using True 1(3) filt by (simp add: drop_eq)
    qed
  qed
qed

lemma FreeIntermediateBuffers_eq:
  "N = length (buffer_info s) \<Longrightarrow>
   FreeIntermediateBuffers N a s =
     (a\<lparr>live := filter (\<lambda>h. h \<notin> handles (buffer_info s)) (live a)\<rparr>,
      s\<lparr>buffer_info := map clear_slot (buffer_info s)\<rparr>)"
  by (simp add: FreeIntermediateBuffers_def Free_from_eq)

lemma AllocateBuffer_fail:
  "alloc_result a (alloc_calls a) \<noteq> kErrorNone \<Longrightarrow>
   AllocateBuffer a bi = (alloc_result a (alloc_calls a), a\<lparr>alloc_calls := Suc (alloc_calls a)\<rparr>, bi)"
  by (simp add: AllocateBuffer_def Let_def)

lemma AllocateBuffer_ok:
  "alloc_result a (alloc_calls a) = kErrorNone \<Longrightarrow>
   AllocateBuffer a bi =
     (kErrorNone,
      a\<lparr>alloc_calls := Suc (alloc_calls a), live := live a @ [fresh_handle (live a)],
        reported := (reported a)(Some (fresh_handle (live a)) :=
           (BufferConfig.width (buffer_config bi), BufferConfig.height (buffer_config bi)))\<rparr>,
      bi\<lparr>alloc_buffer_info := alloc_info a (alloc_calls a),
         private_data := Some (fresh_handle (live a))\<rparr>)"
  by (simp add: AllocateBuffer_def Let_def)

lemma Allocate_from_step_fail:
  assumes "i < N" "alloc_result a (alloc_calls a) \<noteq> kErrorNone"
  shows "AllocateIntermediateBuffers_from N i a s layer =
     (let (a'', s'') = FreeIntermediateBuffers N (a\<lparr>alloc_calls := Suc (alloc_calls a)\<rparr>)
            (s\<lparr>buffer_info := (buffer_info s)
                 [i := (buffer_info s ! i)\<lparr>buffer_config := request_config layer\<rparr>]\<rparr>)
      in (alloc_result a (alloc_calls a), a'', s''))"
  using assms
  by (subst AllocateIntermediateBuffers_from.simps)
     (simp add: AllocateBuffer_fail request_config_def Let_def)

lemma Allocate_from_step_ok:
  assumes "i < N" "alloc_result a (alloc_calls a) = kErrorNone"
  shows "AllocateIntermediateBuffers_from N i a s layer =
     AllocateIntermediateBuffers_from N (Suc i)
       (a\<lparr>alloc_calls := Suc (alloc_calls a), live := live a @ [fresh_handle (live a)],
          reported := (reported a)(Some (fresh_handle (live a)) :=
            (LayerRequest.width (request layer), LayerRequest.height (request layer)))\<rparr>)
       (s\<lparr>buffer_info := (buffer_info s)
            [i := (buffer_info s ! i)\<lparr>buffer_config := request_config layer,
                   alloc_buffer_info := alloc_info a (alloc_calls a),
                   private_data := Some (fresh_handle (live a))\<rparr>]\<rparr>) layer"
  using assms
  by (subst AllocateIntermediateBuffers_from.simps)
     (simp add: AllocateBuffer_ok request_config_def Let_def)

lemma handles_update_subset:
  "handles (bis[i := b]) \<subseteq> handles bis \<union> {h. private_data b = Some h}"
  by (auto simp: handles_def dest!: set_update_subset_insert [THEN subsetD])

lemma handles_update_same:
  "i < length bis \<Longrightarrow> private_data b = private_data (bis ! i) \<Longrightarrow> handles (bis[i := b]) = handles bis"
  unfolding handles_def
  by (metis (no_types, lifting) list_update_id map_update set_map)

lemma handles_take_Suc:
  "i < length bis \<Longrightarrow> handles (take (Suc i) bis) = handles (take i bis) \<union> {h. private_data (bis ! i) = Some h}"
  by (auto simp: handles_def take_Suc_conv_app_nth)

lemma Allocate_from_fail:
  assumes "N = length (buffer_info s)" "i + m < N"
    and "\<forall>j<m. alloc_result a (alloc_calls a + j) = kErrorNone"
    and "alloc_result a (alloc_calls a + m) \<noteq> kErrorNone"
  shows "\<exists>a' bis'. AllocateIntermediateBuffers_from N i a s layer
             = (alloc_result a (alloc_calls a + m), a', s\<lparr>buffer_info := bis'\<rparr>)
          \<and> length bis' = N \<and> (\<forall>j<N. private_data (bis' ! j) = None)
          \<and> live a' = filter (\<lambda>h. h \<in> set (live a')) (live a)
          \<and> (\<forall>h\<in>set (live a). h \<notin> handles (buffer_info s) \<longrightarrow> h \<in> set (live a'))
          \<and> (\<forall>h\<in>handles (take i (buffer_info s)). h \<notin> set (live a'))"
  using assms
proof (induction m arbitrary: i a s)
  case 0
  let ?s1 = "s\<lparr>buffer_info := (buffer_info s)
                 [i := (buffer_info s ! i)\<lparr>buffer_config := request_config layer\<rparr>]\<rparr>"
  let ?a1 = "a\<lparr>alloc_calls := Suc (alloc_calls a)\<rparr>"
  have i: "i < N" using 0 by simp
  have h: "handles ((buffer_info s)
                 [i := (buffer_info s ! i)\<lparr>buffer_config := request_config layer\<rparr>]) = handles (buffer_info s)"
    using i 0(1) by (simp add: handles_update_same)
  have eq: "AllocateIntermediateBuffers_from N i a s layer =
      (alloc_result a (alloc_calls a),
       a\<lparr>alloc_calls := Suc (alloc_calls a), live := filter (\<lambda>h. h \<notin> handles (buffer_info s)) (live a)\<rparr>,
       s\<lparr>buffer_info := map clear_slot (buffer_info ?s1)\<rparr>)"
    using i 0 by (simp add: Allocate_from_step_fail FreeIntermediateBuffers_eq h)
  have sub: "handles (take i (buffer_info s)) \<subseteq> handles (buffer_info s)"
    by (auto simp: handles_def dest: in_set_takeD)
  show ?case
    unfolding eq
    apply (rule exI [where x = "a\<lparr>alloc_calls := Suc (alloc_calls a), live := filter (\<lambda>h. h \<notin> handles (buffer_info s)) (live a)\<rparr>"])
    apply (rule exI [where x = "map clear_slot (buffer_info ?s1)"])
    using 0(1) sub
    apply (auto simp: clear_slot_def intro: filter_cong)
    done
next
  case (Suc m)
  let ?h = "fresh_handle (live a)"
  let ?a1 = "a\<lparr>alloc_calls := Suc (alloc_calls a), live := live a @ [?h],
          reported := (reported a)(Some ?h :=
            (LayerRequest.width (request layer), LayerRequest.height (request layer)))\<rparr>"
  let ?b = "(buffer_info s ! i)\<lparr>buffer_config := request_config layer,
                   alloc_buffer_info := alloc_info a (alloc_calls a),
                   private_data := Some ?h\<rparr>"
  let ?s1 = "s\<lparr>buffer_info := (buffer_info s)[i := ?b]\<rparr>"
  have i: "i < N" using Suc.prems by simp
  have ok: "alloc_result a (alloc_calls a) = kErrorNone" using Suc.prems(3) by force
  have step: "AllocateIntermediateBuffers_from N i a s layer
      = AllocateIntermediateBuffers_from N (Suc i) ?a1 ?s1 layer"
    using i ok by (rule Allocate_from_step_ok)
  have p3: "\<forall>j<m. alloc_result ?a1 (alloc_calls ?a1 + j) = kErrorNone"
    using Suc.prems(3) by auto
  have p4: "alloc_result ?a1 (alloc_calls ?a1 + m) \<noteq> kErrorNone"
    using Suc.prems(4) by simp
  from Suc.IH [of ?s1 "Suc i" ?a1, OF _ _ p3 p4] Suc.prems(1,2)
  obtain a' bis' where r: "AllocateIntermediateBuffers_from N (Suc i) ?a1 ?s1 layer
             = (alloc_result a (alloc_calls a + Suc m), a', s\<lparr>buffer_info := bis'\<rparr>)"
     and len: "length bis' = N" and none: "\<forall>j<N. private_data (bis' ! j) = None"
     and s1: "live a' = filter (\<lambda>h. h \<in> set (live a')) (live a @ [?h])"
     and s2: "\<forall>h\<in>set (live a @ [?h]). h \<notin> handles (buffer_info ?s1) \<longrightarrow> h \<in> set (live a')"
     and s3: "\<forall>h\<in>handles (take (Suc i) (buffer_info ?s1)). h \<notin> set (live a')"
    by auto
  have hnew: "?h \<in> handles (take (Suc i) (buffer_info ?s1))"
    using i Suc.prems(1) by (simp add: handles_take_Suc)
  then have hout: "?h \<notin> set (live a')" using s3 by blast
  have fresh: "?h \<notin> set (live a)" by (rule fresh_handle_notin)
  have c1: "live a' = filter (\<lambda>h. h \<in> set (live a')) (live a)"
    using s1 hout by simp
  have c2: "\<forall>h\<in>set (live a). h \<notin> handles (buffer_info s) \<longrightarrow> h \<in> set (live a')"
  proof (intro ballI impI)
    fix x assume x: "x \<in> set (live a)" "x \<notin> handles (buffer_info s)"
    then have "x \<noteq> ?h" using fresh by auto
    then have "x \<notin> handles (buffer_info ?s1)"
      using x(2) handles_update_subset [of "buffer_info s" i ?b] by auto
    then show "x \<in> set (live a')" using s2 x(1) by auto
  qed
  have c3: "\<forall>h\<in>handles (take i (buffer_info s)). h \<notin> set (live a')"
    using s3 i Suc.prems(1) by (auto simp: handles_take_Suc)
  show ?case
    unfolding step r
    apply (rule exI [where x = a'])
    apply (rule exI [where x = bis'])
    using len none c1 c2 c3 apply auto
    done
qed

lemma Allocate_from_ok:
  assumes "N = length (buffer_info s)" "i + n = N"
    and "\<forall>j<n. alloc_result a (alloc_calls a + j) = kErrorNone"
  shows "\<exists>a' bis' new. AllocateIntermediateBuffers_from N i a s layer
             = (kErrorNone, a', s\<lparr>buffer_info := bis'\<rparr>)
          \<and> length bis' = N \<and> (\<forall>j<i. bis' ! j = buffer_info s ! j)
          \<and> (\<forall>j<N. i \<le> j \<longrightarrow> buffer_config (bis' ! j) = request_config layer)
          \<and> map private_data (drop i bis') = map Some new
          \<and> live a' = live a @ new \<and> distinct new \<and> set new \<inter> set (live a) = {}
          \<and> alloc_calls a' = alloc_calls a + n"
  using assms
proof (induction n arbitrary: i a s)
  case 0
  have "AllocateIntermediateBuffers_from N i a s layer = (kErrorNone, a, s)"
    using 0 by (subst AllocateIntermediateBuffers_from.simps) simp
  then show ?case
    apply (intro exI [where x = a] exI [where x = "buffer_info s"] exI [where x = "[]"])
    using 0 apply simp
    done
next
  case (Suc n)
  let ?h = "fresh_handle (live a)"
  let ?a1 = "a\<lparr>alloc_calls := Suc (alloc_calls a), live := live a @ [?h],
          reported := (reported a)(Some ?h :=
            (LayerRequest.width (request layer), LayerRequest.height (request layer)))\<rparr>"
  let ?b = "(buffer_info s ! i)\<lparr>buffer_config := request_config layer,
                   alloc_buffer_info := alloc_info a (alloc_calls a),
                   private_data := Some ?h\<rparr>"
  let ?s1 = "s\<lparr>buffer_info := (buffer_info s)[i := ?b]\<rparr>"
  have i: "i < N" using Suc.prems by simp
  have ok: "alloc_result a (alloc_calls a) = kErrorNone" using Suc.prems(3) by force
  have step: "AllocateIntermediateBuffers_from N i a s layer
      = AllocateIntermediateBuffers_from N (Suc i) ?a1 ?s1 layer"
    using i ok by (rule Allocate_from_step_ok)
  have p3: "\<forall>j<n. alloc_result ?a1 (alloc_calls ?a1 + j) = kErrorNone"
    using Suc.prems(3) by auto
  from Suc.IH [of ?s1 "Suc i" ?a1, OF _ _ p3] Suc.prems(1,2)
  obtain a' bis' new where r: "AllocateIntermediateBuffers_from N (Suc i) ?a1 ?s1 layer
             = (kErrorNone, a', s\<lparr>buffer_info := bis'\<rparr>)"
     and len: "length bis' = N"
     and old: "\<forall>j<Suc i. bis' ! j = (buffer_info s)[i := ?b] ! j"
     and cfg: "\<forall>j<N. Suc i \<le> j \<longrightarrow> buffer_config (bis' ! j) = request_config layer"
     and pd: "map private_data (drop (Suc i) bis') = map Some new"
     and lv: "live a' = (live a @ [?h]) @ new" and dist: "distinct new"
     and disj: "set new \<inter> set (live a @ [?h]) = {}"
     and calls: "alloc_calls a' = Suc (alloc_calls a) + n"
    by auto
  have bi: "bis' ! i = ?b" using old i Suc.prems(1) by simp
  have drop_eq: "drop i bis' = ?b # drop (Suc i) bis'"
    using i len bi by (metis Cons_nth_drop_Suc)
  have c_old: "\<forall>j<i. bis' ! j = buffer_info s ! j" using old by simp
  have c_cfg: "\<forall>j<N. i \<le> j \<longrightarrow> buffer_config (bis' ! j) = request_config layer"
  proof (intro allI impI)
    fix j assume "j < N" "i \<le> j"
    then show "buffer_config (bis' ! j) = request_config layer"
      using cfg bi by (cases "j = i") auto
  qed
  have c_pd: "map private_data (drop i bis') = map Some (?h # new)"
    using pd by (simp add: drop_eq)
  have c_dist: "distinct (?h # new)" using dist disj by auto
  have c_disj: "set (?h # new) \<inter> set (live a) = {}"
    using disj fresh_handle_notin [of "live a"] by auto
  show ?case
    unfolding step r
    apply (intro exI [where x = a'] exI [where x = bis'] exI [where x = "?h # new"])
    using len c_old c_cfg c_pd c_dist c_disj lv calls apply simp
    done
qed

lemma handles_empty_iff: "handles bis = {} \<longleftrightarrow> (\<forall>i<length bis. private_data (bis ! i) = None)"
proof -
  have "handles bis = {} \<longleftrightarrow> (\<forall>b\<in>set bis. private_data b = None)"
  proof
    assume e: "handles bis = {}"
    show "\<forall>b\<in>set bis. private_data b = None"
    proof
      fix b assume b: "b \<in> set bis"
      show "private_data b = None"
      proof (cases "private_data b")
        case (Some h)
        then have "h \<in> handles bis" using b by (force simp: handles_def)
        then show ?thesis using e by simp
      qed simp
    qed
  next
    assume "\<forall>b\<in>set bis. private_data b = None"
    then show "handles bis = {}" by (force simp: handles_def)
  qed
  then show ?thesis by (simp add: all_set_conv_all_nth)
qed

text \<open>
  Claim C4. Let the session hold \<open>N\<close> buffer slots. If the \<open>k\<close>-th call of \<open>AllocateBuffer\<close>
  made by \<open>AllocateIntermediateBuffers\<close> is the first to fail (\<open>1 \<le> k \<le> N\<close>), the function
  returns the allocator's error code, every slot of the session is empty afterwards,
  no buffer allocated in the call is left live (the live handles are among those live
  before), and for a session whose slots were empty at the call the allocator holds
  exactly the buffers it held before. If all \<open>N\<close> calls succeed, the function returns
  \<open>kErrorNone\<close> and every slot holds a live buffer, newly allocated with the width, height,
  format and secure flag of the layer's request.
\<close>

theorem AllocateIntermediateBuffers_all_or_nothing:
  assumes "length (buffer_info s) = N"
  shows "(\<forall>k. 1 \<le> k \<and> k \<le> N
            \<and> (\<forall>j<k - 1. alloc_result a (alloc_calls a + j) = kErrorNone)
            \<and> alloc_result a (alloc_calls a + (k - 1)) \<noteq> kErrorNone \<longrightarrow>
          (\<exists>a' s'. AllocateIntermediateBuffers N a s layer
                     = (alloc_result a (alloc_calls a + (k - 1)), a', s')
             \<and> (\<forall>i<N. private_data (buffer_info s' ! i) = None)
             \<and> set (live a') \<subseteq> set (live a)
             \<and> ((\<forall>i<N. private_data (buffer_info s ! i) = None) \<longrightarrow> live a' = live a)))
       \<and> ((\<forall>j<N. alloc_result a (alloc_calls a + j) = kErrorNone) \<longrightarrow>
          (\<exists>a' s'. AllocateIntermediateBuffers N a s layer = (kErrorNone, a', s')
             \<and> (\<forall>i<N. BufferConfig.width (buffer_config (buffer_info s' ! i))
                           = LayerRequest.width (request layer)
                      \<and> BufferConfig.height (buffer_config (buffer_info s' ! i))
                           = LayerRequest.height (request layer)
                      \<and> BufferConfig.format (buffer_config (buffer_info s' ! i))
                           = LayerRequest.format (request layer)
                      \<and> BufferConfig.secure (buffer_config (buffer_info s' ! i))
                           = LayerRequestFlags.secure (LayerRequest.flags (request layer))
                      \<and> (\<exists>h. private_data (buffer_info s' ! i) = Some h
                              \<and> h \<in> set (live a') \<and> h \<notin> set (live a)))))"
proof (intro conjI allI impI)
  fix k
  assume k: "1 \<le> k \<and> k \<le> N
            \<and> (\<forall>j<k - 1. alloc_result a (alloc_calls a + j) = kErrorNone)
            \<and> alloc_result a (alloc_calls a + (k - 1)) \<noteq> kErrorNone"
  then have "0 + (k - 1) < N" by arith
  from Allocate_from_fail [OF assms [symmetric] this, of a layer] k
  obtain a' bis' where r: "AllocateIntermediateBuffers_from N 0 a s layer
             = (alloc_result a (alloc_calls a + (k - 1)), a', s\<lparr>buffer_info := bis'\<rparr>)"
     and len: "length bis' = N" and none: "\<forall>j<N. private_data (bis' ! j) = None"
     and s1: "live a' = filter (\<lambda>h. h \<in> set (live a')) (live a)"
     and s2: "\<forall>h\<in>set (live a). h \<notin> handles (buffer_info s) \<longrightarrow> h \<in> set (live a')"
    by blast
  have sub: "set (live a') \<subseteq> set (live a)"
    by (subst s1) auto
  have eq: "live a' = live a" if "\<forall>i<N. private_data (buffer_info s ! i) = None"
  proof -
    have "handles (buffer_info s) = {}" using that assms by (simp add: handles_empty_iff)
    then have "\<forall>h\<in>set (live a). h \<in> set (live a')" using s2 by simp
    then have "filter (\<lambda>h. h \<in> set (live a')) (live a) = live a" by (simp add: filter_id_conv)
    then show ?thesis using s1 by simp
  qed
  show "\<exists>a' s'. AllocateIntermediateBuffers N a s layer
                     = (alloc_result a (alloc_calls a + (k - 1)), a', s')
             \<and> (\<forall>i<N. private_data (buffer_info s' ! i) = None)
             \<and> set (live a') \<subseteq> set (live a)
             \<and> ((\<forall>i<N. private_data (buffer_info s ! i) = None) \<longrightarrow> live a' = live a)"
    unfolding AllocateIntermediateBuffers_def r
    apply (intro exI [where x = a'] exI [where x = "s\<lparr>buffer_info := bis'\<rparr>"])
    using none sub eq apply simp
    done
next
  assume ok: "\<forall>j<N. alloc_result a (alloc_calls a + j) = kErrorNone"
  from Allocate_from_ok [OF assms [symmetric] _ ok, of 0 layer]
  obtain a' bis' new where r: "AllocateIntermediateBuffers_from N 0 a s layer
             = (kErrorNone, a', s\<lparr>buffer_info := bis'\<rparr>)"
     and len: "length bis' = N"
     and cfg: "\<forall>j<N. buffer_config (bis' ! j) = request_config layer"
     and pd: "map private_data bis' = map Some new"
     and lv: "live a' = live a @ new" and disj: "set new \<inter> set (live a) = {}"
    by auto
  have hs: "\<exists>h. private_data (bis' ! i) = Some h \<and> h \<in> set (live a') \<and> h \<notin> set (live a)"
    if "i < N" for i
  proof -
    have l: "length new = N" using pd len by (metis length_map)
    have "private_data (bis' ! i) = Some (new ! i)"
      using pd that len l by (metis nth_map)
    moreover have "new ! i \<in> set new" using that l by simp
    ultimately show ?thesis using lv disj by auto
  qed
  show "\<exists>a' s'. AllocateIntermediateBuffers N a s layer = (kErrorNone, a', s')
             \<and> (\<forall>i<N. BufferConfig.width (buffer_config (buffer_info s' ! i))
                           = LayerRequest.width (request layer)
                      \<and> BufferConfig.height (buffer_config (buffer_info s' ! i))
                           = LayerRequest.height (request layer)
                      \<and> BufferConfig.format (buffer_config (buffer_info s' ! i))
                           = LayerRequest.format (request layer)
                      \<and> BufferConfig.secure (buffer_config (buffer_info s' ! i))
                           = LayerRequestFlags.secure (LayerRequest.flags (request layer))
                      \<and> (\<exists>h. private_data (buffer_info s' ! i) = Some h
                              \<and> h \<in> set (live a') \<and> h \<notin> set (live a)))"
    unfolding AllocateIntermediateBuffers_def r
    apply (intro exI [where x = a'] exI [where x = "s\<lparr>buffer_info := bis'\<rparr>"])
    using cfg hs apply (simp add: request_config_def)
    done
qed

theorem AllocateIntermediateBuffers_all_or_nothing_witness:
  "length (buffer_info (ToneMapSession_new 2)) = 2
   \<and> alloc_result (example_allocator (\<lambda>n. if n = 1 then kErrorMemory else kErrorNone)) 0 = kErrorNone
   \<and> alloc_result (example_allocator (\<lambda>n. if n = 1 then kErrorMemory else kErrorNone)) 1 = kErrorMemory
   \<and> (\<exists>a' s'. AllocateIntermediateBuffers 2
                (example_allocator (\<lambda>n. if n = 1 then kErrorMemory else kErrorNone))
                (ToneMapSession_new 2) example_layer = (kErrorMemory, a', s')
          \<and> private_data (buffer_info s' ! 0) = None \<and> private_data (buffer_info s' ! 1) = None
          \<and> live a' = [])
   \<and> (\<exists>a' s'. AllocateIntermediateBuffers 2 (example_allocator (\<lambda>n. kErrorNone))
                (ToneMapSession_new 2) example_layer = (kErrorNone, a', s')
          \<and> BufferConfig.width (buffer_config (buffer_info s' ! 0)) = 1920
          \<and> BufferConfig.height (buffer_config (buffer_info s' ! 1)) = 1080
          \<and> (\<exists>h. private_data (buffer_info s' ! 1) = Some h \<and> h \<in> set (live a')))"
proof -
  let ?a = "example_allocator (\<lambda>n. if n = 1 then kErrorMemory else kErrorNone)"
  let ?b = "example_allocator (\<lambda>n. kErrorNone)"
  have len: "length (buffer_info (ToneMapSession_new 2)) = 2"
    by (simp add: ToneMapSession_new_def)
  have none: "\<forall>i<2. private_data (buffer_info (ToneMapSession_new 2) ! i) = None"
    by (simp add: ToneMapSession_new_def BufferInfo_init_def)
  have hyp: "1 \<le> (2::nat) \<and> (2::nat) \<le> 2
      \<and> (\<forall>j<2 - 1. alloc_result ?a (alloc_calls ?a + j) = kErrorNone)
      \<and> alloc_result ?a (alloc_calls ?a + (2 - 1)) \<noteq> kErrorNone"
    by (simp add: example_allocator_def)
  note T = AllocateIntermediateBuffers_all_or_nothing [OF len, of ?a example_layer]
  from T [THEN conjunct1, THEN spec, of 2, THEN mp, OF hyp]
  obtain a' s' where r: "AllocateIntermediateBuffers 2 ?a (ToneMapSession_new 2) example_layer
                     = (alloc_result ?a (alloc_calls ?a + (2 - 1)), a', s')"
     and n: "\<forall>i<2. private_data (buffer_info s' ! i) = None"
     and l: "(\<forall>i<2. private_data (buffer_info (ToneMapSession_new 2) ! i) = None)
                   \<longrightarrow> live a' = live ?a"
    by blast
  have e: "alloc_result ?a (alloc_calls ?a + (2 - 1)) = kErrorMemory"
    by (simp add: example_allocator_def)
  have l': "live a' = []" using l none by (simp add: example_allocator_def)
  have fail: "\<exists>a' s'. AllocateIntermediateBuffers 2 ?a (ToneMapSession_new 2) example_layer
                = (kErrorMemory, a', s')
          \<and> private_data (buffer_info s' ! 0) = None \<and> private_data (buffer_info s' ! 1) = None
          \<and> live a' = []"
    using r n l' unfolding e by auto
  have hyp2: "\<forall>j<2. alloc_result ?b (alloc_calls ?b + j) = kErrorNone"
    by (simp add: example_allocator_def)
  note T2 = AllocateIntermediateBuffers_all_or_nothing [OF len, of ?b example_layer]
  from T2 [THEN conjunct2, THEN mp, OF hyp2]
  obtain b' t' where r2: "AllocateIntermediateBuffers 2 ?b (ToneMapSession_new 2) example_layer
                     = (kErrorNone, b', t')"
     and c2: "\<forall>i<2. BufferConfig.width (buffer_config (buffer_info t' ! i))
                           = LayerRequest.width (request example_layer)
                      \<and> BufferConfig.height (buffer_config (buffer_info t' ! i))
                           = LayerRequest.height (request example_layer)
                      \<and> BufferConfig.format (buffer_config (buffer_info t' ! i))
                           = LayerRequest.format (request example_layer)
                      \<and> BufferConfig.secure (buffer_config (buffer_info t' ! i))
                           = LayerRequestFlags.secure (LayerRequest.flags (request example_layer))
                      \<and> (\<exists>h. private_data (buffer_info t' ! i) = Some h
                              \<and> h \<in> set (live b') \<and> h \<notin> set (live ?b))"
    by blast
  have w0: "BufferConfig.width (buffer_config (buffer_info t' ! 0)) = 1920"
    using c2 [rule_format, of 0] by (simp add: example_layer_def)
  have h1: "BufferConfig.height (buffer_config (buffer_info t' ! 1)) = 1080"
    using c2 [rule_format, of 1] by (simp add: example_layer_def)
  have p1: "\<exists>h. private_data (buffer_info t' ! 1) = Some h \<and> h \<in> set (live b')"
    using c2 [rule_format, of 1] by auto
  have succ: "\<exists>a' s'. AllocateIntermediateBuffers 2 ?b
                (ToneMapSession_new 2) example_layer = (kErrorNone, a', s')
          \<and> BufferConfig.width (buffer_config (buffer_info s' ! 0)) = 1920
          \<and> BufferConfig.height (buffer_config (buffer_info s' ! 1)) = 1080
          \<and> (\<exists>h. private_data (buffer_info s' ! 1) = Some h \<and> h \<in> set (live a'))"
    using r2 w0 h1 p1 by blast
  show ?thesis
    using len fail succ by (simp add: example_allocator_def)
qed

section \<open>Configuration matching and the output buffer record\<close>

text \<open>
  Claim C3. \<open>IsSameToneMapConfig\<close> holds if and only if seven equalities hold: the direction
  derived from the layer's HDR flag, the blend color space, the transfer function, the
  secure flag and the requested format equal those of the session's configuration, and
  the requested width and height equal the unaligned width and height the allocator
  reports for the handle of the session's first buffer.
\<close>

theorem IsSameToneMapConfig_seven_equalities:
  assumes "buffer_info s \<noteq> []"
  shows "IsSameToneMapConfig a s layer bcs \<longleftrightarrow>
     (if hdr (LayerBuffer.flags (input_buffer layer)) then TONEMAP_FORWARD else TONEMAP_INVERSE)
        = type_tm (tone_map_config s)
     \<and> bcs = ToneMapConfig.blend_cs (tone_map_config s)
     \<and> ColorMetaData.transfer (color_metadata (input_buffer layer))
        = ToneMapConfig.transfer (tone_map_config s)
     \<and> LayerRequestFlags.secure (LayerRequest.flags (request layer))
        = ToneMapConfig.secure (tone_map_config s)
     \<and> LayerRequest.format (request layer) = ToneMapConfig.format (tone_map_config s)
     \<and> LayerRequest.width (request layer)
        = GetUnalignedWidth a (private_data (hd (buffer_info s)))
     \<and> LayerRequest.height (request layer)
        = GetUnalignedHeight a (private_data (hd (buffer_info s)))"
  using assms by (simp add: IsSameToneMapConfig_def Let_def hd_conv_nth)

theorem IsSameToneMapConfig_seven_equalities_witness:
  "buffer_info example_session \<noteq> []
   \<and> IsSameToneMapConfig example_allocator_live example_session example_layer (1, 2)
   \<and> \<not> IsSameToneMapConfig example_allocator_live example_session example_layer (1, 3)
   \<and> \<not> IsSameToneMapConfig example_allocator_live example_session
          (example_layer\<lparr>request := (request example_layer)\<lparr>LayerRequest.height := 1088\<rparr>\<rparr>) (1, 2)"
proof -
  have ne: "buffer_info example_session \<noteq> []" by (simp add: example_session_def)
  note T = IsSameToneMapConfig_seven_equalities [OF ne, of example_allocator_live]
  show ?thesis
    unfolding T
    by (simp add: example_session_def example_layer_def example_allocator_live_def
        example_allocator_def GetUnalignedWidth_def GetUnalignedHeight_def)
qed

text \<open>
  Claim C10. \<open>UpdateBuffer\<close> sets the acquire fence of the record to the given fence and
  copies size, plane-0 file descriptor and handle id from the buffer at the session's
  cursor; width, height, format, color metadata, release fence, flags, buffer id, the
  other planes, offset and stride of plane 0 and every field the model does not name
  (the record's extension) are as before. The session is an argument that is only
  read: the function returns the record alone.
\<close>

theorem UpdateBuffer_frame:
  assumes "current_buffer_index s < length (buffer_info s)" and "planes buffer \<noteq> []"
  shows "acquire_fence (UpdateBuffer s f buffer) = f
     \<and> LayerBuffer.size_buf (UpdateBuffer s f buffer)
        = AllocatedBufferInfo.size_buf (alloc_buffer_info (buffer_info s ! current_buffer_index s))
     \<and> LayerBufferPlane.fd (planes (UpdateBuffer s f buffer) ! 0)
        = AllocatedBufferInfo.fd (alloc_buffer_info (buffer_info s ! current_buffer_index s))
     \<and> handle_id (UpdateBuffer s f buffer)
        = id_buf (alloc_buffer_info (buffer_info s ! current_buffer_index s))
     \<and> LayerBuffer.width (UpdateBuffer s f buffer) = LayerBuffer.width buffer
     \<and> LayerBuffer.height (UpdateBuffer s f buffer) = LayerBuffer.height buffer
     \<and> LayerBuffer.format (UpdateBuffer s f buffer) = LayerBuffer.format buffer
     \<and> color_metadata (UpdateBuffer s f buffer) = color_metadata buffer
     \<and> LayerBuffer.release_fence (UpdateBuffer s f buffer) = LayerBuffer.release_fence buffer
     \<and> LayerBuffer.flags (UpdateBuffer s f buffer) = LayerBuffer.flags buffer
     \<and> buffer_id (UpdateBuffer s f buffer) = buffer_id buffer
     \<and> LayerBuffer.more (UpdateBuffer s f buffer) = LayerBuffer.more buffer
     \<and> length (planes (UpdateBuffer s f buffer)) = length (planes buffer)
     \<and> offset (planes (UpdateBuffer s f buffer) ! 0) = offset (planes buffer ! 0)
     \<and> stride (planes (UpdateBuffer s f buffer) ! 0) = stride (planes buffer ! 0)
     \<and> (\<forall>i. 0 < i \<longrightarrow> planes (UpdateBuffer s f buffer) ! i = planes buffer ! i)"
  using assms by (simp add: UpdateBuffer_def Let_def)

theorem UpdateBuffer_frame_witness:
  "current_buffer_index example_session < length (buffer_info example_session)
   \<and> planes (input_buffer example_layer) \<noteq> []
   \<and> acquire_fence (UpdateBuffer example_session (Fence_Create 5) (input_buffer example_layer))
        = Fence_Create 5
   \<and> LayerBuffer.size_buf (UpdateBuffer example_session (Fence_Create 5) (input_buffer example_layer))
        = 8294400
   \<and> LayerBufferPlane.fd
        (planes (UpdateBuffer example_session (Fence_Create 5) (input_buffer example_layer)) ! 0) = 11
   \<and> handle_id (UpdateBuffer example_session (Fence_Create 5) (input_buffer example_layer)) = 101
   \<and> buffer_id (UpdateBuffer example_session (Fence_Create 5) (input_buffer example_layer)) = 500
   \<and> planes (UpdateBuffer example_session (Fence_Create 5) (input_buffer example_layer)) ! 1
        = \<lparr>LayerBufferPlane.fd = 41, offset = 16, stride = 7680\<rparr>"
proof -
  have c: "current_buffer_index example_session < length (buffer_info example_session)"
    by (simp add: example_session_def)
  have p: "planes (input_buffer example_layer) \<noteq> []" by (simp add: example_layer_def)
  note T = UpdateBuffer_frame [OF c p, of "Fence_Create 5"]
  have one: "planes (UpdateBuffer example_session (Fence_Create 5) (input_buffer example_layer)) ! 1
        = planes (input_buffer example_layer) ! 1"
    using T by simp
  show ?thesis
    using c p T one by (simp add: example_session_def example_layer_def)
qed

section \<open>Closing sessions: the destructor, Terminate and PostCommit\<close>

lemma closed_handles_simps [simp]:
  "closed_handles [] = {}"
  "closed_handles (s # ss) = handles (buffer_info s) \<union> closed_handles ss"
  "closed_handles (ss @ ts) = closed_handles ss \<union> closed_handles ts"
  by (auto simp: closed_handles_def)

lemma closed_engines_simps [simp]:
  "closed_engines [] = {}"
  "closed_engines (s # ss) = {e. gpu_tone_mapper s = Some e} \<union> closed_engines ss"
  "closed_engines (ss @ ts) = closed_engines ss \<union> closed_engines ts"
  by (auto simp: closed_engines_def)

lemma delete_Tonemapper_eq:
  "delete_Tonemapper g en = g\<lparr>engines := filter (\<lambda>e. en \<noteq> Some e) (engines g)\<rparr>"
  by (cases en) (auto simp: delete_Tonemapper_def removeAll_filter_not_eq intro: filter_cong)

lemma ToneMapSession_delete_eq:
  "length (buffer_info s) = N \<Longrightarrow>
   ToneMapSession_delete N (a, g) s =
     (a\<lparr>live := filter (\<lambda>h. h \<notin> handles (buffer_info s)) (live a)\<rparr>,
      g\<lparr>engines := filter (\<lambda>e. gpu_tone_mapper s \<noteq> Some e) (engines g)\<rparr>)"
  by (simp add: ToneMapSession_delete_def OnTask_kCodeDestroy_def delete_Tonemapper_eq
      FreeIntermediateBuffers_eq)

lemma Terminate_loop_eq:
  "\<forall>s\<in>set (tone_map_sessions tm). length (buffer_info s) = N \<Longrightarrow>
   Terminate_loop N tm =
     tm\<lparr>tone_map_sessions := [],
        buffer_allocator := (buffer_allocator tm)
          \<lparr>live := filter (\<lambda>h. h \<notin> closed_handles (tone_map_sessions tm))
                     (live (buffer_allocator tm))\<rparr>,
        gpu := (gpu tm)
          \<lparr>engines := filter (\<lambda>e. e \<notin> closed_engines (tone_map_sessions tm))
                        (engines (gpu tm))\<rparr>\<rparr>"
proof (induction N tm rule: Terminate_loop.induct)
  case (1 N tm)
  show ?case
  proof (cases "tone_map_sessions tm = []")
    case True
    then show ?thesis by (subst Terminate_loop.simps) simp
  next
    case False
    let ?ss = "tone_map_sessions tm"
    let ?s = "last ?ss"
    let ?a' = "(buffer_allocator tm)\<lparr>live := filter (\<lambda>h. h \<notin> handles (buffer_info ?s)) (live (buffer_allocator tm))\<rparr>"
    let ?g' = "(gpu tm)\<lparr>engines := filter (\<lambda>e. gpu_tone_mapper ?s \<noteq> Some e) (engines (gpu tm))\<rparr>"
    let ?tm1 = "tm\<lparr>tone_map_sessions := butlast ?ss, buffer_allocator := ?a', gpu := ?g'\<rparr>"
    have len: "length (buffer_info ?s) = N" using 1(2) False by simp
    have del: "ToneMapSession_delete N (buffer_allocator tm, gpu tm) ?s = (?a', ?g')"
      using len by (rule ToneMapSession_delete_eq)
    have step: "Terminate_loop N tm = Terminate_loop N ?tm1"
      using False by (subst Terminate_loop.simps) (simp add: del)
    have rest: "\<forall>s\<in>set (tone_map_sessions ?tm1). length (buffer_info s) = N"
      using 1(2) by (auto dest: in_set_butlastD)
    have ss: "?ss = butlast ?ss @ [?s]" using False by simp
    have ch: "closed_handles ?ss = closed_handles (butlast ?ss) \<union> handles (buffer_info ?s)"
      by (subst ss) simp
    have ce: "closed_engines ?ss = closed_engines (butlast ?ss) \<union> {e. gpu_tone_mapper ?s = Some e}"
      by (subst ss) simp
    have f1: "filter (\<lambda>h. h \<notin> closed_handles (butlast ?ss)) (live ?a')
        = filter (\<lambda>h. h \<notin> closed_handles ?ss) (live (buffer_allocator tm))"
      unfolding ch by (auto intro: filter_cong)
    have f2: "filter (\<lambda>e. e \<notin> closed_engines (butlast ?ss)) (engines ?g')
        = filter (\<lambda>e. e \<notin> closed_engines ?ss) (engines (gpu tm))"
      unfolding ce by (auto intro: filter_cong)
    show ?thesis
      unfolding step
      apply (subst 1(1) [OF False del [symmetric] refl rest])
      using f1 f2 apply simp
      done
  qed
qed

lemma Terminate_loop_sessions: "tone_map_sessions (Terminate_loop N tm) = []"
proof (induction N tm rule: Terminate_loop.induct)
  case (1 N tm)
  show ?case
  proof (cases "tone_map_sessions tm = []")
    case True
    then show ?thesis by (subst Terminate_loop.simps) simp
  next
    case False
    obtain a' g' where del: "ToneMapSession_delete N (buffer_allocator tm, gpu tm)
        (last (tone_map_sessions tm)) = (a', g')"
      by (cases "ToneMapSession_delete N (buffer_allocator tm, gpu tm) (last (tone_map_sessions tm))")
    show ?thesis
      using False 1 [OF False del [symmetric] refl]
      by (subst Terminate_loop.simps) (simp add: del)
  qed
qed

lemma PostCommit_erase_eq:
  "length (buffer_info (tone_map_sessions tm ! i)) = N \<Longrightarrow>
   PostCommit_erase N i tm =
     tm\<lparr>tone_map_sessions := take i (tone_map_sessions tm) @ drop (Suc i) (tone_map_sessions tm),
        buffer_allocator := (buffer_allocator tm)
          \<lparr>live := filter (\<lambda>h. h \<notin> handles (buffer_info (tone_map_sessions tm ! i)))
                     (live (buffer_allocator tm))\<rparr>,
        gpu := (gpu tm)
          \<lparr>engines := filter (\<lambda>e. gpu_tone_mapper (tone_map_sessions tm ! i) \<noteq> Some e)
                        (engines (gpu tm))\<rparr>,
        fb_session_index :=
          (if INT_cast i = fb_session_index tm then - 1
           else if INT_cast i < fb_session_index tm then fb_session_index tm - 1
           else fb_session_index tm)\<rparr>"
  by (simp add: PostCommit_erase_def ToneMapSession_delete_eq Let_def)

lemma PostCommit_from_char:
  assumes "\<forall>s\<in>set (drop i (tone_map_sessions tm)).
             acquired s \<longrightarrow> UINT32 (layer_index s) < length (layers ls)"
    and "\<forall>s\<in>set (drop i (tone_map_sessions tm)). length (buffer_info s) = N"
  shows "\<exists>tm'. PostCommit_from N i tm ls = Inr tm'
     \<and> tone_map_sessions tm' = take i (tone_map_sessions tm)
          @ map (PostCommit_keep ls) (filter acquired (drop i (tone_map_sessions tm)))
     \<and> live (buffer_allocator tm')
         = filter (\<lambda>h. h \<notin> closed_handles
                     (filter (\<lambda>s. \<not> acquired s) (drop i (tone_map_sessions tm))))
             (live (buffer_allocator tm))
     \<and> engines (gpu tm')
         = filter (\<lambda>e. e \<notin> closed_engines
                     (filter (\<lambda>s. \<not> acquired s) (drop i (tone_map_sessions tm))))
             (engines (gpu tm))"
  using assms
proof (induction N i tm ls rule: PostCommit_from.induct)
  case (1 N i tm ls)
  let ?ss = "tone_map_sessions tm"
  show ?case
  proof (cases "i < length ?ss")
    case False
    then show ?thesis by (subst PostCommit_from.simps) simp
  next
    case True
    let ?s = "?ss ! i"
    have drop_eq: "drop i ?ss = ?s # drop (Suc i) ?ss"
      using True by (simp add: Cons_nth_drop_Suc)
    have s_in: "?s \<in> set (drop i ?ss)" by (simp add: drop_eq)
    show ?thesis
    proof (cases "acquired ?s")
      case acq: True
      let ?layer = "layers ls ! UINT32 (layer_index ?s)"
      let ?tm1 = "tm\<lparr>tone_map_sessions := ?ss[i := PostCommit_keep ls ?s]\<rparr>"
      have idx: "UINT32 (layer_index ?s) < length (layers ls)"
        using "1.prems"(1) s_in acq by blast
      have at: "vector_at (layers ls) (UINT32 (layer_index ?s)) = Inr ?layer"
        using idx by (simp add: vector_at_def)
      have keep: "(SetReleaseFence ?s (LayerBuffer.release_fence (input_buffer ?layer)))
                    \<lparr>acquired := False\<rparr> = PostCommit_keep ls ?s"
        by (simp add: SetReleaseFence_def PostCommit_keep_def)
      have step: "PostCommit_from N i tm ls = PostCommit_from N (Suc i) ?tm1 ls"
        using True acq by (subst PostCommit_from.simps) (simp add: at keep)
      have d1: "drop (Suc i) (tone_map_sessions ?tm1) = drop (Suc i) ?ss" by simp
      have t1: "take (Suc i) (tone_map_sessions ?tm1) = take i ?ss @ [PostCommit_keep ls ?s]"
        using True by (simp add: take_Suc_conv_app_nth)
      have p1: "\<forall>s\<in>set (drop (Suc i) (tone_map_sessions ?tm1)).
             acquired s \<longrightarrow> UINT32 (layer_index s) < length (layers ls)"
        using "1.prems"(1) by (simp add: drop_eq)
      have p2: "\<forall>s\<in>set (drop (Suc i) (tone_map_sessions ?tm1)). length (buffer_info s) = N"
        using "1.prems"(2) by (simp add: drop_eq)
      have IH: "\<exists>tm'. PostCommit_from N (Suc i) ?tm1 ls = Inr tm'
         \<and> tone_map_sessions tm' = take (Suc i) (tone_map_sessions ?tm1)
              @ map (PostCommit_keep ls) (filter acquired (drop (Suc i) (tone_map_sessions ?tm1)))
         \<and> live (buffer_allocator tm')
             = filter (\<lambda>h. h \<notin> closed_handles
                         (filter (\<lambda>s. \<not> acquired s) (drop (Suc i) (tone_map_sessions ?tm1))))
                 (live (buffer_allocator ?tm1))
         \<and> engines (gpu tm')
             = filter (\<lambda>e. e \<notin> closed_engines
                         (filter (\<lambda>s. \<not> acquired s) (drop (Suc i) (tone_map_sessions ?tm1))))
                 (engines (gpu ?tm1))"
        using "1.IH"(1) [OF True refl acq at [unfolded keep [symmetric]]] p1 p2
        unfolding keep by blast
      then obtain tm' where r: "PostCommit_from N (Suc i) ?tm1 ls = Inr tm'"
        and a: "tone_map_sessions tm' = take (Suc i) (tone_map_sessions ?tm1)
              @ map (PostCommit_keep ls) (filter acquired (drop (Suc i) (tone_map_sessions ?tm1)))"
        and b: "live (buffer_allocator tm')
             = filter (\<lambda>h. h \<notin> closed_handles
                         (filter (\<lambda>s. \<not> acquired s) (drop (Suc i) (tone_map_sessions ?tm1))))
                 (live (buffer_allocator ?tm1))"
        and c: "engines (gpu tm')
             = filter (\<lambda>e. e \<notin> closed_engines
                         (filter (\<lambda>s. \<not> acquired s) (drop (Suc i) (tone_map_sessions ?tm1))))
                 (engines (gpu ?tm1))"
        by blast
      show ?thesis
        unfolding step r
        apply (rule exI [where x = tm'])
        using a b c acq unfolding d1 t1 apply (simp add: drop_eq)
        done
    next
      case nacq: False
      let ?tm1 = "PostCommit_erase N i tm"
      have len: "length (buffer_info ?s) = N" using "1.prems"(2) s_in by blast
      note er = PostCommit_erase_eq [OF len]
      have step: "PostCommit_from N i tm ls = PostCommit_from N i ?tm1 ls"
        using True nacq by (subst PostCommit_from.simps) simp
      have ss1: "tone_map_sessions ?tm1 = take i ?ss @ drop (Suc i) ?ss"
        by (simp add: er)
      have d1: "drop i (tone_map_sessions ?tm1) = drop (Suc i) ?ss"
        using True by (simp add: ss1)
      have t1: "take i (tone_map_sessions ?tm1) = take i ?ss"
        using True by (simp add: ss1)
      have p1: "\<forall>s\<in>set (drop i (tone_map_sessions ?tm1)).
             acquired s \<longrightarrow> UINT32 (layer_index s) < length (layers ls)"
        unfolding d1 using "1.prems"(1) by (simp add: drop_eq)
      have p2: "\<forall>s\<in>set (drop i (tone_map_sessions ?tm1)). length (buffer_info s) = N"
        unfolding d1 using "1.prems"(2) by (simp add: drop_eq)
      from "1.IH"(2) [OF True refl nacq p1 p2]
      obtain tm' where r: "PostCommit_from N i ?tm1 ls = Inr tm'"
        and a: "tone_map_sessions tm' = take i (tone_map_sessions ?tm1)
              @ map (PostCommit_keep ls) (filter acquired (drop i (tone_map_sessions ?tm1)))"
        and b: "live (buffer_allocator tm')
             = filter (\<lambda>h. h \<notin> closed_handles
                         (filter (\<lambda>s. \<not> acquired s) (drop i (tone_map_sessions ?tm1))))
                 (live (buffer_allocator ?tm1))"
        and c: "engines (gpu tm')
             = filter (\<lambda>e. e \<notin> closed_engines
                         (filter (\<lambda>s. \<not> acquired s) (drop i (tone_map_sessions ?tm1))))
                 (engines (gpu ?tm1))"
        by blast
      have la: "live (buffer_allocator ?tm1)
          = filter (\<lambda>h. h \<notin> handles (buffer_info ?s)) (live (buffer_allocator tm))"
        by (simp add: er)
      have ea: "engines (gpu ?tm1)
          = filter (\<lambda>e. gpu_tone_mapper ?s \<noteq> Some e) (engines (gpu tm))"
        by (simp add: er)
      show ?thesis
        unfolding step r
        apply (rule exI [where x = tm'])
        using a b c nacq unfolding d1 t1 la ea
        apply (auto simp: drop_eq intro: filter_cong)
        done
    qed
  qed
qed

text \<open>The remembered index along the loop of \<open>PostCommit\<close>: keeping the session at \<open>i\<close>
  and removing it both preserve \<open>PostCommit_index\<close>, which therefore gives the index the
  loop returns.\<close>

lemma INT_cast_small: "i < 2147483648 \<Longrightarrow> INT_cast i = int i"
  by (simp add: INT_cast_def)

lemma PostCommit_index_keep:
  assumes "i < length ss" and "acquired (ss ! i)"
  shows "PostCommit_index (Suc i) (ss[i := s']) f = PostCommit_index i ss f"
proof -
  have drop_eq: "drop i ss = ss ! i # drop (Suc i) ss"
    using assms(1) by (simp add: Cons_nth_drop_Suc)
  consider "f < int i" | "f = int i" | "int i < f" "nat f < length ss" | "int (length ss) \<le> f"
    using assms(1) by linarith
  then show ?thesis
  proof cases
    case 1
    then show ?thesis by (simp add: PostCommit_index_def)
  next
    case 2
    then show ?thesis using assms by (simp add: PostCommit_index_def)
  next
    case 3
    have ne: "nat f \<noteq> i" using 3 by linarith
    have lt: "i < nat f" using 3 by linarith
    have k: "nat f - i = Suc (nat f - Suc i)" using lt by simp
    show ?thesis
      using 3 ne lt assms unfolding PostCommit_index_def drop_eq k
      by simp
  next
    case 4
    then show ?thesis
      using assms unfolding PostCommit_index_def drop_eq by simp
  qed
qed

lemma PostCommit_index_erase:
  assumes "i < length ss" and "\<not> acquired (ss ! i)"
  shows "PostCommit_index i (take i ss @ drop (Suc i) ss)
           (if int i = f then - 1 else if int i < f then f - 1 else f)
         = PostCommit_index i ss f"
proof -
  have drop_eq: "drop i ss = ss ! i # drop (Suc i) ss"
    using assms(1) by (simp add: Cons_nth_drop_Suc)
  have d1: "drop i (take i ss @ drop (Suc i) ss) = drop (Suc i) ss"
    using assms(1) by simp
  consider "f < int i" | "f = int i" | "int i < f" "nat f < length ss" | "int (length ss) \<le> f"
    using assms(1) by linarith
  then show ?thesis
  proof cases
    case 1
    then show ?thesis by (simp add: PostCommit_index_def)
  next
    case 2
    then show ?thesis using assms by (simp add: PostCommit_index_def)
  next
    case 3
    have lt: "i < nat f" using 3 by linarith
    have n1: "nat (f - 1) = nat f - 1" by simp
    have nth: "(take i ss @ drop (Suc i) ss) ! (nat f - 1) = ss ! nat f"
      using lt 3(2) assms(1) by (simp add: nth_append)
    have k: "nat f - i = Suc (nat f - Suc i)" using lt by simp
    have k': "nat f - 1 - i = nat f - Suc i" by simp
    have c1: "\<not> f - 1 < int i" using 3 by linarith
    have c2: "nat f - 1 < length (take i ss @ drop (Suc i) ss)"
      using lt 3(2) assms(1) by simp
    have c3: "\<not> f < int i" using 3 by linarith
    have c4: "int i \<noteq> f" using 3 by linarith
    show ?thesis
      unfolding PostCommit_index_def d1
      using assms(2) 3 c1 c2 c3 c4
      by (simp only: if_False if_True n1 nth k' drop_eq k take_Suc_Cons filter.simps
             list.size) simp
  next
    case 4
    have c1: "\<not> f - 1 < int i" using 4 assms(1) by linarith
    have c2: "\<not> nat (f - 1) < length (take i ss @ drop (Suc i) ss)"
      using 4 assms(1) by simp
    have c3: "\<not> f < int i" using 4 assms(1) by linarith
    have c4: "int i \<noteq> f" "int i < f" "\<not> nat f < length ss" using 4 assms(1) by linarith+
    show ?thesis
      unfolding PostCommit_index_def d1
      using assms(2) c1 c2 c3 c4
      by (simp only: if_False if_True drop_eq filter.simps list.size) simp
  qed
qed

lemma PostCommit_from_index:
  assumes "\<forall>s\<in>set (drop i (tone_map_sessions tm)).
             acquired s \<longrightarrow> UINT32 (layer_index s) < length (layers ls)"
    and "length (tone_map_sessions tm) < 2147483648"
  shows "\<exists>tm'. PostCommit_from N i tm ls = Inr tm'
     \<and> fb_session_index tm' = PostCommit_index i (tone_map_sessions tm) (fb_session_index tm)"
  using assms
proof (induction N i tm ls rule: PostCommit_from.induct)
  case (1 N i tm ls)
  let ?ss = "tone_map_sessions tm"
  show ?case
  proof (cases "i < length ?ss")
    case False
    have "PostCommit_index i ?ss (fb_session_index tm) = fb_session_index tm"
      using False unfolding PostCommit_index_def by (cases "fb_session_index tm < int i") auto
    then show ?thesis
      using False by (subst PostCommit_from.simps) simp
  next
    case True
    let ?s = "?ss ! i"
    have drop_eq: "drop i ?ss = ?s # drop (Suc i) ?ss"
      using True by (simp add: Cons_nth_drop_Suc)
    have s_in: "?s \<in> set (drop i ?ss)" by (simp add: drop_eq)
    show ?thesis
    proof (cases "acquired ?s")
      case acq: True
      let ?layer = "layers ls ! UINT32 (layer_index ?s)"
      let ?k = "(SetReleaseFence ?s (LayerBuffer.release_fence (input_buffer ?layer)))
                    \<lparr>acquired := False\<rparr>"
      let ?tm1 = "tm\<lparr>tone_map_sessions := ?ss[i := ?k]\<rparr>"
      have idx: "UINT32 (layer_index ?s) < length (layers ls)"
        using "1.prems"(1) s_in acq by blast
      have at: "vector_at (layers ls) (UINT32 (layer_index ?s)) = Inr ?layer"
        using idx by (simp add: vector_at_def)
      have step: "PostCommit_from N i tm ls = PostCommit_from N (Suc i) ?tm1 ls"
        using True acq by (subst PostCommit_from.simps) (simp add: at Let_def)
      have p1: "\<forall>s\<in>set (drop (Suc i) (tone_map_sessions ?tm1)).
             acquired s \<longrightarrow> UINT32 (layer_index s) < length (layers ls)"
        using "1.prems"(1) by (simp add: drop_eq)
      have p2: "length (tone_map_sessions ?tm1) < 2147483648"
        using "1.prems"(2) by simp
      from "1.IH"(1) [OF True refl acq at p1 p2]
      obtain tm' where r: "PostCommit_from N (Suc i) ?tm1 ls = Inr tm'"
        and a: "fb_session_index tm'
           = PostCommit_index (Suc i) (tone_map_sessions ?tm1) (fb_session_index ?tm1)"
        by blast
      show ?thesis
        unfolding step r
        using a by (simp add: PostCommit_index_keep [OF True acq])
    next
      case nacq: False
      let ?tm1 = "PostCommit_erase N i tm"
      have step: "PostCommit_from N i tm ls = PostCommit_from N i ?tm1 ls"
        using True nacq by (subst PostCommit_from.simps) simp
      have ci: "INT_cast i = int i"
        using True "1.prems"(2) by (simp add: INT_cast_small)
      have ss1: "tone_map_sessions ?tm1 = take i ?ss @ drop (Suc i) ?ss"
        by (simp add: PostCommit_erase_def Let_def split: prod.splits)
      have f1: "fb_session_index ?tm1
          = (if int i = fb_session_index tm then - 1
             else if int i < fb_session_index tm then fb_session_index tm - 1
             else fb_session_index tm)"
        by (simp add: PostCommit_erase_def Let_def ci split: prod.splits)
      have d1: "drop i (tone_map_sessions ?tm1) = drop (Suc i) ?ss"
        using True by (simp add: ss1)
      have p1: "\<forall>s\<in>set (drop i (tone_map_sessions ?tm1)).
             acquired s \<longrightarrow> UINT32 (layer_index s) < length (layers ls)"
        unfolding d1 using "1.prems"(1) by (simp add: drop_eq)
      have p2: "length (tone_map_sessions ?tm1) < 2147483648"
        using "1.prems"(2) True by (simp add: ss1)
      from "1.IH"(2) [OF True refl nacq p1 p2]
      obtain tm' where r: "PostCommit_from N i ?tm1 ls = Inr tm'"
        and a: "fb_session_index tm'
           = PostCommit_index i (tone_map_sessions ?tm1) (fb_session_index ?tm1)"
        by blast
      show ?thesis
        unfolding step r
        using a unfolding ss1 f1 by (simp add: PostCommit_index_erase [OF True nacq])
    qed
  qed
qed

text \<open>
  Claim C2. Let every acquired session be bound to a layer of the stack (its
  \<open>layer_index_\<close> is an index of \<open>layers\<close>) with its cursor inside the fence array, and let
  every session hold \<open>N\<close> buffer slots. Then \<open>PostCommit\<close> returns, and the collection it
  leaves consists of exactly the sessions that were acquired at entry, in their order,
  each with the release fence of its bound layer's buffer stored at its cursor and with
  \<open>acquired\<close> cleared; the sessions that were not acquired are gone, their buffers are
  no longer live in the allocator and their engines no longer live in the GPU library,
  while every other buffer and engine stays live.
\<close>

theorem PostCommit_keeps_acquired_closes_rest:
  assumes "\<forall>s\<in>set (tone_map_sessions tm).
             acquired s \<longrightarrow> UINT32 (layer_index s) < length (layers ls)
                \<and> current_buffer_index s < length (ToneMapSession.release_fence s)"
    and "\<forall>s\<in>set (tone_map_sessions tm). length (buffer_info s) = N"
  shows "\<exists>tm'. PostCommit N tm ls = Inr tm'
     \<and> tone_map_sessions tm'
         = map (\<lambda>s. s\<lparr>ToneMapSession.release_fence := (ToneMapSession.release_fence s)
                        [current_buffer_index s :=
                           LayerBuffer.release_fence
                             (input_buffer (layers ls ! UINT32 (layer_index s)))],
                      acquired := False\<rparr>)
             (filter acquired (tone_map_sessions tm))
     \<and> live (buffer_allocator tm')
         = filter (\<lambda>h. h \<notin> closed_handles (filter (\<lambda>s. \<not> acquired s) (tone_map_sessions tm)))
             (live (buffer_allocator tm))
     \<and> engines (gpu tm')
         = filter (\<lambda>e. e \<notin> closed_engines (filter (\<lambda>s. \<not> acquired s) (tone_map_sessions tm)))
             (engines (gpu tm))"
proof -
  have k: "PostCommit_keep ls = (\<lambda>s. s\<lparr>ToneMapSession.release_fence := (ToneMapSession.release_fence s)
                        [current_buffer_index s :=
                           LayerBuffer.release_fence
                             (input_buffer (layers ls ! UINT32 (layer_index s)))],
                      acquired := False\<rparr>)"
    by (rule ext) (simp add: PostCommit_keep_def)
  have p1: "\<forall>s\<in>set (drop 0 (tone_map_sessions tm)).
             acquired s \<longrightarrow> UINT32 (layer_index s) < length (layers ls)"
    using assms(1) by simp
  have p2: "\<forall>s\<in>set (drop 0 (tone_map_sessions tm)). length (buffer_info s) = N"
    using assms(2) by simp
  show ?thesis
    using PostCommit_from_char [OF p1 p2] unfolding PostCommit_def k by simp
qed

theorem PostCommit_keeps_acquired_closes_rest_witness:
  "\<exists>tm'. PostCommit 2 example_manager example_stack = Inr tm'
     \<and> length (tone_map_sessions tm') = 1
     \<and> \<not> acquired (tone_map_sessions tm' ! 0)
     \<and> gpu_tone_mapper (tone_map_sessions tm' ! 0) = Some 1
     \<and> ToneMapSession.release_fence (tone_map_sessions tm' ! 0) = [Fence_null, Fence_signal 2]
     \<and> live (buffer_allocator tm') = [1, 2]
     \<and> engines (gpu tm') = [1]"
proof -
  have h1: "\<forall>s\<in>set (tone_map_sessions example_manager).
             acquired s \<longrightarrow> UINT32 (layer_index s) < length (layers example_stack)
                \<and> current_buffer_index s < length (ToneMapSession.release_fence s)"
    by (simp add: example_manager_def example_session_def example_session2_def
        example_stack_def UINT32_def)
  have h2: "\<forall>s\<in>set (tone_map_sessions example_manager). length (buffer_info s) = 2"
    by (simp add: example_manager_def example_session_def example_session2_def)
  from PostCommit_keeps_acquired_closes_rest [OF h1 h2]
  obtain tm' where r: "PostCommit 2 example_manager example_stack = Inr tm'"
    and a: "tone_map_sessions tm'
         = map (\<lambda>s. s\<lparr>ToneMapSession.release_fence := (ToneMapSession.release_fence s)
                        [current_buffer_index s :=
                           LayerBuffer.release_fence
                             (input_buffer (layers example_stack ! UINT32 (layer_index s)))],
                      acquired := False\<rparr>)
             (filter acquired (tone_map_sessions example_manager))"
    and b: "live (buffer_allocator tm')
         = filter (\<lambda>h. h \<notin> closed_handles (filter (\<lambda>s. \<not> acquired s) (tone_map_sessions example_manager)))
             (live (buffer_allocator example_manager))"
    and c: "engines (gpu tm')
         = filter (\<lambda>e. e \<notin> closed_engines (filter (\<lambda>s. \<not> acquired s) (tone_map_sessions example_manager)))
             (engines (gpu example_manager))"
    by blast
  have a': "tone_map_sessions tm' =
      [example_session\<lparr>ToneMapSession.release_fence := [Fence_null, Fence_signal 2],
                       acquired := False\<rparr>]"
    unfolding a
    by (simp add: example_manager_def example_session_def example_session2_def
        example_stack_def example_layer_def UINT32_def)
  have b': "live (buffer_allocator tm') = [1, 2]"
    unfolding b
    by (simp add: example_manager_def example_session_def example_session2_def
        example_allocator_live_def example_allocator_def handles_Cons)
  have c': "engines (gpu tm') = [1]"
    unfolding c
    by (simp add: example_manager_def example_session_def example_session2_def example_gpu_def)
  show ?thesis
    apply (rule exI [where x = tm'])
    using r a' b' c' apply (simp add: example_session_def)
    done
qed

text \<open>
  Claim C6. Write \<open>f\<close> for the remembered frame-buffer index.

  Each removal: when the loop of \<open>PostCommit\<close> stands at a session of index \<open>d\<close> that is not
  acquired, it removes that session from the collection and goes on from the state in
  which the remembered index is \<open>-1\<close> if \<open>d = f\<close>, \<open>f - 1\<close> if \<open>d < f\<close>, and \<open>f\<close> if \<open>d > f\<close>, with
  \<open>d\<close> read as \<open>int\<close> (the value itself for \<open>d < 2^31\<close>).

  The index \<open>PostCommit\<close> returns is the outcome of these removals and of nothing else. If
  every acquired session is bound to a layer of the stack and the collection holds fewer
  than \<open>2^31\<close> sessions, \<open>PostCommit\<close> returns, and the remembered index it leaves is \<open>-1\<close> if
  \<open>f\<close> was the index of a session that is not acquired (that session is removed, \<open>d = f\<close>);
  it is \<open>f\<close> minus the number of not acquired sessions in front of it if \<open>f\<close> was the index
  of an acquired session (one less for each removal with \<open>d < f\<close>, nothing for the removals
  behind it); it is \<open>f\<close> itself if \<open>f\<close> was negative (every removal has \<open>d > f\<close>); and it is \<open>f\<close>
  minus the number of all not acquired sessions if \<open>f\<close> pointed behind the collection
  (every removal has \<open>d < f\<close>).
\<close>

theorem PostCommit_remembered_index:
  "(d < length (tone_map_sessions tm) \<and> \<not> acquired (tone_map_sessions tm ! d) \<longrightarrow>
        PostCommit_from N d tm ls = PostCommit_from N d (PostCommit_erase N d tm) ls
      \<and> tone_map_sessions (PostCommit_erase N d tm)
          = take d (tone_map_sessions tm) @ drop (Suc d) (tone_map_sessions tm)
      \<and> (INT_cast d = fb_session_index tm \<longrightarrow>
            fb_session_index (PostCommit_erase N d tm) = - 1)
      \<and> (INT_cast d < fb_session_index tm \<longrightarrow>
            fb_session_index (PostCommit_erase N d tm) = fb_session_index tm - 1)
      \<and> (fb_session_index tm < INT_cast d \<longrightarrow>
            fb_session_index (PostCommit_erase N d tm) = fb_session_index tm)
      \<and> (d < 2147483648 \<longrightarrow> INT_cast d = int d))
   \<and> ((\<forall>s\<in>set (tone_map_sessions tm).
          acquired s \<longrightarrow> UINT32 (layer_index s) < length (layers ls))
        \<and> length (tone_map_sessions tm) < 2147483648 \<longrightarrow>
       (\<exists>tm'. PostCommit N tm ls = Inr tm'
          \<and> fb_session_index tm'
              = (if 0 \<le> fb_session_index tm
                    \<and> nat (fb_session_index tm) < length (tone_map_sessions tm)
                 then
                   (if acquired (tone_map_sessions tm ! nat (fb_session_index tm))
                    then fb_session_index tm
                         - int (length (filter (\<lambda>s. \<not> acquired s)
                                  (take (nat (fb_session_index tm)) (tone_map_sessions tm))))
                    else - 1)
                 else if fb_session_index tm < 0 then fb_session_index tm
                 else fb_session_index tm
                      - int (length (filter (\<lambda>s. \<not> acquired s) (tone_map_sessions tm))))))"
proof (rule conjI)
  show "d < length (tone_map_sessions tm) \<and> \<not> acquired (tone_map_sessions tm ! d) \<longrightarrow>
        PostCommit_from N d tm ls = PostCommit_from N d (PostCommit_erase N d tm) ls
      \<and> tone_map_sessions (PostCommit_erase N d tm)
          = take d (tone_map_sessions tm) @ drop (Suc d) (tone_map_sessions tm)
      \<and> (INT_cast d = fb_session_index tm \<longrightarrow>
            fb_session_index (PostCommit_erase N d tm) = - 1)
      \<and> (INT_cast d < fb_session_index tm \<longrightarrow>
            fb_session_index (PostCommit_erase N d tm) = fb_session_index tm - 1)
      \<and> (fb_session_index tm < INT_cast d \<longrightarrow>
            fb_session_index (PostCommit_erase N d tm) = fb_session_index tm)
      \<and> (d < 2147483648 \<longrightarrow> INT_cast d = int d)"
  proof
    assume d: "d < length (tone_map_sessions tm) \<and> \<not> acquired (tone_map_sessions tm ! d)"
    have step: "PostCommit_from N d tm ls = PostCommit_from N d (PostCommit_erase N d tm) ls"
      using d by (subst PostCommit_from.simps) simp
    show "PostCommit_from N d tm ls = PostCommit_from N d (PostCommit_erase N d tm) ls
      \<and> tone_map_sessions (PostCommit_erase N d tm)
          = take d (tone_map_sessions tm) @ drop (Suc d) (tone_map_sessions tm)
      \<and> (INT_cast d = fb_session_index tm \<longrightarrow>
            fb_session_index (PostCommit_erase N d tm) = - 1)
      \<and> (INT_cast d < fb_session_index tm \<longrightarrow>
            fb_session_index (PostCommit_erase N d tm) = fb_session_index tm - 1)
      \<and> (fb_session_index tm < INT_cast d \<longrightarrow>
            fb_session_index (PostCommit_erase N d tm) = fb_session_index tm)
      \<and> (d < 2147483648 \<longrightarrow> INT_cast d = int d)"
      using step
      by (simp add: PostCommit_erase_def Let_def INT_cast_def split: prod.splits)
  qed
next
  show "(\<forall>s\<in>set (tone_map_sessions tm).
          acquired s \<longrightarrow> UINT32 (layer_index s) < length (layers ls))
        \<and> length (tone_map_sessions tm) < 2147483648 \<longrightarrow>
       (\<exists>tm'. PostCommit N tm ls = Inr tm'
          \<and> fb_session_index tm'
              = (if 0 \<le> fb_session_index tm
                    \<and> nat (fb_session_index tm) < length (tone_map_sessions tm)
                 then
                   (if acquired (tone_map_sessions tm ! nat (fb_session_index tm))
                    then fb_session_index tm
                         - int (length (filter (\<lambda>s. \<not> acquired s)
                                  (take (nat (fb_session_index tm)) (tone_map_sessions tm))))
                    else - 1)
                 else if fb_session_index tm < 0 then fb_session_index tm
                 else fb_session_index tm
                      - int (length (filter (\<lambda>s. \<not> acquired s) (tone_map_sessions tm)))))"
  proof
    assume h: "(\<forall>s\<in>set (tone_map_sessions tm).
          acquired s \<longrightarrow> UINT32 (layer_index s) < length (layers ls))
        \<and> length (tone_map_sessions tm) < 2147483648"
    have p1: "\<forall>s\<in>set (drop 0 (tone_map_sessions tm)).
               acquired s \<longrightarrow> UINT32 (layer_index s) < length (layers ls)"
      using h by simp
    have p2: "length (tone_map_sessions tm) < 2147483648" using h by simp
    from PostCommit_from_index [OF p1 p2]
    obtain tm' where r: "PostCommit_from N 0 tm ls = Inr tm'"
      and a: "fb_session_index tm'
          = PostCommit_index 0 (tone_map_sessions tm) (fb_session_index tm)"
      by blast
    show "\<exists>tm'. PostCommit N tm ls = Inr tm'
          \<and> fb_session_index tm'
              = (if 0 \<le> fb_session_index tm
                    \<and> nat (fb_session_index tm) < length (tone_map_sessions tm)
                 then
                   (if acquired (tone_map_sessions tm ! nat (fb_session_index tm))
                    then fb_session_index tm
                         - int (length (filter (\<lambda>s. \<not> acquired s)
                                  (take (nat (fb_session_index tm)) (tone_map_sessions tm))))
                    else - 1)
                 else if fb_session_index tm < 0 then fb_session_index tm
                 else fb_session_index tm
                      - int (length (filter (\<lambda>s. \<not> acquired s) (tone_map_sessions tm))))"
      unfolding PostCommit_def r
      apply (rule exI [where x = tm'])
      using a apply (simp add: PostCommit_index_def)
      done
  qed
qed

theorem PostCommit_remembered_index_witness:
  "\<not> isl (PostCommit 2 example_manager example_stack)
   \<and> fb_session_index example_manager = 1
   \<and> fb_session_index (projr (PostCommit 2 example_manager example_stack)) = - 1
   \<and> fb_session_index (projr (PostCommit 2 (example_manager\<lparr>fb_session_index := 2\<rparr>)
        example_stack)) = 1
   \<and> fb_session_index (projr (PostCommit 2 (example_manager\<lparr>fb_session_index := 0\<rparr>)
        example_stack)) = 0
   \<and> fb_session_index example_manager_fb_kept = 1
   \<and> fb_session_index (projr (PostCommit 2 example_manager_fb_kept example_stack)) = 0
   \<and> fb_session_index (PostCommit_erase 2 1 example_manager) = - 1
   \<and> fb_session_index (PostCommit_erase 2 1 (example_manager\<lparr>fb_session_index := 2\<rparr>)) = 1
   \<and> fb_session_index (PostCommit_erase 2 1 (example_manager\<lparr>fb_session_index := 0\<rparr>)) = 0
   \<and> tone_map_sessions (PostCommit_erase 2 1 example_manager)
       = [example_session\<lparr>acquired := True\<rparr>]"
proof -
  have ss: "tone_map_sessions example_manager = [example_session\<lparr>acquired := True\<rparr>, example_session2]"
    by (simp add: example_manager_def)
  have ss': "tone_map_sessions example_manager_fb_kept
      = [example_session2, example_session\<lparr>acquired := True\<rparr>]"
    by (simp add: example_manager_fb_kept_def)
  have a2: "\<not> acquired example_session2"
    by (simp add: example_session2_def example_session_def)
  have h: "(\<forall>s\<in>set (tone_map_sessions (example_manager\<lparr>fb_session_index := f\<rparr>)).
             acquired s \<longrightarrow> UINT32 (layer_index s) < length (layers example_stack))
         \<and> length (tone_map_sessions (example_manager\<lparr>fb_session_index := f\<rparr>)) < 2147483648" for f
    by (simp add: ss a2) (simp add: example_session_def example_stack_def UINT32_def)
  have h': "(\<forall>s\<in>set (tone_map_sessions example_manager_fb_kept).
             acquired s \<longrightarrow> UINT32 (layer_index s) < length (layers example_stack))
         \<and> length (tone_map_sessions example_manager_fb_kept) < 2147483648"
    by (simp add: ss' a2) (simp add: example_session_def example_stack_def UINT32_def)
  have d: "1 < length (tone_map_sessions (example_manager\<lparr>fb_session_index := f\<rparr>))
         \<and> \<not> acquired (tone_map_sessions (example_manager\<lparr>fb_session_index := f\<rparr>) ! 1)" for f
    by (simp add: ss a2)
  have c: "INT_cast 1 = 1" by (simp add: INT_cast_def)
  have m: "example_manager\<lparr>fb_session_index := 1\<rparr> = example_manager"
    by (simp add: example_manager_def)
  have fm: "fb_session_index example_manager = 1"
    by (simp add: example_manager_def)
  have fk: "fb_session_index example_manager_fb_kept = 1"
    by (simp add: example_manager_fb_kept_def example_manager_def)
  note T = PostCommit_remembered_index [where N = 2 and ls = example_stack and d = 1]
  note R1 = T [where tm = "example_manager\<lparr>fb_session_index := 1\<rparr>",
      THEN conjunct2, THEN mp, OF h [of 1], unfolded m]
  note R2 = T [where tm = "example_manager\<lparr>fb_session_index := 2\<rparr>",
      THEN conjunct2, THEN mp, OF h [of 2]]
  note R3 = T [where tm = "example_manager\<lparr>fb_session_index := 0\<rparr>",
      THEN conjunct2, THEN mp, OF h [of 0]]
  note R4 = T [where tm = example_manager_fb_kept, THEN conjunct2, THEN mp, OF h']
  note E1 = T [where tm = "example_manager\<lparr>fb_session_index := 1\<rparr>",
      THEN conjunct1, THEN mp, OF d [of 1], unfolded m]
  note E2 = T [where tm = "example_manager\<lparr>fb_session_index := 2\<rparr>",
      THEN conjunct1, THEN mp, OF d [of 2]]
  note E3 = T [where tm = "example_manager\<lparr>fb_session_index := 0\<rparr>",
      THEN conjunct1, THEN mp, OF d [of 0]]
  have t1: "\<not> isl (PostCommit 2 example_manager example_stack)
      \<and> fb_session_index (projr (PostCommit 2 example_manager example_stack)) = - 1"
    using R1 by (auto simp: ss a2 fm)
  have t2: "fb_session_index (projr (PostCommit 2 (example_manager\<lparr>fb_session_index := 2\<rparr>)
        example_stack)) = 1"
    using R2 by (auto simp: ss a2)
  have t3: "fb_session_index (projr (PostCommit 2 (example_manager\<lparr>fb_session_index := 0\<rparr>)
        example_stack)) = 0"
    using R3 by (auto simp: ss a2)
  have t4: "fb_session_index (projr (PostCommit 2 example_manager_fb_kept example_stack)) = 0"
    using R4 by (auto simp: ss' a2 fk)
  have e1: "fb_session_index (PostCommit_erase 2 1 example_manager) = - 1"
    using E1 c fm by simp
  have e2: "fb_session_index (PostCommit_erase 2 1 (example_manager\<lparr>fb_session_index := 2\<rparr>)) = 1"
    using E2 c by simp
  have e3: "fb_session_index (PostCommit_erase 2 1 (example_manager\<lparr>fb_session_index := 0\<rparr>)) = 0"
    using E3 c by simp
  have e4: "tone_map_sessions (PostCommit_erase 2 1 example_manager)
       = [example_session\<lparr>acquired := True\<rparr>]"
    using E1 by (simp add: ss)
  show ?thesis using t1 t2 t3 t4 e1 e2 e3 e4 fm fk by simp
qed

text \<open>
  What \<open>Terminate\<close> does. After \<open>Terminate\<close> the collection is empty. If it held a session
  at the call, the remembered frame-buffer index is \<open>-1\<close> afterwards; if it was already
  empty, the guard \<open>if (tone_map_sessions_.size())\<close> skips the whole body, the reset of the
  remembered index included, and \<open>Terminate\<close> returns the manager as it is. When every
  session holds \<open>N\<close> buffer slots, the buffers and engines of all sessions are no longer
  live afterwards.
\<close>

lemma Terminate_effect:
  "tone_map_sessions (Terminate N tm) = []
   \<and> (tone_map_sessions tm \<noteq> [] \<longrightarrow> fb_session_index (Terminate N tm) = - 1)
   \<and> (tone_map_sessions tm = [] \<longrightarrow> Terminate N tm = tm)
   \<and> ((\<forall>s\<in>set (tone_map_sessions tm). length (buffer_info s) = N) \<longrightarrow>
        live (buffer_allocator (Terminate N tm))
          = filter (\<lambda>h. h \<notin> closed_handles (tone_map_sessions tm)) (live (buffer_allocator tm))
        \<and> engines (gpu (Terminate N tm))
          = filter (\<lambda>e. e \<notin> closed_engines (tone_map_sessions tm)) (engines (gpu tm)))"
proof (intro conjI impI)
  show "tone_map_sessions (Terminate N tm) = []"
    by (simp add: Terminate_def Terminate_loop_sessions)
  show "fb_session_index (Terminate N tm) = - 1" if "tone_map_sessions tm \<noteq> []"
    using that by (simp add: Terminate_def)
  show "Terminate N tm = tm" if "tone_map_sessions tm = []"
    using that by (simp add: Terminate_def)
  assume l: "\<forall>s\<in>set (tone_map_sessions tm). length (buffer_info s) = N"
  show "live (buffer_allocator (Terminate N tm))
          = filter (\<lambda>h. h \<notin> closed_handles (tone_map_sessions tm)) (live (buffer_allocator tm))"
    by (simp add: Terminate_def Terminate_loop_eq [OF l])
  show "engines (gpu (Terminate N tm))
          = filter (\<lambda>e. e \<notin> closed_engines (tone_map_sessions tm)) (engines (gpu tm))"
    by (simp add: Terminate_def Terminate_loop_eq [OF l])
qed

lemma Terminate_effect_example:
  "tone_map_sessions (Terminate 2 example_manager) = []
   \<and> fb_session_index (Terminate 2 example_manager) = - 1
   \<and> live (buffer_allocator (Terminate 2 example_manager)) = []
   \<and> engines (gpu (Terminate 2 example_manager)) = []
   \<and> Terminate 2 (HWCToneMapper_new example_allocator_live (example_gpu (\<lambda>n. True)))
       = HWCToneMapper_new example_allocator_live (example_gpu (\<lambda>n. True))"
proof -
  have ne: "tone_map_sessions example_manager \<noteq> []" by (simp add: example_manager_def)
  have l: "\<forall>s\<in>set (tone_map_sessions example_manager). length (buffer_info s) = 2"
    by (simp add: example_manager_def example_session_def example_session2_def)
  have e: "tone_map_sessions (HWCToneMapper_new example_allocator_live (example_gpu (\<lambda>n. True))) = []"
    by (simp add: HWCToneMapper_new_def)
  note T = Terminate_effect [of 2 example_manager]
  note U = Terminate_effect [of 2 "HWCToneMapper_new example_allocator_live (example_gpu (\<lambda>n. True))"]
  have a: "live (buffer_allocator (Terminate 2 example_manager)) = []"
    using T l
    by (simp add: example_manager_def example_session_def example_session2_def
        example_allocator_live_def example_allocator_def handles_Cons)
  have b: "engines (gpu (Terminate 2 example_manager)) = []"
    using T l
    by (simp add: example_manager_def example_session_def example_session2_def example_gpu_def)
  show ?thesis
    using T U ne e a b by simp
qed

text \<open>
  Claim C9. \<open>Terminate\<close> is to leave the collection empty and the remembered frame-buffer
  index at \<open>-1\<close> from every manager state, a collection that is already empty included.
  The code does not: the reset \<open>fb_session_index_ = -1\<close> sits inside the guard
  \<open>if (tone_map_sessions_.size())\<close>, so on a manager with no session and the remembered
  index \<open>0\<close> the collection stays empty and the index stays \<open>0\<close>. This state is the one
  \<open>HandleToneMap\<close> leaves when acquisition fails for a frame-buffer target layer on an
  empty collection (lemma \<open>HandleToneMap_leaves_stale_index\<close> below), while the same failure
  with a session in the collection ends with the index \<open>-1\<close> (lemma \<open>Terminate_effect\<close>).
\<close>

theorem Terminate_keeps_stale_index:
  "tone_map_sessions (example_manager_new\<lparr>fb_session_index := 0\<rparr>) = []
   \<and> tone_map_sessions (Terminate 2 (example_manager_new\<lparr>fb_session_index := 0\<rparr>)) = []
   \<and> fb_session_index (Terminate 2 (example_manager_new\<lparr>fb_session_index := 0\<rparr>)) = 0
   \<and> fb_session_index (Terminate 2 (example_manager_new\<lparr>fb_session_index := 0\<rparr>)) \<noteq> - 1"
  by (simp add: Terminate_def example_manager_new_def HWCToneMapper_new_def)

section \<open>Acquiring a session\<close>

lemma reuse_None:
  "\<forall>j<length (tone_map_sessions tm). i \<le> j \<longrightarrow> \<not> reusable tm layer bcs (tone_map_sessions tm ! j)
   \<Longrightarrow> AcquireToneMapSession_reuse N i tm layer bcs = None"
proof (induction N i tm layer bcs rule: AcquireToneMapSession_reuse.induct)
  case (1 N i tm layer bcs)
  show ?case
  proof (cases "i < length (tone_map_sessions tm)")
    case False
    then show ?thesis by (subst AcquireToneMapSession_reuse.simps) simp
  next
    case True
    have n: "\<not> reusable tm layer bcs (tone_map_sessions tm ! i)" using 1(2) True by simp
    then have n': "\<not> (\<not> acquired (tone_map_sessions tm ! i)
        \<and> IsSameToneMapConfig (buffer_allocator tm) (tone_map_sessions tm ! i) layer bcs)"
      by (simp add: reusable_def)
    then have n'': "(\<not> acquired (tone_map_sessions tm ! i)
        \<and> IsSameToneMapConfig (buffer_allocator tm) (tone_map_sessions tm ! i) layer bcs) = False"
      by simp
    have "AcquireToneMapSession_reuse N (Suc i) tm layer bcs = None"
      using 1(1) [OF True refl n'] 1(2) by simp
    then show ?thesis
      using True by (subst AcquireToneMapSession_reuse.simps) (simp only: n'' Let_def if_True if_False)
  qed
qed

lemma reuse_Some:
  assumes "k < length (tone_map_sessions tm)" "i \<le> k"
    and "reusable tm layer bcs (tone_map_sessions tm ! k)"
    and "\<forall>j<k. i \<le> j \<longrightarrow> \<not> reusable tm layer bcs (tone_map_sessions tm ! j)"
  shows "AcquireToneMapSession_reuse N i tm layer bcs =
     Some (k, tm\<lparr>tone_map_sessions := (tone_map_sessions tm)
                [k := (tone_map_sessions tm ! k)
                   \<lparr>current_buffer_index := (current_buffer_index (tone_map_sessions tm ! k) + 1) mod N,
                    acquired := True\<rparr>]\<rparr>)"
  using assms
proof (induction N i tm layer bcs rule: AcquireToneMapSession_reuse.induct)
  case (1 N i tm layer bcs)
  have i: "i < length (tone_map_sessions tm)" using 1(2,3) by simp
  show ?case
  proof (cases "i = k")
    case True
    then show ?thesis
      using 1(2,4) by (subst AcquireToneMapSession_reuse.simps) (simp add: reusable_def Let_def)
  next
    case False
    then have lt: "i < k" using 1(3) by simp
    have n: "\<not> reusable tm layer bcs (tone_map_sessions tm ! i)" using 1(5) lt by simp
    then have n': "\<not> (\<not> acquired (tone_map_sessions tm ! i)
        \<and> IsSameToneMapConfig (buffer_allocator tm) (tone_map_sessions tm ! i) layer bcs)"
      by (simp add: reusable_def)
    then have n'': "(\<not> acquired (tone_map_sessions tm ! i)
        \<and> IsSameToneMapConfig (buffer_allocator tm) (tone_map_sessions tm ! i) layer bcs) = False"
      by simp
    have "AcquireToneMapSession_reuse N (Suc i) tm layer bcs =
       Some (k, tm\<lparr>tone_map_sessions := (tone_map_sessions tm)
                [k := (tone_map_sessions tm ! k)
                   \<lparr>current_buffer_index := (current_buffer_index (tone_map_sessions tm ! k) + 1) mod N,
                    acquired := True\<rparr>]\<rparr>)"
      using 1(1) [OF i refl n' 1(2) _ 1(4)] lt 1(5) by simp
    then show ?thesis
      using i by (subst AcquireToneMapSession_reuse.simps) (simp only: n'' Let_def if_True if_False)
  qed
qed

lemma reuse_None_iff:
  "AcquireToneMapSession_reuse N 0 tm layer bcs = None \<longleftrightarrow>
     (\<forall>s\<in>set (tone_map_sessions tm). \<not> reusable tm layer bcs s)"
proof
  assume r: "AcquireToneMapSession_reuse N 0 tm layer bcs = None"
  show "\<forall>s\<in>set (tone_map_sessions tm). \<not> reusable tm layer bcs s"
  proof (rule ccontr)
    assume "\<not> (\<forall>s\<in>set (tone_map_sessions tm). \<not> reusable tm layer bcs s)"
    then have ex: "\<exists>k. k < length (tone_map_sessions tm) \<and> reusable tm layer bcs (tone_map_sessions tm ! k)"
      by (auto simp: in_set_conv_nth)
    define k where "k = (LEAST k. k < length (tone_map_sessions tm) \<and> reusable tm layer bcs (tone_map_sessions tm ! k))"
    have kp: "k < length (tone_map_sessions tm) \<and> reusable tm layer bcs (tone_map_sessions tm ! k)"
      unfolding k_def using ex by (rule LeastI_ex)
    have km: "\<forall>j<k. 0 \<le> j \<longrightarrow> \<not> reusable tm layer bcs (tone_map_sessions tm ! j)"
    proof (intro allI impI)
      fix j assume j: "j < k"
      show "\<not> reusable tm layer bcs (tone_map_sessions tm ! j)"
      proof
        assume "reusable tm layer bcs (tone_map_sessions tm ! j)"
        then have "k \<le> j" unfolding k_def using j kp by (intro Least_le) simp
        then show False using j by simp
      qed
    qed
    from reuse_Some [of k tm 0 layer bcs N] kp km r show False by simp
  qed
next
  assume "\<forall>s\<in>set (tone_map_sessions tm). \<not> reusable tm layer bcs s"
  then show "AcquireToneMapSession_reuse N 0 tm layer bcs = None"
    by (intro reuse_None) simp
qed

lemma new_session_facts:
  "length (buffer_info (SetToneMapConfig (ToneMapSession_new N) layer bcs)) = N"
  "handles (buffer_info (SetToneMapConfig (ToneMapSession_new N) layer bcs)) = {}"
  "current_buffer_index (SetToneMapConfig (ToneMapSession_new N) layer bcs) = 0"
  "gpu_tone_mapper (SetToneMapConfig (ToneMapSession_new N) layer bcs) = None"
  by (auto simp: SetToneMapConfig_def ToneMapSession_new_def handles_def BufferInfo_init_def)

lemma GetInstance_cases:
  obtains (null) g1 where
      "OnTask_kCodeGetInstance g s layer = (g1, s\<lparr>gpu_tone_mapper := None\<rparr>)"
      "engines g1 = engines g" "blits g1 = blits g"
  | (engine) g1 e where
      "OnTask_kCodeGetInstance g s layer = (g1, s\<lparr>gpu_tone_mapper := Some e\<rparr>)"
      "engines g1 = engines g @ [e]" "e \<notin> set (engines g)" "blits g1 = blits g"
proof -
  let ?args = "\<lparr>arg_type = type_tm (tone_map_config s), arg_lutEntries = lutEntries (lut_3d layer),
              arg_dim = dim (lut_3d layer),
              arg_grid_entries = (if validGridEntries (lut_3d layer) then gridEntries (lut_3d layer) else None),
              arg_grid_size = (if validGridEntries (lut_3d layer) then INT_cast (unat (gridSize (lut_3d layer))) else 0),
              arg_secure = ToneMapConfig.secure (tone_map_config s)\<rparr>"
  show ?thesis
  proof (cases "factory_result g (factory_calls g) ?args")
    case True
    show ?thesis
      by (rule engine [of "g\<lparr>factory_calls := Suc (factory_calls g),
              engines := engines g @ [fresh_handle (engines g)]\<rparr>" "fresh_handle (engines g)"])
         (use True in \<open>simp_all add: OnTask_kCodeGetInstance_def TonemapperFactory_GetInstance_def
            Let_def fresh_handle_notin\<close>)
  next
    case False
    show ?thesis
      by (rule null [of "g\<lparr>factory_calls := Suc (factory_calls g)\<rparr>"])
         (use False in \<open>simp_all add: OnTask_kCodeGetInstance_def TonemapperFactory_GetInstance_def
            Let_def\<close>)
  qed
qed

lemma Allocate_outcome:
  assumes len: "length (buffer_info s) = N" and empty: "handles (buffer_info s) = {}"
  obtains (ok) a' bis' new where
      "AllocateIntermediateBuffers N a s layer = (kErrorNone, a', s\<lparr>buffer_info := bis'\<rparr>)"
      "length bis' = N" "live a' = live a @ new" "map private_data bis' = map Some new"
      "set new \<inter> set (live a) = {}"
      "\<forall>j<N. alloc_result a (alloc_calls a + j) = kErrorNone"
  | (fail) a' bis' k where
      "AllocateIntermediateBuffers N a s layer
         = (alloc_result a (alloc_calls a + k), a', s\<lparr>buffer_info := bis'\<rparr>)"
      "k < N" "alloc_result a (alloc_calls a + k) \<noteq> kErrorNone"
      "\<forall>j<k. alloc_result a (alloc_calls a + j) = kErrorNone"
      "length bis' = N" "handles bis' = {}" "live a' = live a"
proof (cases "\<forall>j<N. alloc_result a (alloc_calls a + j) = kErrorNone")
  case True
  from Allocate_from_ok [OF len [symmetric] _ True, of 0 layer]
  obtain a' bis' new where "AllocateIntermediateBuffers_from N 0 a s layer
             = (kErrorNone, a', s\<lparr>buffer_info := bis'\<rparr>)"
     "length bis' = N" "map private_data bis' = map Some new"
     "live a' = live a @ new" "set new \<inter> set (live a) = {}"
    by auto
  then show ?thesis
    using True by (intro ok [of a' bis' new]) (simp_all add: AllocateIntermediateBuffers_def)
next
  case False
  then have ex: "\<exists>k. k < N \<and> alloc_result a (alloc_calls a + k) \<noteq> kErrorNone" by blast
  define k where "k = (LEAST k. k < N \<and> alloc_result a (alloc_calls a + k) \<noteq> kErrorNone)"
  have kp: "k < N \<and> alloc_result a (alloc_calls a + k) \<noteq> kErrorNone"
    unfolding k_def using ex by (rule LeastI_ex)
  have km: "\<forall>j<k. alloc_result a (alloc_calls a + j) = kErrorNone"
  proof (intro allI impI)
    fix j assume j: "j < k"
    show "alloc_result a (alloc_calls a + j) = kErrorNone"
    proof (rule ccontr)
      assume "alloc_result a (alloc_calls a + j) \<noteq> kErrorNone"
      then have "k \<le> j" unfolding k_def using j kp by (intro Least_le) simp
      then show False using j by simp
    qed
  qed
  have "0 + k < N" using kp by simp
  from Allocate_from_fail [OF len [symmetric] this km, of layer] kp
  obtain a' bis' where r: "AllocateIntermediateBuffers_from N 0 a s layer
             = (alloc_result a (alloc_calls a + k), a', s\<lparr>buffer_info := bis'\<rparr>)"
     and l: "length bis' = N" and none: "\<forall>j<N. private_data (bis' ! j) = None"
     and s1: "live a' = filter (\<lambda>h. h \<in> set (live a')) (live a)"
     and s2: "\<forall>h\<in>set (live a). h \<notin> handles (buffer_info s) \<longrightarrow> h \<in> set (live a')"
    by blast
  have "\<forall>h\<in>set (live a). h \<in> set (live a')" using s2 empty by simp
  then have "filter (\<lambda>h. h \<in> set (live a')) (live a) = live a" by (simp add: filter_id_conv)
  then have lv: "live a' = live a" using s1 by simp
  have he: "handles bis' = {}" using none l by (simp add: handles_empty_iff)
  show ?thesis
    using r l he lv kp km by (intro fail [of k a' bis']) (simp_all add: AllocateIntermediateBuffers_def)
qed

lemma delete_unallocated:
  assumes "length (buffer_info s) = N" "handles (buffer_info s) = {}"
  shows "ToneMapSession_delete N (a, g) s
     = (a, g\<lparr>engines := filter (\<lambda>e. gpu_tone_mapper s \<noteq> Some e) (engines g)\<rparr>)"
  using assms by (simp add: ToneMapSession_delete_eq)

lemma AcquireToneMapSession_cases:
  obtains (parameters)
      "lutEntries (lut_3d layer) = None \<or> dim (lut_3d layer) = 0"
      "AcquireToneMapSession N tm layer si bcs = (kErrorParameters, si, tm)"
  | (reuse) k where
      "lutEntries (lut_3d layer) \<noteq> None" "dim (lut_3d layer) \<noteq> 0"
      "k < length (tone_map_sessions tm)" "reusable tm layer bcs (tone_map_sessions tm ! k)"
      "\<forall>j<k. \<not> reusable tm layer bcs (tone_map_sessions tm ! j)"
      "AcquireToneMapSession N tm layer si bcs =
         (kErrorNone, k,
          tm\<lparr>tone_map_sessions := (tone_map_sessions tm)
                [k := (tone_map_sessions tm ! k)
                   \<lparr>current_buffer_index := (current_buffer_index (tone_map_sessions tm ! k) + 1) mod N,
                    acquired := True\<rparr>]\<rparr>)"
  | (no_engine) tm' where
      "lutEntries (lut_3d layer) \<noteq> None" "dim (lut_3d layer) \<noteq> 0"
      "\<forall>s\<in>set (tone_map_sessions tm). \<not> reusable tm layer bcs s"
      "AcquireToneMapSession_engine N tm layer bcs = None"
      "AcquireToneMapSession N tm layer si bcs = (kErrorNotSupported, si, tm')"
      "tone_map_sessions tm' = tone_map_sessions tm" "fb_session_index tm' = fb_session_index tm"
      "live (buffer_allocator tm') = live (buffer_allocator tm)"
      "engines (gpu tm') = engines (gpu tm)" "blits (gpu tm') = blits (gpu tm)"
  | (alloc_failed) tm' k where
      "lutEntries (lut_3d layer) \<noteq> None" "dim (lut_3d layer) \<noteq> 0"
      "\<forall>s\<in>set (tone_map_sessions tm). \<not> reusable tm layer bcs s"
      "AcquireToneMapSession_engine N tm layer bcs \<noteq> None"
      "k < N"
      "alloc_result (buffer_allocator tm) (alloc_calls (buffer_allocator tm) + k) \<noteq> kErrorNone"
      "\<forall>j<k. alloc_result (buffer_allocator tm) (alloc_calls (buffer_allocator tm) + j) = kErrorNone"
      "AcquireToneMapSession N tm layer si bcs
         = (alloc_result (buffer_allocator tm) (alloc_calls (buffer_allocator tm) + k), si, tm')"
      "tone_map_sessions tm' = tone_map_sessions tm" "fb_session_index tm' = fb_session_index tm"
      "live (buffer_allocator tm') = live (buffer_allocator tm)"
      "engines (gpu tm') = engines (gpu tm)" "blits (gpu tm') = blits (gpu tm)"
  | (created) tm' snew where
      "lutEntries (lut_3d layer) \<noteq> None" "dim (lut_3d layer) \<noteq> 0"
      "\<forall>s\<in>set (tone_map_sessions tm). \<not> reusable tm layer bcs s"
      "AcquireToneMapSession_engine N tm layer bcs \<noteq> None"
      "\<forall>j<N. alloc_result (buffer_allocator tm) (alloc_calls (buffer_allocator tm) + j) = kErrorNone"
      "AcquireToneMapSession N tm layer si bcs
         = (kErrorNone, UINT32 (int (length (tone_map_sessions tm))), tm')"
      "tone_map_sessions tm' = tone_map_sessions tm @ [snew]"
      "fb_session_index tm' = fb_session_index tm"
      "current_buffer_index snew = 0" "acquired snew" "length (buffer_info snew) = N"
      "tone_map_config snew = tone_map_config (SetToneMapConfig (ToneMapSession_new N) layer bcs)"
      "blits (gpu tm') = blits (gpu tm)"
proof (cases "lutEntries (lut_3d layer) = None \<or> dim (lut_3d layer) = 0")
  case True
  then show ?thesis
    by (intro parameters) (simp_all add: AcquireToneMapSession_def)
next
  case lut: False
  then have lut1: "lutEntries (lut_3d layer) \<noteq> None" and lut2: "dim (lut_3d layer) \<noteq> 0"
    by simp_all
  have lut': "(lutEntries (lut_3d layer) = None \<or> dim (lut_3d layer) = 0) = False"
    using lut by simp
  show ?thesis
  proof (cases "\<forall>s\<in>set (tone_map_sessions tm). \<not> reusable tm layer bcs s")
    case False
    then have ex: "\<exists>k. k < length (tone_map_sessions tm) \<and> reusable tm layer bcs (tone_map_sessions tm ! k)"
      by (auto simp: in_set_conv_nth)
    define k where "k = (LEAST k. k < length (tone_map_sessions tm) \<and> reusable tm layer bcs (tone_map_sessions tm ! k))"
    have kp: "k < length (tone_map_sessions tm) \<and> reusable tm layer bcs (tone_map_sessions tm ! k)"
      unfolding k_def using ex by (rule LeastI_ex)
    have km: "\<forall>j<k. \<not> reusable tm layer bcs (tone_map_sessions tm ! j)"
    proof (intro allI impI)
      fix j assume j: "j < k"
      show "\<not> reusable tm layer bcs (tone_map_sessions tm ! j)"
      proof
        assume "reusable tm layer bcs (tone_map_sessions tm ! j)"
        then have "k \<le> j" unfolding k_def using j kp by (intro Least_le) simp
        then show False using j by simp
      qed
    qed
    have r: "AcquireToneMapSession_reuse N 0 tm layer bcs =
       Some (k, tm\<lparr>tone_map_sessions := (tone_map_sessions tm)
                [k := (tone_map_sessions tm ! k)
                   \<lparr>current_buffer_index := (current_buffer_index (tone_map_sessions tm ! k) + 1) mod N,
                    acquired := True\<rparr>]\<rparr>)"
      using reuse_Some [of k tm 0 layer bcs N] kp km by simp
    have res: "AcquireToneMapSession N tm layer si bcs =
         (kErrorNone, k,
          tm\<lparr>tone_map_sessions := (tone_map_sessions tm)
                [k := (tone_map_sessions tm ! k)
                   \<lparr>current_buffer_index := (current_buffer_index (tone_map_sessions tm ! k) + 1) mod N,
                    acquired := True\<rparr>]\<rparr>)"
      by (simp add: AcquireToneMapSession_def lut' r)
    show ?thesis
      using lut1 lut2 kp km res by (intro reuse [of k]) blast+
  next
    case none: True
    then have r: "AcquireToneMapSession_reuse N 0 tm layer bcs = None"
      by (simp add: reuse_None_iff)
    let ?s0 = "SetToneMapConfig (ToneMapSession_new N) layer bcs"
    show ?thesis
    proof (cases rule: GetInstance_cases [where g = "gpu tm" and s = ?s0 and layer = layer])
      case (null g1)
      have en: "AcquireToneMapSession_engine N tm layer bcs = None"
        by (simp add: AcquireToneMapSession_engine_def null(1))
      have del: "ToneMapSession_delete N (buffer_allocator tm, g1) (?s0\<lparr>gpu_tone_mapper := None\<rparr>)
          = (buffer_allocator tm, g1\<lparr>engines := filter (\<lambda>e. True) (engines g1)\<rparr>)"
        by (subst delete_unallocated) (simp_all add: new_session_facts)
      let ?tm' = "tm\<lparr>buffer_allocator := buffer_allocator tm,
            gpu := g1\<lparr>engines := filter (\<lambda>e. True) (engines g1)\<rparr>\<rparr>"
      have res: "AcquireToneMapSession N tm layer si bcs = (kErrorNotSupported, si, ?tm')"
        by (simp add: AcquireToneMapSession_def lut' r null(1) del)
      show ?thesis
        apply (rule no_engine [of ?tm'])
        using lut1 lut2 none en res null(2,3) apply simp_all
        done
    next
      case (engine g1 e)
      let ?s1 = "?s0\<lparr>gpu_tone_mapper := Some e\<rparr>"
      have en: "AcquireToneMapSession_engine N tm layer bcs \<noteq> None"
        by (simp add: AcquireToneMapSession_engine_def engine(1))
      have l1: "length (buffer_info ?s1) = N" by (simp add: new_session_facts)
      have h1: "handles (buffer_info ?s1) = {}" by (simp add: new_session_facts)
      from l1 h1 show ?thesis
      proof (cases rule: Allocate_outcome [where a = "buffer_allocator tm" and layer = layer, consumes 2, case_names ok fail])
        case (ok a' bis' new)
        let ?sn = "?s1\<lparr>buffer_info := bis', acquired := True\<rparr>"
        let ?tm' = "tm\<lparr>tone_map_sessions := tone_map_sessions tm @ [?sn],
              buffer_allocator := a', gpu := g1\<rparr>"
        have res: "AcquireToneMapSession N tm layer si bcs
            = (kErrorNone, UINT32 (int (length (tone_map_sessions tm))), ?tm')"
          by (simp add: AcquireToneMapSession_def lut' r engine(1) ok(1) Let_def)
        show ?thesis
          apply (rule created [of ?tm' ?sn])
          using lut1 lut2 none en res ok(2,6) engine(4)
          apply (simp_all add: new_session_facts)
          done
      next
        case (fail a' bis' k)
        have del: "ToneMapSession_delete N (a', g1) (?s1\<lparr>buffer_info := bis'\<rparr>)
          = (a', g1\<lparr>engines := filter (\<lambda>x. Some e \<noteq> Some x) (engines g1)\<rparr>)"
          by (subst delete_unallocated) (simp_all add: fail)
        have eng: "filter (\<lambda>x. Some e \<noteq> Some x) (engines g1) = engines (gpu tm)"
          using engine(2,3) by (auto simp: filter_id_conv)
        let ?tm' = "tm\<lparr>buffer_allocator := a',
              gpu := g1\<lparr>engines := filter (\<lambda>x. Some e \<noteq> Some x) (engines g1)\<rparr>\<rparr>"
        have res: "AcquireToneMapSession N tm layer si bcs
            = (alloc_result (buffer_allocator tm) (alloc_calls (buffer_allocator tm) + k), si, ?tm')"
          by (simp add: AcquireToneMapSession_def lut' r engine(1) fail(1,3) del)
        show ?thesis
          apply (rule alloc_failed [of k ?tm'])
          using lut1 lut2 none en res fail(2,3,4,7) engine(4) eng
          apply simp_all
          done
      qed
    qed
  qed
qed

text \<open>
  Claim C1. Let \<open>AcquireToneMapSession\<close> return the code \<open>e\<close>. If the layer's lookup table
  entries are absent or its dimension is zero, \<open>e\<close> is \<open>kErrorParameters\<close>. If the table is
  there, no session can be re-used and the factory returns no engine, \<open>e\<close> is
  \<open>kErrorNotSupported\<close>. If the table is there, no session can be re-used, the factory
  returns an engine and the \<open>k\<close>-th buffer allocation is the first to fail, \<open>e\<close> is the
  allocator's code. Whenever \<open>e\<close> is not \<open>kErrorNone\<close>, the session collection, the
  remembered frame-buffer index and \<open>*session_index\<close> are as before the call, and so are
  the live buffers of the allocator and the live engines of the GPU library: what was
  built of the new session has been freed.
\<close>

theorem AcquireToneMapSession_failure_rollback:
  assumes "AcquireToneMapSession N tm layer si bcs = (e, si', tm')"
  shows "(lutEntries (lut_3d layer) = None \<or> dim (lut_3d layer) = 0 \<longrightarrow> e = kErrorParameters)
     \<and> (lutEntries (lut_3d layer) \<noteq> None \<and> dim (lut_3d layer) \<noteq> 0
          \<and> (\<forall>s\<in>set (tone_map_sessions tm). \<not> reusable tm layer bcs s)
          \<and> AcquireToneMapSession_engine N tm layer bcs = None
        \<longrightarrow> e = kErrorNotSupported)
     \<and> (\<forall>k. lutEntries (lut_3d layer) \<noteq> None \<and> dim (lut_3d layer) \<noteq> 0
          \<and> (\<forall>s\<in>set (tone_map_sessions tm). \<not> reusable tm layer bcs s)
          \<and> AcquireToneMapSession_engine N tm layer bcs \<noteq> None
          \<and> 1 \<le> k \<and> k \<le> N
          \<and> (\<forall>j<k - 1. alloc_result (buffer_allocator tm)
                          (alloc_calls (buffer_allocator tm) + j) = kErrorNone)
          \<and> alloc_result (buffer_allocator tm)
                (alloc_calls (buffer_allocator tm) + (k - 1)) \<noteq> kErrorNone
        \<longrightarrow> e = alloc_result (buffer_allocator tm) (alloc_calls (buffer_allocator tm) + (k - 1)))
     \<and> (e \<noteq> kErrorNone \<longrightarrow>
          tone_map_sessions tm' = tone_map_sessions tm
          \<and> fb_session_index tm' = fb_session_index tm
          \<and> si' = si
          \<and> live (buffer_allocator tm') = live (buffer_allocator tm)
          \<and> engines (gpu tm') = engines (gpu tm))"
proof (cases rule: AcquireToneMapSession_cases [of layer N tm si bcs])
  case parameters
  then show ?thesis using assms by auto
next
  case (reuse k)
  have "k < length (tone_map_sessions tm)" by (rule reuse(3))
  then have "tone_map_sessions tm ! k \<in> set (tone_map_sessions tm)" by simp
  then have "\<not> (\<forall>s\<in>set (tone_map_sessions tm). \<not> reusable tm layer bcs s)"
    using reuse(4) by blast
  then show ?thesis using assms reuse(1,2,6) by auto
next
  case (no_engine tm1)
  then show ?thesis using assms by auto
next
  case (alloc_failed tm1 k1)
  let ?r = "\<lambda>j. alloc_result (buffer_allocator tm) (alloc_calls (buffer_allocator tm) + j)"
  have uniq: "k - 1 = k1"
    if "1 \<le> k" "k \<le> N" "\<forall>j<k - 1. ?r j = kErrorNone" "?r (k - 1) \<noteq> kErrorNone" for k
  proof (rule ccontr)
    assume "k - 1 \<noteq> k1"
    then consider "k - 1 < k1" | "k1 < k - 1" by linarith
    then show False
    proof cases
      case 1
      then show False using alloc_failed(7) that(4) by blast
    next
      case 2
      then show False using alloc_failed(6) that(3) by blast
    qed
  qed
  have e: "e = ?r k1" and s: "si' = si" and t: "tm' = tm1"
    using assms alloc_failed(8) by simp_all
  show ?thesis
    unfolding e s t
    using alloc_failed(1,2,4,6,9,10,11,12) uniq by auto
next
  case (created tm1 snew)
  have e: "e = kErrorNone" using assms created(6) by simp
  have "\<not> (1 \<le> k \<and> k \<le> N \<and> alloc_result (buffer_allocator tm)
                (alloc_calls (buffer_allocator tm) + (k - 1)) \<noteq> kErrorNone)" for k
    using created(5) by (cases k) auto
  then show ?thesis using e created(1,2,4) by auto
qed

text \<open>
  Claim C7. Let the layer carry a lookup table and \<open>N > 0\<close>. If \<open>i\<close> is the first index of
  a session that can be re-used, \<open>AcquireToneMapSession\<close> returns \<open>kErrorNone\<close> with
  \<open>*session_index = i\<close>, and the manager differs from the one before the call in that
  session alone, whose cursor is its previous value plus one modulo \<open>N\<close> and which is
  acquired. If no session can be re-used and the call succeeds, a new session is
  appended at the end of the collection, \<open>*session_index\<close> is its index, it is acquired
  and its cursor is the initial slot \<open>0\<close> of a newly constructed session.
\<close>

theorem AcquireToneMapSession_cursor:
  assumes "AcquireToneMapSession N tm layer si bcs = (e, si', tm')"
    and "0 < N"
    and "lutEntries (lut_3d layer) \<noteq> None" and "dim (lut_3d layer) \<noteq> 0"
  shows "(\<forall>i. i < length (tone_map_sessions tm)
            \<and> reusable tm layer bcs (tone_map_sessions tm ! i)
            \<and> (\<forall>j<i. \<not> reusable tm layer bcs (tone_map_sessions tm ! j))
          \<longrightarrow> e = kErrorNone \<and> si' = i
              \<and> tm' = tm\<lparr>tone_map_sessions := (tone_map_sessions tm)
                    [i := (tone_map_sessions tm ! i)
                       \<lparr>current_buffer_index :=
                          (current_buffer_index (tone_map_sessions tm ! i) + 1) mod N,
                        acquired := True\<rparr>]\<rparr>)
     \<and> ((\<forall>s\<in>set (tone_map_sessions tm). \<not> reusable tm layer bcs s) \<and> e = kErrorNone
          \<longrightarrow> (\<exists>snew. tone_map_sessions tm' = tone_map_sessions tm @ [snew]
                 \<and> si' = UINT32 (int (length (tone_map_sessions tm)))
                 \<and> current_buffer_index snew = current_buffer_index (ToneMapSession_new N)
                 \<and> current_buffer_index snew = 0
                 \<and> acquired snew))"
proof (cases rule: AcquireToneMapSession_cases [of layer N tm si bcs])
  case parameters
  then show ?thesis using assms by simp
next
  case (reuse k)
  have uniq: "i = k"
    if "i < length (tone_map_sessions tm)" "reusable tm layer bcs (tone_map_sessions tm ! i)"
       "\<forall>j<i. \<not> reusable tm layer bcs (tone_map_sessions tm ! j)" for i
  proof (rule ccontr)
    assume "i \<noteq> k"
    then consider "i < k" | "k < i" by linarith
    then show False
    proof cases
      case 1
      then show False using reuse(5) that(2) by blast
    next
      case 2
      then show False using reuse(4) that(3) by blast
    qed
  qed
  have in_set: "tone_map_sessions tm ! k \<in> set (tone_map_sessions tm)"
    using reuse(3) by simp
  have e: "e = kErrorNone" and s: "si' = k"
    and t: "tm' = tm\<lparr>tone_map_sessions := (tone_map_sessions tm)
                [k := (tone_map_sessions tm ! k)
                   \<lparr>current_buffer_index := (current_buffer_index (tone_map_sessions tm ! k) + 1) mod N,
                    acquired := True\<rparr>]\<rparr>"
    using trans [OF assms(1) [symmetric] reuse(6)] by blast+
  show ?thesis
  proof (intro conjI allI impI)
    fix i
    assume i: "i < length (tone_map_sessions tm)
            \<and> reusable tm layer bcs (tone_map_sessions tm ! i)
            \<and> (\<forall>j<i. \<not> reusable tm layer bcs (tone_map_sessions tm ! j))"
    then have ik: "i = k" using uniq by blast
    show "e = kErrorNone" by (rule e)
    show "si' = i" using s ik by simp
    show "tm' = tm\<lparr>tone_map_sessions := (tone_map_sessions tm)
                    [i := (tone_map_sessions tm ! i)
                       \<lparr>current_buffer_index :=
                          (current_buffer_index (tone_map_sessions tm ! i) + 1) mod N,
                        acquired := True\<rparr>]\<rparr>"
      unfolding ik by (rule t)
  next
    assume "(\<forall>s\<in>set (tone_map_sessions tm). \<not> reusable tm layer bcs s) \<and> e = kErrorNone"
    then have False using in_set reuse(4) by blast
    then show "\<exists>snew. tone_map_sessions tm' = tone_map_sessions tm @ [snew]
                 \<and> si' = UINT32 (int (length (tone_map_sessions tm)))
                 \<and> current_buffer_index snew = current_buffer_index (ToneMapSession_new N)
                 \<and> current_buffer_index snew = 0
                 \<and> acquired snew" ..
  qed
next
  case (no_engine tm1)
  have "e = kErrorNotSupported" using assms(1) no_engine(5) by simp
  moreover have "\<not> reusable tm layer bcs (tone_map_sessions tm ! i)"
    if "i < length (tone_map_sessions tm)" for i
    using no_engine(3) that by simp
  ultimately show ?thesis by auto
next
  case (alloc_failed tm1 k1)
  have "e \<noteq> kErrorNone" using assms(1) alloc_failed(6,8) by simp
  moreover have "\<not> reusable tm layer bcs (tone_map_sessions tm ! i)"
    if "i < length (tone_map_sessions tm)" for i
    using alloc_failed(3) that by simp
  ultimately show ?thesis by auto
next
  case (created tm1 snew)
  have nr: "\<not> reusable tm layer bcs (tone_map_sessions tm ! i)"
    if "i < length (tone_map_sessions tm)" for i
    using created(3) that by simp
  have s: "si' = UINT32 (int (length (tone_map_sessions tm)))" and t: "tm' = tm1"
    using assms(1) created(6) by simp_all
  have "\<exists>snew. tone_map_sessions tm' = tone_map_sessions tm @ [snew]
                 \<and> si' = UINT32 (int (length (tone_map_sessions tm)))
                 \<and> current_buffer_index snew = current_buffer_index (ToneMapSession_new N)
                 \<and> current_buffer_index snew = 0
                 \<and> acquired snew"
    apply (rule exI [where x = snew])
    using s t created(7,9,10) apply (simp add: ToneMapSession_new_def)
    done
  then show ?thesis using nr by blast
qed

lemma AcquireToneMapSession_succeeds:
  assumes "lutEntries (lut_3d layer) \<noteq> None" and "dim (lut_3d layer) \<noteq> 0"
    and "AcquireToneMapSession_engine N tm layer bcs \<noteq> None"
    and "\<forall>j<N. alloc_result (buffer_allocator tm) (alloc_calls (buffer_allocator tm) + j) = kErrorNone"
  shows "fst (AcquireToneMapSession N tm layer si bcs) = kErrorNone"
proof (cases rule: AcquireToneMapSession_cases [of layer N tm si bcs])
  case parameters
  then show ?thesis using assms by simp
next
  case (reuse k)
  then show ?thesis by simp
next
  case (no_engine tm1)
  then show ?thesis using assms by simp
next
  case (alloc_failed tm1 k1)
  then show ?thesis using assms(4) by blast
next
  case (created tm1 snew)
  then show ?thesis by simp
qed

lemma example_manager_sessions:
  "tone_map_sessions example_manager = [example_session\<lparr>acquired := True\<rparr>, example_session2]"
  "tone_map_sessions example_manager_no_gpu = tone_map_sessions example_manager"
  "tone_map_sessions example_manager_low_memory = tone_map_sessions example_manager"
  "live (buffer_allocator example_manager) = [1, 2, 3, 4]"
  "live (buffer_allocator example_manager_no_gpu) = [1, 2, 3, 4]"
  "live (buffer_allocator example_manager_low_memory) = [1, 2, 3, 4]"
  "engines (gpu example_manager) = [1, 2]"
  "engines (gpu example_manager_no_gpu) = [1, 2]"
  "engines (gpu example_manager_low_memory) = [1, 2]"
  by (simp_all add: example_manager_def example_manager_no_gpu_def example_manager_low_memory_def
      example_allocator_live_def example_allocator_def example_gpu_def)

lemma example_layer_lut:
  "lutEntries (lut_3d example_layer) \<noteq> None" "dim (lut_3d example_layer) \<noteq> 0"
  "dim (lut_3d example_layer_no_lut) = 0"
  by (simp_all add: example_layer_def example_layer_no_lut_def)

lemma example_not_reusable:
  "\<forall>s\<in>set (tone_map_sessions example_manager). \<not> reusable example_manager example_layer (1, 3) s"
  "\<forall>s\<in>set (tone_map_sessions example_manager_no_gpu).
      \<not> reusable example_manager_no_gpu example_layer (1, 3) s"
  "\<forall>s\<in>set (tone_map_sessions example_manager_low_memory).
      \<not> reusable example_manager_low_memory example_layer (1, 3) s"
  by (simp_all add: example_manager_sessions reusable_def IsSameToneMapConfig_def Let_def
      example_session_def example_session2_def)

lemma example_engine:
  "AcquireToneMapSession_engine 2 example_manager_no_gpu example_layer (1, 3) = None"
  "AcquireToneMapSession_engine 2 example_manager_low_memory example_layer (1, 3) \<noteq> None"
  "AcquireToneMapSession_engine 2 example_manager example_layer (1, 3) \<noteq> None"
  by (simp_all add: AcquireToneMapSession_engine_def OnTask_kCodeGetInstance_def
      TonemapperFactory_GetInstance_def Let_def example_manager_def example_manager_no_gpu_def
      example_manager_low_memory_def example_gpu_def)

theorem AcquireToneMapSession_failure_rollback_witness:
  "(\<exists>si' tm'. AcquireToneMapSession 2 example_manager example_layer_no_lut 7 (1, 3)
                 = (kErrorParameters, si', tm')
       \<and> tone_map_sessions tm' = [example_session\<lparr>acquired := True\<rparr>, example_session2]
       \<and> si' = 7 \<and> live (buffer_allocator tm') = [1, 2, 3, 4] \<and> engines (gpu tm') = [1, 2])
   \<and> (\<exists>si' tm'. AcquireToneMapSession 2 example_manager_no_gpu example_layer 7 (1, 3)
                 = (kErrorNotSupported, si', tm')
       \<and> tone_map_sessions tm' = [example_session\<lparr>acquired := True\<rparr>, example_session2]
       \<and> si' = 7 \<and> live (buffer_allocator tm') = [1, 2, 3, 4] \<and> engines (gpu tm') = [1, 2])
   \<and> (\<exists>si' tm'. AcquireToneMapSession 2 example_manager_low_memory example_layer 7 (1, 3)
                 = (kErrorMemory, si', tm')
       \<and> tone_map_sessions tm' = [example_session\<lparr>acquired := True\<rparr>, example_session2]
       \<and> si' = 7 \<and> live (buffer_allocator tm') = [1, 2, 3, 4] \<and> engines (gpu tm') = [1, 2])"
proof (intro conjI)
  obtain e si' tm' where
    r: "AcquireToneMapSession 2 example_manager example_layer_no_lut 7 (1, 3) = (e, si', tm')"
    by (rule prod_cases3)
  note T = AcquireToneMapSession_failure_rollback [OF r]
  have e: "e = kErrorParameters"
    using T [THEN conjunct1] example_layer_lut(3) by simp
  then have ne: "e \<noteq> kErrorNone" by simp
  show "\<exists>si' tm'. AcquireToneMapSession 2 example_manager example_layer_no_lut 7 (1, 3)
                 = (kErrorParameters, si', tm')
       \<and> tone_map_sessions tm' = [example_session\<lparr>acquired := True\<rparr>, example_session2]
       \<and> si' = 7 \<and> live (buffer_allocator tm') = [1, 2, 3, 4] \<and> engines (gpu tm') = [1, 2]"
    apply (rule exI [where x = si'], rule exI [where x = tm'])
    using r e T [THEN conjunct2, THEN conjunct2, THEN conjunct2, THEN mp, OF ne]
    apply (simp add: example_manager_sessions)
    done
next
  obtain e si' tm' where
    r: "AcquireToneMapSession 2 example_manager_no_gpu example_layer 7 (1, 3) = (e, si', tm')"
    by (rule prod_cases3)
  note T = AcquireToneMapSession_failure_rollback [OF r]
  have e: "e = kErrorNotSupported"
    using T [THEN conjunct2, THEN conjunct1] example_layer_lut(1,2) example_not_reusable(2)
      example_engine(1) by blast
  then have ne: "e \<noteq> kErrorNone" by simp
  show "\<exists>si' tm'. AcquireToneMapSession 2 example_manager_no_gpu example_layer 7 (1, 3)
                 = (kErrorNotSupported, si', tm')
       \<and> tone_map_sessions tm' = [example_session\<lparr>acquired := True\<rparr>, example_session2]
       \<and> si' = 7 \<and> live (buffer_allocator tm') = [1, 2, 3, 4] \<and> engines (gpu tm') = [1, 2]"
    apply (rule exI [where x = si'], rule exI [where x = tm'])
    using r e T [THEN conjunct2, THEN conjunct2, THEN conjunct2, THEN mp, OF ne]
    apply (simp add: example_manager_sessions)
    done
next
  obtain e si' tm' where
    r: "AcquireToneMapSession 2 example_manager_low_memory example_layer 7 (1, 3) = (e, si', tm')"
    by (rule prod_cases3)
  note T = AcquireToneMapSession_failure_rollback [OF r]
  let ?a = "buffer_allocator example_manager_low_memory"
  have a0: "\<forall>j<2 - 1. alloc_result ?a (alloc_calls ?a + j) = kErrorNone"
    by (simp add: example_manager_low_memory_def example_manager_def example_allocator_live_def
        example_allocator_def)
  have a1: "alloc_result ?a (alloc_calls ?a + (2 - 1)) = kErrorMemory"
    by (simp add: example_manager_low_memory_def example_manager_def example_allocator_live_def
        example_allocator_def)
  have a1': "alloc_result ?a (alloc_calls ?a + (2 - 1)) \<noteq> kErrorNone"
    unfolding a1 by simp
  have "e = alloc_result ?a (alloc_calls ?a + (2 - 1))"
    using T [THEN conjunct2, THEN conjunct2, THEN conjunct1, THEN spec, of 2]
      example_layer_lut(1,2) example_not_reusable(3) example_engine(2) a0 a1'
    by simp
  then have e: "e = kErrorMemory" using a1 by simp
  then have ne: "e \<noteq> kErrorNone" by simp
  show "\<exists>si' tm'. AcquireToneMapSession 2 example_manager_low_memory example_layer 7 (1, 3)
                 = (kErrorMemory, si', tm')
       \<and> tone_map_sessions tm' = [example_session\<lparr>acquired := True\<rparr>, example_session2]
       \<and> si' = 7 \<and> live (buffer_allocator tm') = [1, 2, 3, 4] \<and> engines (gpu tm') = [1, 2]"
    apply (rule exI [where x = si'], rule exI [where x = tm'])
    using r e T [THEN conjunct2, THEN conjunct2, THEN conjunct2, THEN mp, OF ne]
    apply (simp add: example_manager_sessions)
    done
qed

lemma example_reusable:
  "\<not> reusable example_manager example_layer (1, 2) (tone_map_sessions example_manager ! 0)"
  "reusable example_manager example_layer (1, 2) (tone_map_sessions example_manager ! 1)"
  by (simp_all add: example_manager_sessions reusable_def IsSameToneMapConfig_def Let_def
      example_session_def example_session2_def example_layer_def example_manager_def
      example_allocator_live_def example_allocator_def GetUnalignedWidth_def
      GetUnalignedHeight_def)

theorem AcquireToneMapSession_cursor_witness:
  "(\<exists>tm'. AcquireToneMapSession 2 example_manager example_layer 7 (1, 2) = (kErrorNone, 1, tm')
       \<and> current_buffer_index (tone_map_sessions example_manager ! 1) = 1
       \<and> current_buffer_index (tone_map_sessions tm' ! 1) = 0
       \<and> acquired (tone_map_sessions tm' ! 1)
       \<and> tone_map_sessions tm' ! 0 = example_session\<lparr>acquired := True\<rparr>)
   \<and> (\<exists>tm'. AcquireToneMapSession 2 example_manager example_layer 7 (1, 3) = (kErrorNone, 2, tm')
       \<and> length (tone_map_sessions tm') = 3
       \<and> current_buffer_index (tone_map_sessions tm' ! 2) = 0
       \<and> acquired (tone_map_sessions tm' ! 2))"
proof (intro conjI)
  obtain e si' tm' where
    r: "AcquireToneMapSession 2 example_manager example_layer 7 (1, 2) = (e, si', tm')"
    by (rule prod_cases3)
  have N: "0 < (2::nat)" by simp
  note T = AcquireToneMapSession_cursor [OF r N example_layer_lut(1,2)]
  have h: "1 < length (tone_map_sessions example_manager)
            \<and> reusable example_manager example_layer (1, 2) (tone_map_sessions example_manager ! 1)
            \<and> (\<forall>j<1. \<not> reusable example_manager example_layer (1, 2)
                        (tone_map_sessions example_manager ! j))"
    using example_reusable by (simp add: example_manager_sessions)
  from T [THEN conjunct1, THEN spec, of 1, THEN mp, OF h]
  have e: "e = kErrorNone" and s: "si' = 1"
    and t: "tm' = example_manager\<lparr>tone_map_sessions := (tone_map_sessions example_manager)
                    [1 := (tone_map_sessions example_manager ! 1)
                       \<lparr>current_buffer_index :=
                          (current_buffer_index (tone_map_sessions example_manager ! 1) + 1) mod 2,
                        acquired := True\<rparr>]\<rparr>"
    by blast+
  show "\<exists>tm'. AcquireToneMapSession 2 example_manager example_layer 7 (1, 2) = (kErrorNone, 1, tm')
       \<and> current_buffer_index (tone_map_sessions example_manager ! 1) = 1
       \<and> current_buffer_index (tone_map_sessions tm' ! 1) = 0
       \<and> acquired (tone_map_sessions tm' ! 1)
       \<and> tone_map_sessions tm' ! 0 = example_session\<lparr>acquired := True\<rparr>"
    apply (rule exI [where x = tm'])
    using r e s unfolding t
    apply (simp add: example_manager_sessions example_session2_def example_session_def)
    done
next
  obtain e si' tm' where
    r: "AcquireToneMapSession 2 example_manager example_layer 7 (1, 3) = (e, si', tm')"
    by (rule prod_cases3)
  have N: "0 < (2::nat)" by simp
  note T = AcquireToneMapSession_cursor [OF r N example_layer_lut(1,2)]
  have ok: "\<forall>j<2. alloc_result (buffer_allocator example_manager)
      (alloc_calls (buffer_allocator example_manager) + j) = kErrorNone"
    by (simp add: example_manager_def example_allocator_live_def example_allocator_def)
  have e: "e = kErrorNone"
    using AcquireToneMapSession_succeeds [OF example_layer_lut(1,2) example_engine(3) ok, of 7] r
    by simp
  from T [THEN conjunct2, THEN mp, OF conjI [OF example_not_reusable(1) e]]
  obtain snew where a: "tone_map_sessions tm' = tone_map_sessions example_manager @ [snew]"
    and s: "si' = UINT32 (int (length (tone_map_sessions example_manager)))"
    and c: "current_buffer_index snew = 0" and q: "acquired snew"
    by blast
  have s': "si' = 2" unfolding s by (simp add: example_manager_sessions UINT32_def)
  show "\<exists>tm'. AcquireToneMapSession 2 example_manager example_layer 7 (1, 3) = (kErrorNone, 2, tm')
       \<and> length (tone_map_sessions tm') = 3
       \<and> current_buffer_index (tone_map_sessions tm' ! 2) = 0
       \<and> acquired (tone_map_sessions tm' ! 2)"
    apply (rule exI [where x = tm'])
    using r e s' a c q apply (simp add: example_manager_sessions)
    done
qed

section \<open>HandleToneMap\<close>

lemma HandleToneMap_from_skip:
  "i < length (layers ls) \<Longrightarrow> \<not> tone_map (LayerRequest.flags (request (layers ls ! i))) \<Longrightarrow>
   HandleToneMap_from N i gc tm ls
     = HandleToneMap_from N (Suc i) (count_gpu gc (layers ls ! i)) tm ls"
  by (subst HandleToneMap_from.simps) (simp add: Let_def count_gpu_def)

lemma HandleToneMap_from_continue:
  "i < length (layers ls) \<Longrightarrow> tone_map (LayerRequest.flags (request (layers ls ! i))) \<Longrightarrow>
   HandleToneMap_layer N i (count_gpu gc (layers ls ! i)) tm (LayerStack.blend_cs ls)
     (layers ls ! i) = Inr (Continue, tm', layer') \<Longrightarrow>
   HandleToneMap_from N i gc tm ls
     = HandleToneMap_from N (Suc i) (count_gpu gc (layers ls ! i)) tm'
         (ls\<lparr>layers := (layers ls)[i := layer']\<rparr>)"
  by (subst HandleToneMap_from.simps) (simp add: Let_def count_gpu_def)

lemma HandleToneMap_from_return:
  "i < length (layers ls) \<Longrightarrow> tone_map (LayerRequest.flags (request (layers ls ! i))) \<Longrightarrow>
   HandleToneMap_layer N i (count_gpu gc (layers ls ! i)) tm (LayerStack.blend_cs ls)
     (layers ls ! i) = Inr (Return status, tm', layer') \<Longrightarrow>
   HandleToneMap_from N i gc tm ls
     = Inr (status, tm', ls\<lparr>layers := (layers ls)[i := layer']\<rparr>)"
  by (subst HandleToneMap_from.simps) (simp add: Let_def count_gpu_def)

lemma HandleToneMap_reaches_run:
  "HandleToneMap_reaches N tm0 ls0 i gc tm ls \<Longrightarrow>
   HandleToneMap N tm0 ls0 = HandleToneMap_from N i gc tm ls"
proof (induction rule: HandleToneMap_reaches.induct)
  case reach_entry
  show ?case by (simp add: HandleToneMap_def)
next
  case (reach_skip i gc tm ls)
  then show ?case by (simp add: HandleToneMap_from_skip)
next
  case (reach_mapped i gc tm ls tm' layer')
  then show ?case by (simp add: HandleToneMap_from_continue)
qed

lemma HandleToneMap_layer_shortcut:
  assumes "composition layer = kCompositionGPUTarget" "gc = 0" "tone_map_sessions tm \<noteq> []"
    "0 \<le> fb_session_index tm" "UINT32 (fb_session_index tm) < length (tone_map_sessions tm)"
  shows "HandleToneMap_layer N i gc tm bcs layer =
     Inr (Return 0,
          tm\<lparr>tone_map_sessions := (tone_map_sessions tm)
               [UINT32 (fb_session_index tm) :=
                  (tone_map_sessions tm ! UINT32 (fb_session_index tm))
                    \<lparr>layer_index := INT_cast i, acquired := True\<rparr>]\<rparr>,
          layer\<lparr>input_buffer :=
                  UpdateBuffer (tone_map_sessions tm ! UINT32 (fb_session_index tm)) Fence_null
                    (input_buffer layer)\<rparr>)"
  using assms by (simp add: HandleToneMap_layer_def vector_at_def)

lemma HandleToneMap_layer_failure:
  assumes "\<not> (composition layer = kCompositionGPUTarget \<and> gc = 0
              \<and> tone_map_sessions tm \<noteq> [] \<and> 0 \<le> fb_session_index tm)"
    and "AcquireToneMapSession N tm layer 0 bcs = (e, si, tm1)" and "e \<noteq> kErrorNone"
  shows "HandleToneMap_layer N i gc tm bcs layer =
     Inr (Return (- 1),
          Terminate N (case composition layer of
                         kCompositionGPUTarget \<Rightarrow> tm1\<lparr>fb_session_index := INT_cast si\<rparr>
                       | _ \<Rightarrow> tm1),
          layer)"
proof -
  have c: "(composition layer = kCompositionGPUTarget \<and> gc = 0
              \<and> tone_map_sessions tm \<noteq> [] \<and> 0 \<le> fb_session_index tm) = False"
    using assms(1) by simp
  show ?thesis
    unfolding HandleToneMap_layer_def c
    using assms(3) by (simp add: assms(2) Let_def)
qed

lemma HandleToneMap_reaches_later:
  "HandleToneMap_reaches N tm0 ls0 i gc tm ls \<Longrightarrow>
   length (layers ls) = length (layers ls0) \<and> (\<forall>j. i \<le> j \<longrightarrow> layers ls ! j = layers ls0 ! j)"
  by (induction rule: HandleToneMap_reaches.induct) auto

lemma AcquireToneMapSession_failed:
  assumes "AcquireToneMapSession N tm layer si bcs = (e, si', tm')" and "e \<noteq> kErrorNone"
  shows "tone_map_sessions tm' = tone_map_sessions tm"
    and "live (buffer_allocator tm') = live (buffer_allocator tm)"
    and "engines (gpu tm') = engines (gpu tm)"
    and "blits (gpu tm') = blits (gpu tm)"
proof -
  have "tone_map_sessions tm' = tone_map_sessions tm
    \<and> live (buffer_allocator tm') = live (buffer_allocator tm)
    \<and> engines (gpu tm') = engines (gpu tm) \<and> blits (gpu tm') = blits (gpu tm)"
  proof (cases rule: AcquireToneMapSession_cases [of layer N tm si bcs])
    case parameters
    then show ?thesis using assms by simp
  next
    case (reuse k)
    then show ?thesis using assms by simp
  next
    case (no_engine tm1)
    then show ?thesis using assms by simp
  next
    case (alloc_failed tm1 k1)
    then show ?thesis using assms by simp
  next
    case (created tm1 snew)
    then show ?thesis using assms by simp
  qed
  then show "tone_map_sessions tm' = tone_map_sessions tm"
    and "live (buffer_allocator tm') = live (buffer_allocator tm)"
    and "engines (gpu tm') = engines (gpu tm)"
    and "blits (gpu tm') = blits (gpu tm)"
    by simp_all
qed

text \<open>
  Claim C8. Let the loop of \<open>HandleToneMap\<close> stand at layer \<open>i\<close> with the count of GPU-composited
  layers at zero, the layer being flagged for tone mapping and of composition
  \<open>kCompositionGPUTarget\<close>, the collection not empty and the remembered frame-buffer index a
  valid index of it. Then \<open>HandleToneMap\<close> returns \<open>0\<close>; the manager is the one the loop
  stood at except that the frame-buffer session is bound to layer \<open>i\<close> and acquired; the
  stack is the one the loop stood at except that the layer's input buffer has been
  updated from that session with a null acquire fence; no blit has been dispatched; and
  every later layer is as \<open>HandleToneMap\<close> received it.
\<close>

theorem HandleToneMap_frame_buffer_shortcut:
  assumes "HandleToneMap_reaches N tm0 ls0 i 0 tm ls"
    and "i < length (layers ls)"
    and "tone_map (LayerRequest.flags (request (layers ls ! i)))"
    and "composition (layers ls ! i) = kCompositionGPUTarget"
    and "tone_map_sessions tm \<noteq> []"
    and "0 \<le> fb_session_index tm"
    and "UINT32 (fb_session_index tm) < length (tone_map_sessions tm)"
  shows "\<exists>tm' ls'. HandleToneMap N tm0 ls0 = Inr (0, tm', ls')
     \<and> tm' = tm\<lparr>tone_map_sessions := (tone_map_sessions tm)
               [UINT32 (fb_session_index tm) :=
                  (tone_map_sessions tm ! UINT32 (fb_session_index tm))
                    \<lparr>layer_index := INT_cast i, acquired := True\<rparr>]\<rparr>
     \<and> ls' = ls\<lparr>layers := (layers ls)
               [i := (layers ls ! i)
                  \<lparr>input_buffer :=
                     UpdateBuffer (tone_map_sessions tm ! UINT32 (fb_session_index tm))
                       Fence_null (input_buffer (layers ls ! i))\<rparr>]\<rparr>
     \<and> acquire_fence (input_buffer (layers ls' ! i)) = Fence_null
     \<and> blits (gpu tm') = blits (gpu tm)
     \<and> (\<forall>j. i < j \<longrightarrow> layers ls' ! j = layers ls0 ! j)"
proof -
  let ?l = "layers ls ! i"
  let ?f = "UINT32 (fb_session_index tm)"
  let ?tm' = "tm\<lparr>tone_map_sessions := (tone_map_sessions tm)
               [?f := (tone_map_sessions tm ! ?f)\<lparr>layer_index := INT_cast i, acquired := True\<rparr>]\<rparr>"
  let ?l' = "?l\<lparr>input_buffer := UpdateBuffer (tone_map_sessions tm ! ?f) Fence_null (input_buffer ?l)\<rparr>"
  have gc: "count_gpu 0 ?l = 0" using assms(4) by (simp add: count_gpu_def)
  have blk: "HandleToneMap_layer N i (count_gpu 0 ?l) tm (LayerStack.blend_cs ls) ?l
      = Inr (Return 0, ?tm', ?l')"
    using assms(4-7) gc by (simp add: HandleToneMap_layer_shortcut)
  have run: "HandleToneMap N tm0 ls0 = Inr (0, ?tm', ls\<lparr>layers := (layers ls)[i := ?l']\<rparr>)"
    using HandleToneMap_reaches_run [OF assms(1)]
      HandleToneMap_from_return [OF assms(2,3) blk] by simp
  have later: "\<forall>j. i < j \<longrightarrow> layers (ls\<lparr>layers := (layers ls)[i := ?l']\<rparr>) ! j = layers ls0 ! j"
    using HandleToneMap_reaches_later [OF assms(1)] by simp
  have fence: "acquire_fence (input_buffer (layers (ls\<lparr>layers := (layers ls)[i := ?l']\<rparr>) ! i))
      = Fence_null"
    using assms(2) by (simp add: UpdateBuffer_def Let_def)
  show ?thesis
    apply (rule exI [where x = ?tm'], rule exI [where x = "ls\<lparr>layers := (layers ls)[i := ?l']\<rparr>"])
    using run later fence apply simp
    done
qed

text \<open>
  Claim C5, as amended. Let the loop of \<open>HandleToneMap\<close> stand at layer \<open>i\<close>, flagged for tone
  mapping and not served by the frame-buffer short cut, and let \<open>AcquireToneMapSession\<close>
  fail for it. Then \<open>HandleToneMap\<close> returns \<open>-1\<close> and the collection is empty; when every
  session held \<open>N\<close> buffer slots, the buffers and engines of all sessions are no longer
  live; no blit is dispatched for the failing layer. The stack handed back is the one
  the loop stood at: the failing layer and the layers after it are as \<open>HandleToneMap\<close>
  received them, and the layers before it keep what the iterations before wrote into
  them.
\<close>

theorem HandleToneMap_acquisition_failure:
  assumes "HandleToneMap_reaches N tm0 ls0 i gc tm ls"
    and "i < length (layers ls)"
    and "tone_map (LayerRequest.flags (request (layers ls ! i)))"
    and "\<not> (composition (layers ls ! i) = kCompositionGPUTarget
            \<and> count_gpu gc (layers ls ! i) = 0
            \<and> tone_map_sessions tm \<noteq> [] \<and> 0 \<le> fb_session_index tm)"
    and "AcquireToneMapSession N tm (layers ls ! i) 0 (LayerStack.blend_cs ls) = (e, si, tm1)"
    and "e \<noteq> kErrorNone"
  shows "\<exists>tm'. HandleToneMap N tm0 ls0 = Inr (- 1, tm', ls)
     \<and> tone_map_sessions tm' = []
     \<and> ((\<forall>s\<in>set (tone_map_sessions tm). length (buffer_info s) = N) \<longrightarrow>
          live (buffer_allocator tm')
            = filter (\<lambda>h. h \<notin> closed_handles (tone_map_sessions tm)) (live (buffer_allocator tm))
          \<and> engines (gpu tm')
            = filter (\<lambda>e. e \<notin> closed_engines (tone_map_sessions tm)) (engines (gpu tm)))
     \<and> blits (gpu tm') = blits (gpu tm)
     \<and> (\<forall>j. i \<le> j \<longrightarrow> layers ls ! j = layers ls0 ! j)"
proof -
  let ?l = "layers ls ! i"
  let ?tm2 = "case composition ?l of
                kCompositionGPUTarget \<Rightarrow> tm1\<lparr>fb_session_index := INT_cast si\<rparr>
              | _ \<Rightarrow> tm1"
  note f = AcquireToneMapSession_failed [OF assms(5,6)]
  have s2: "tone_map_sessions ?tm2 = tone_map_sessions tm"
    and a2: "live (buffer_allocator ?tm2) = live (buffer_allocator tm)"
    and g2: "engines (gpu ?tm2) = engines (gpu tm)"
    and b2: "blits (gpu ?tm2) = blits (gpu tm)"
    using f by (simp_all split: LayerComposition.splits)
  have blk: "HandleToneMap_layer N i (count_gpu gc ?l) tm (LayerStack.blend_cs ls) ?l
      = Inr (Return (- 1), Terminate N ?tm2, ?l)"
    using assms(4,5,6) by (intro HandleToneMap_layer_failure) auto
  have run: "HandleToneMap N tm0 ls0 = Inr (- 1, Terminate N ?tm2, ls)"
    using HandleToneMap_reaches_run [OF assms(1)]
      HandleToneMap_from_return [OF assms(2,3) blk] by simp
  have empty: "tone_map_sessions (Terminate N ?tm2) = []"
    by (simp add: Terminate_def Terminate_loop_sessions)
  have res: "live (buffer_allocator (Terminate N ?tm2))
            = filter (\<lambda>h. h \<notin> closed_handles (tone_map_sessions tm)) (live (buffer_allocator tm))
          \<and> engines (gpu (Terminate N ?tm2))
            = filter (\<lambda>e. e \<notin> closed_engines (tone_map_sessions tm)) (engines (gpu tm))"
    if l: "\<forall>s\<in>set (tone_map_sessions tm). length (buffer_info s) = N"
  proof -
    have l2: "\<forall>s\<in>set (tone_map_sessions ?tm2). length (buffer_info s) = N"
      using l s2 by simp
    show ?thesis
      using s2 a2 g2 by (simp add: Terminate_def Terminate_loop_eq [OF l2])
  qed
  have bl: "blits (gpu (Terminate N ?tm2)) = blits (gpu tm)"
  proof (cases "tone_map_sessions ?tm2 = []")
    case True
    then show ?thesis using b2 by (simp add: Terminate_def)
  next
    case False
    have "blits (gpu (Terminate_loop N t)) = blits (gpu t)" for t
    proof (induction N t rule: Terminate_loop.induct)
      case (1 N t)
      show ?case
      proof (cases "tone_map_sessions t = []")
        case True
        then show ?thesis by (subst Terminate_loop.simps) simp
      next
        case False
        obtain a' g' where del: "ToneMapSession_delete N (buffer_allocator t, gpu t)
            (last (tone_map_sessions t)) = (a', g')"
          by (cases "ToneMapSession_delete N (buffer_allocator t, gpu t) (last (tone_map_sessions t))")
        have g: "blits g' = blits (gpu t)"
          using del by (auto simp: ToneMapSession_delete_def OnTask_kCodeDestroy_def
              delete_Tonemapper_eq split: prod.splits)
        show ?thesis
          using False 1 [OF False del [symmetric] refl] g
          by (subst Terminate_loop.simps) (simp add: del)
      qed
    qed
    then show ?thesis using b2 by (simp add: Terminate_def)
  qed
  have later: "\<forall>j. i \<le> j \<longrightarrow> layers ls ! j = layers ls0 ! j"
    using HandleToneMap_reaches_later [OF assms(1)] by simp
  show ?thesis
    apply (rule exI [where x = "Terminate N ?tm2"])
    using run empty res bl later apply simp
    done
qed

theorem HandleToneMap_frame_buffer_shortcut_witness:
  "\<exists>tm' ls'. HandleToneMap 2 example_manager example_stack_fb = Inr (0, tm', ls')
     \<and> acquired (tone_map_sessions tm' ! 1)
     \<and> layer_index (tone_map_sessions tm' ! 1) = 1
     \<and> tone_map_sessions tm' ! 0 = example_session\<lparr>acquired := True\<rparr>
     \<and> acquire_fence (input_buffer (layers ls' ! 1)) = Fence_null
     \<and> handle_id (input_buffer (layers ls' ! 1)) = 101
     \<and> blits (gpu tm') = []
     \<and> layers ls' ! 2 = example_layer"
proof -
  have l0: "0 < length (layers example_stack_fb)" by (simp add: example_stack_fb_def)
  have n0: "\<not> tone_map (LayerRequest.flags (request (layers example_stack_fb ! 0)))"
    by (simp add: example_stack_fb_def example_layer_plain_def)
  have c0: "count_gpu 0 (layers example_stack_fb ! 0) = 0"
    by (simp add: count_gpu_def example_stack_fb_def example_layer_plain_def example_layer_def)
  have r1: "HandleToneMap_reaches 2 example_manager example_stack_fb (Suc 0) 0
      example_manager example_stack_fb"
    using reach_skip [OF reach_entry l0 n0] unfolding c0 .
  have l1: "Suc 0 < length (layers example_stack_fb)" by (simp add: example_stack_fb_def)
  have t1: "tone_map (LayerRequest.flags (request (layers example_stack_fb ! Suc 0)))"
    by (simp add: example_stack_fb_def example_layer_fb_def example_layer_def)
  have g1: "composition (layers example_stack_fb ! Suc 0) = kCompositionGPUTarget"
    by (simp add: example_stack_fb_def example_layer_fb_def)
  have ne: "tone_map_sessions example_manager \<noteq> []" by (simp add: example_manager_def)
  have fb: "0 \<le> fb_session_index example_manager" by (simp add: example_manager_def)
  have u: "UINT32 (fb_session_index example_manager) = 1"
    by (simp add: example_manager_def UINT32_def)
  have v: "UINT32 (fb_session_index example_manager) < length (tone_map_sessions example_manager)"
    unfolding u by (simp add: example_manager_def)
  from HandleToneMap_frame_buffer_shortcut [OF r1 l1 t1 g1 ne fb v]
  obtain tm' ls' where
    r: "HandleToneMap 2 example_manager example_stack_fb = Inr (0, tm', ls')"
    and a: "tm' = example_manager\<lparr>tone_map_sessions := (tone_map_sessions example_manager)
               [UINT32 (fb_session_index example_manager) :=
                  (tone_map_sessions example_manager ! UINT32 (fb_session_index example_manager))
                    \<lparr>layer_index := INT_cast (Suc 0), acquired := True\<rparr>]\<rparr>"
    and b: "ls' = example_stack_fb\<lparr>layers := (layers example_stack_fb)
               [Suc 0 := (layers example_stack_fb ! Suc 0)
                  \<lparr>input_buffer :=
                     UpdateBuffer (tone_map_sessions example_manager
                                     ! UINT32 (fb_session_index example_manager))
                       Fence_null (input_buffer (layers example_stack_fb ! Suc 0))\<rparr>]\<rparr>"
    by blast
  have a': "acquired (tone_map_sessions tm' ! 1) \<and> layer_index (tone_map_sessions tm' ! 1) = 1
     \<and> tone_map_sessions tm' ! 0 = example_session\<lparr>acquired := True\<rparr> \<and> blits (gpu tm') = []"
    unfolding a u by (simp add: example_manager_def INT_cast_def example_gpu_def)
  have b': "acquire_fence (input_buffer (layers ls' ! 1)) = Fence_null
     \<and> handle_id (input_buffer (layers ls' ! 1)) = 101
     \<and> layers ls' ! 2 = example_layer"
    unfolding b u
    by (simp add: example_stack_fb_def example_manager_def example_session2_def
        example_session_def UpdateBuffer_def Let_def)
  show ?thesis
    apply (rule exI [where x = tm'], rule exI [where x = ls'])
    using r a' b' apply simp
    done
qed

theorem HandleToneMap_acquisition_failure_witness:
  "\<exists>tm' ls'. HandleToneMap 2 example_manager_new example_stack_failing = Inr (- 1, tm', ls')
     \<and> tone_map_sessions tm' = []
     \<and> length (blits (gpu tm')) = 1
     \<and> layers ls' ! 1 = example_layer_no_lut"
proof -
  let ?tm0 = example_manager_new
  let ?ls0 = example_stack_failing
  have l0: "0 < length (layers ?ls0)" by (simp add: example_stack_failing_def)
  have t0: "tone_map (LayerRequest.flags (request (layers ?ls0 ! 0)))"
    by (simp add: example_stack_failing_def example_layer_def)
  have c0: "count_gpu 0 (layers ?ls0 ! 0) = 0"
    by (simp add: count_gpu_def example_stack_failing_def example_layer_def)
  have "map_sum id fst (HandleToneMap_layer 2 0 0 ?tm0 (LayerStack.blend_cs ?ls0) (layers ?ls0 ! 0))
      = Inr Continue"
    by code_simp
  then obtain tm1 layer1 where
    blk: "HandleToneMap_layer 2 0 (count_gpu 0 (layers ?ls0 ! 0)) ?tm0 (LayerStack.blend_cs ?ls0)
            (layers ?ls0 ! 0) = Inr (Continue, tm1, layer1)"
    unfolding c0
    by (cases "HandleToneMap_layer 2 0 0 ?tm0 (LayerStack.blend_cs ?ls0) (layers ?ls0 ! 0)") auto
  let ?ls1 = "?ls0\<lparr>layers := (layers ?ls0)[0 := layer1]\<rparr>"
  have r1: "HandleToneMap_reaches 2 ?tm0 ?ls0 (Suc 0) 0 tm1 ?ls1"
    using reach_mapped [OF reach_entry l0 t0 blk] unfolding c0 .
  have l1: "Suc 0 < length (layers ?ls1)" by (simp add: example_stack_failing_def)
  have e1: "layers ?ls1 ! Suc 0 = example_layer_no_lut" by (simp add: example_stack_failing_def)
  have t1: "tone_map (LayerRequest.flags (request (layers ?ls1 ! Suc 0)))"
    unfolding e1 by (simp add: example_layer_no_lut_def example_layer_def)
  have n1: "\<not> (composition (layers ?ls1 ! Suc 0) = kCompositionGPUTarget
            \<and> count_gpu 0 (layers ?ls1 ! Suc 0) = 0
            \<and> tone_map_sessions tm1 \<noteq> [] \<and> 0 \<le> fb_session_index tm1)"
    unfolding e1 by (simp add: example_layer_no_lut_def example_layer_def)
  have acq: "AcquireToneMapSession 2 tm1 (layers ?ls1 ! Suc 0) 0 (LayerStack.blend_cs ?ls1)
      = (kErrorParameters, 0, tm1)"
    unfolding e1 by (simp add: AcquireToneMapSession_def example_layer_no_lut_def)
  have ne: "kErrorParameters \<noteq> kErrorNone" by simp
  from HandleToneMap_acquisition_failure [OF r1 l1 t1 n1 acq ne]
  obtain tm' where r: "HandleToneMap 2 ?tm0 ?ls0 = Inr (- 1, tm', ?ls1)"
    and e: "tone_map_sessions tm' = []"
    by blast
  have b: "length (blits (gpu (fst (snd (projr (HandleToneMap 2 ?tm0 ?ls0)))))) = 1"
    by code_simp
  show ?thesis
    apply (rule exI [where x = tm'], rule exI [where x = ?ls1])
    using r e e1 b apply simp
    done
qed

text \<open>The claim as stated fails on a stack of two layers flagged for tone mapping, the
  second without a lookup table, given to a new manager: \<open>HandleToneMap\<close> returns \<open>-1\<close>, yet
  the first layer has been blitted and its input buffer points to the intermediate
  buffer (handle id \<open>100\<close> instead of \<open>600\<close>, the fence of the blit as acquire fence), while
  the second layer is untouched.\<close>

theorem HandleToneMap_partial_frame_counterexample:
  "\<not> isl (HandleToneMap 2 example_manager_new example_stack_failing)
   \<and> fst (projr (HandleToneMap 2 example_manager_new example_stack_failing)) = - 1
   \<and> tone_map (LayerRequest.flags (request (layers example_stack_failing ! 0)))
   \<and> tone_map (LayerRequest.flags (request (layers example_stack_failing ! 1)))
   \<and> handle_id (input_buffer (layers example_stack_failing ! 0)) = 600
   \<and> handle_id (input_buffer (layers (snd (snd (projr
        (HandleToneMap 2 example_manager_new example_stack_failing)))) ! 0)) = 100
   \<and> acquire_fence (input_buffer (layers (snd (snd (projr
        (HandleToneMap 2 example_manager_new example_stack_failing)))) ! 0)) = Fence_Create 20
   \<and> length (blits (gpu (fst (snd (projr
        (HandleToneMap 2 example_manager_new example_stack_failing)))))) = 1
   \<and> input_buffer (layers (snd (snd (projr
        (HandleToneMap 2 example_manager_new example_stack_failing)))) ! 1)
       = input_buffer (layers example_stack_failing ! 1)"
  by code_simp

text \<open>A manager with no session and the remembered index \<open>0\<close> is what \<open>HandleToneMap\<close> leaves
  when acquisition fails for a frame-buffer target layer on an empty collection: the
  index is assigned before the error is checked, and \<open>Terminate\<close>, called on the empty
  collection, does not reset it.\<close>

lemma HandleToneMap_leaves_stale_index:
  "\<not> isl (HandleToneMap 2 example_manager_new example_stack_fb_no_lut)
   \<and> fst (projr (HandleToneMap 2 example_manager_new example_stack_fb_no_lut)) = - 1
   \<and> fb_session_index example_manager_new = - 1
   \<and> tone_map_sessions (fst (snd (projr
        (HandleToneMap 2 example_manager_new example_stack_fb_no_lut)))) = []
   \<and> fb_session_index (fst (snd (projr
        (HandleToneMap 2 example_manager_new example_stack_fb_no_lut)))) = 0"
  by code_simp

text \<open>The index left behind is used by the next frame. Given the example layer followed
  by the frame-buffer target, the manager left by the failure creates a session for the
  first layer at index \<open>0\<close>, which the stale index designates; the shortcut for the
  frame-buffer target then takes that session: the target is handed the first layer's
  intermediate buffer (handle id \<open>100\<close>), nothing is blitted for it, and the session is
  bound to the target. A manager whose remembered index is \<open>-1\<close> gives the target a session
  and a blit of its own (handle id \<open>102\<close>).\<close>

lemma HandleToneMap_uses_stale_index:
  "\<not> isl (HandleToneMap 2 example_manager_after_failure example_stack_two)
   \<and> fst (projr (HandleToneMap 2 example_manager_after_failure
        example_stack_two)) = 0
   \<and> map layer_index (tone_map_sessions (fst (snd (projr
        (HandleToneMap 2 example_manager_after_failure example_stack_two)))))
       = [1]
   \<and> length (blits (gpu (fst (snd (projr
        (HandleToneMap 2 example_manager_after_failure example_stack_two))))))
       = 1
   \<and> map (\<lambda>l. handle_id (input_buffer l)) (layers (snd (snd (projr
        (HandleToneMap 2 example_manager_after_failure example_stack_two)))))
       = [100, 100]
   \<and> map layer_index (tone_map_sessions (fst (snd (projr
        (HandleToneMap 2 example_manager_new example_stack_two))))) = [0, 1]
   \<and> fb_session_index (fst (snd (projr
        (HandleToneMap 2 example_manager_new example_stack_two)))) = 1
   \<and> length (blits (gpu (fst (snd (projr
        (HandleToneMap 2 example_manager_new example_stack_two)))))) = 2
   \<and> map (\<lambda>l. handle_id (input_buffer l)) (layers (snd (snd (projr
        (HandleToneMap 2 example_manager_new example_stack_two))))) = [100, 102]"
  by code_simp

section \<open>The model on two scenarios\<close>

text \<open>A frame with the example layer alone, given to a new manager: one session is
  created, both buffers of its pool are allocated at 1920 x 1080, one blit is dispatched
  and the descriptor of the buffer at the cursor is published into the layer.\<close>

lemma scenario_single_layer:
  "\<not> isl (HandleToneMap 2 example_manager_new example_stack)
   \<and> fst (projr (HandleToneMap 2 example_manager_new example_stack)) = 0
   \<and> length (tone_map_sessions (fst (snd (projr
        (HandleToneMap 2 example_manager_new example_stack))))) = 1
   \<and> map (\<lambda>b. (BufferConfig.width (buffer_config b), BufferConfig.height (buffer_config b),
                 private_data b))
        (buffer_info (hd (tone_map_sessions (fst (snd (projr
           (HandleToneMap 2 example_manager_new example_stack)))))))
       = [(1920, 1080, Some 1), (1920, 1080, Some 2)]
   \<and> live (buffer_allocator (fst (snd (projr
        (HandleToneMap 2 example_manager_new example_stack))))) = [1, 2]
   \<and> length (blits (gpu (fst (snd (projr
        (HandleToneMap 2 example_manager_new example_stack)))))) = 1
   \<and> handle_id (input_buffer (hd (layers (snd (snd (projr
        (HandleToneMap 2 example_manager_new example_stack))))))) = 100
   \<and> acquire_fence (input_buffer (hd (layers (snd (snd (projr
        (HandleToneMap 2 example_manager_new example_stack))))))) = Fence_Create 20"
  by code_simp

text \<open>The same frame a second time, after \<open>PostCommit\<close>: the session is re-used with its
  cursor advanced from \<open>0\<close> to \<open>1\<close>, and the allocator is not called again.\<close>

lemma scenario_second_frame:
  "\<not> isl example_second_frame
   \<and> fst (projr example_second_frame) = 0
   \<and> map current_buffer_index (tone_map_sessions (fst (snd (projr
        (HandleToneMap 2 example_manager_new example_stack))))) = [0]
   \<and> map current_buffer_index (tone_map_sessions (fst (snd (projr example_second_frame)))) = [1]
   \<and> alloc_calls (buffer_allocator (fst (snd (projr example_second_frame)))) = 2
   \<and> live (buffer_allocator (fst (snd (projr example_second_frame)))) = [1, 2]
   \<and> handle_id (input_buffer (hd (layers (snd (snd (projr example_second_frame)))))) = 101"
  by code_simp

end
